theory Spec2Isabelle
  imports Main "HOL-Library.AList"
begin

section \<open>The custom e621 tag search provider\<close>

text \<open>
  \<^verbatim>\<open>customE621TagSearchProvider\<close> asks the e621 autocomplete endpoint for tags and maps
  the answer to the tags' names. The HTTP request is the only effect; what \<^verbatim>\<open>Axios.get\<close>
  answers to a URL and its parameters is an input of the model. JavaScript values are
  modelled by the datatype \<open>js\<close>: the response body is parsed JSON, and reading a
  property can yield \<^verbatim>\<open>undefined\<close>. The fields of an object are an association list, read
  at the first binding of a key.
\<close>

datatype js =
    JUndefined
  | JNull
  | JBool bool
  | JNum int
  | JStr string
  | JArr "js list"
  | JObj "(string \<times> js) list"

datatype js_error =
    TypeError string
  | RequestError string

text \<open>A promise that has settled: \<open>Inl\<close> is a rejection, \<open>Inr\<close> a fulfilment.\<close>

type_synonym 'a settled = "js_error + 'a"

text \<open>JavaScript truthiness, as \<^verbatim>\<open>data || []\<close> reads it.\<close>

fun truthy :: "js \<Rightarrow> bool" where
  "truthy JUndefined = False"
| "truthy JNull = False"
| "truthy (JBool b) = b"
| "truthy (JNum n) = (n \<noteq> 0)"
| "truthy (JStr s) = (s \<noteq> [])"
| "truthy (JArr xs) = True"
| "truthy (JObj kvs) = True"

text \<open>
  \<^verbatim>\<open>d.name\<close>: reading a property of \<^verbatim>\<open>undefined\<close> or \<^verbatim>\<open>null\<close> throws a TypeError; an
  object yields the field or \<^verbatim>\<open>undefined\<close>; booleans, numbers, strings and arrays have
  no property \<^verbatim>\<open>name\<close>.
\<close>

fun getName :: "js \<Rightarrow> js settled" where
  "getName JUndefined = Inl (TypeError ''Cannot read properties of undefined'')"
| "getName JNull = Inl (TypeError ''Cannot read properties of null'')"
| "getName (JObj kvs) = Inr (case map_of kvs ''name'' of None \<Rightarrow> JUndefined | Some v \<Rightarrow> v)"
| "getName v = Inr JUndefined"

text \<open>\<^verbatim>\<open>xs.map(d => d.name)\<close>: the first entry that throws ends the map.\<close>

fun mapNames :: "js list \<Rightarrow> js list settled" where
  "mapNames [] = Inr []"
| "mapNames (d # ds) =
     (case getName d of
        Inl e \<Rightarrow> Inl e
      | Inr n \<Rightarrow> (case mapNames ds of Inl e \<Rightarrow> Inl e | Inr ns \<Rightarrow> Inr (n # ns)))"

text \<open>
  The \<^verbatim>\<open>then\<close> handler \<^verbatim>\<open>({ data }) => (data || []).map(d => d.name)\<close>. Only an array
  has a method \<^verbatim>\<open>map\<close>; on any other truthy value the call throws.
\<close>

definition onFulfilled :: "js \<Rightarrow> js list settled" where
  "onFulfilled rdata =
     (case (if truthy rdata then rdata else JArr []) of
        JArr xs \<Rightarrow> mapNames xs
      | _ \<Rightarrow> Inl (TypeError ''map is not a function''))"

text \<open>The \<^verbatim>\<open>catch\<close> handler logs the error and returns the empty list.\<close>

definition onRejected :: "js_error \<Rightarrow> js list" where
  "onRejected err = []"

text \<open>
  \<^verbatim>\<open>p.then(f).catch(g)\<close>: \<open>f\<close> runs on fulfilment, and \<open>g\<close> catches a rejection of \<open>p\<close>
  as well as an exception thrown by \<open>f\<close>.
\<close>

definition thenCatch :: "js settled \<Rightarrow> js list settled" where
  "thenCatch response =
     (case (case response of Inl e \<Rightarrow> Inl e | Inr rdata \<Rightarrow> onFulfilled rdata) of
        Inl e \<Rightarrow> Inr (onRejected e)
      | Inr names \<Rightarrow> Inr names)"

text \<open>\<^verbatim>\<open>process.env.E621_BASE_URL ?? 'http://192.168.0.113'\<close>\<close>

definition getBaseE621Url :: "(string \<Rightarrow> string option) \<Rightarrow> string" where
  "getBaseE621Url processEnv =
     (case processEnv ''E621_BASE_URL'' of None \<Rightarrow> ''http://192.168.0.113'' | Some u \<Rightarrow> u)"

type_synonym axios = "string \<Rightarrow> (string \<times> string) list \<Rightarrow> js settled"

definition customE621TagSearchProvider ::
  "axios \<Rightarrow> (string \<Rightarrow> string option) \<Rightarrow> string \<Rightarrow> js list settled" where
  "customE621TagSearchProvider axiosGet processEnv v =
     thenCatch
       (axiosGet (getBaseE621Url processEnv @ ''/tags/autocomplete.json?'')
          [(''expiry'', ''7''), (''search[name_matches]'', v)])"

text \<open>
  What the claims say about the entries of a response: an entry is nullish when reading
  a property of it throws, and \<open>nameOf\<close> is the value of its \<^verbatim>\<open>name\<close>.
\<close>

fun nullish :: "js \<Rightarrow> bool" where
  "nullish JUndefined = True"
| "nullish JNull = True"
| "nullish v = False"

fun nameOf :: "js \<Rightarrow> js" where
  "nameOf (JObj kvs) = (case map_of kvs ''name'' of None \<Rightarrow> JUndefined | Some v \<Rightarrow> v)"
| "nameOf v = JUndefined"

text \<open>The entries of a well-formed answer: objects that carry a \<^verbatim>\<open>name\<close>.\<close>

fun tagEntry :: "string \<Rightarrow> js" where
  "tagEntry n = JObj [(''id'', JNum 1), (''name'', JStr n)]"

text \<open>A server for the examples: it knows two tags that match \<^verbatim>\<open>wo\<close>.\<close>

definition twoTags :: axios where
  "twoTags url params =
     (if url = ''http://192.168.0.113/tags/autocomplete.json?''
         \<and> params = [(''expiry'', ''7''), (''search[name_matches]'', ''wo'')]
      then Inr (JArr [tagEntry ''wolf'', JObj [(''name'', JStr ''wolverine'')]])
      else Inl (RequestError ''unexpected request''))"

section \<open>JavaScript strings\<close>

text \<open>
  Where the code looks into the characters of a string (\<^verbatim>\<open>toLowerCase\<close>, \<^verbatim>\<open>trim\<close>), the
  string is modelled as JavaScript has it: a sequence of UTF-16 code units, each a number
  below 65536. \<open>str\<close> writes the JavaScript string of a literal: the code units of an
  ASCII character are its code.
\<close>

type_synonym jsString = "nat list"

abbreviation str :: "string \<Rightarrow> jsString" where
  "str s \<equiv> map of_char s"

text \<open>
  The code points of a string (\<^verbatim>\<open>StringToCodePoints\<close>): a leading surrogate followed by a
  trailing surrogate is one code point above 0xFFFF; any other code unit, a lone surrogate
  too, is the code point of its own value. \<open>utf16EncodeCodePoint\<close> is the way back.
\<close>

definition isLeadingSurrogate :: "nat \<Rightarrow> bool" where
  "isLeadingSurrogate u = (0xD800 \<le> u \<and> u \<le> 0xDBFF)"

definition isTrailingSurrogate :: "nat \<Rightarrow> bool" where
  "isTrailingSurrogate u = (0xDC00 \<le> u \<and> u \<le> 0xDFFF)"

fun stringToCodePoints :: "jsString \<Rightarrow> nat list" where
  "stringToCodePoints [] = []"
| "stringToCodePoints [u] = [u]"
| "stringToCodePoints (u # v # us) =
     (if isLeadingSurrogate u \<and> isTrailingSurrogate v
      then (0x10000 + (u - 0xD800) * 0x400 + (v - 0xDC00)) # stringToCodePoints us
      else u # stringToCodePoints (v # us))"

definition utf16EncodeCodePoint :: "nat \<Rightarrow> jsString" where
  "utf16EncodeCodePoint cp =
     (if cp < 0x10000 then [cp]
      else [0xD800 + (cp - 0x10000) div 0x400, 0xDC00 + (cp - 0x10000) mod 0x400])"

text \<open>
  \<^verbatim>\<open>String.prototype.toLowerCase\<close> maps every code point to its lower-case mapping in the
  Unicode Character Database, with the mappings of \<^verbatim>\<open>SpecialCasing.txt\<close> that depend on no
  language. The tables are those of Unicode 14.0; the versions of the database differ in
  the letters of scripts that were added later. \<open>lowercaseRuns\<close> holds the simple
  mappings of \<^verbatim>\<open>UnicodeData.txt\<close> as runs \<open>(lo, hi, step, target)\<close>: the
  code points \<open>lo\<close>, \<open>lo + step\<close>, ... up to \<open>hi\<close> map to \<open>target\<close>,
  \<open>target + step\<close>, ...; a code point in no run is its own lower case.
\<close>

definition lowercaseRuns :: "(nat \<times> nat \<times> nat \<times> nat) list" where
  "lowercaseRuns =
     [(0x41, 0x5A, 1, 0x61), (0xC0, 0xD6, 1, 0xE0), (0xD8, 0xDE, 1, 0xF8),
      (0x100, 0x12E, 2, 0x101), (0x132, 0x136, 2, 0x133), (0x139, 0x147, 2, 0x13A),
      (0x14A, 0x176, 2, 0x14B), (0x178, 0x178, 1, 0xFF), (0x179, 0x17D, 2, 0x17A),
      (0x181, 0x181, 1, 0x253), (0x182, 0x184, 2, 0x183), (0x186, 0x186, 1, 0x254),
      (0x187, 0x187, 1, 0x188), (0x189, 0x18A, 1, 0x256), (0x18B, 0x18B, 1, 0x18C),
      (0x18E, 0x18E, 1, 0x1DD), (0x18F, 0x18F, 1, 0x259), (0x190, 0x190, 1, 0x25B),
      (0x191, 0x191, 1, 0x192), (0x193, 0x193, 1, 0x260), (0x194, 0x194, 1, 0x263),
      (0x196, 0x196, 1, 0x269), (0x197, 0x197, 1, 0x268), (0x198, 0x198, 1, 0x199),
      (0x19C, 0x19C, 1, 0x26F), (0x19D, 0x19D, 1, 0x272), (0x19F, 0x19F, 1, 0x275),
      (0x1A0, 0x1A4, 2, 0x1A1), (0x1A6, 0x1A6, 1, 0x280), (0x1A7, 0x1A7, 1, 0x1A8),
      (0x1A9, 0x1A9, 1, 0x283), (0x1AC, 0x1AC, 1, 0x1AD), (0x1AE, 0x1AE, 1, 0x288),
      (0x1AF, 0x1AF, 1, 0x1B0), (0x1B1, 0x1B2, 1, 0x28A), (0x1B3, 0x1B5, 2, 0x1B4),
      (0x1B7, 0x1B7, 1, 0x292), (0x1B8, 0x1B8, 1, 0x1B9), (0x1BC, 0x1BC, 1, 0x1BD),
      (0x1C4, 0x1C4, 1, 0x1C6), (0x1C5, 0x1C5, 1, 0x1C6), (0x1C7, 0x1C7, 1, 0x1C9),
      (0x1C8, 0x1C8, 1, 0x1C9), (0x1CA, 0x1CA, 1, 0x1CC), (0x1CB, 0x1DB, 2, 0x1CC),
      (0x1DE, 0x1EE, 2, 0x1DF), (0x1F1, 0x1F1, 1, 0x1F3), (0x1F2, 0x1F4, 2, 0x1F3),
      (0x1F6, 0x1F6, 1, 0x195), (0x1F7, 0x1F7, 1, 0x1BF), (0x1F8, 0x21E, 2, 0x1F9),
      (0x220, 0x220, 1, 0x19E), (0x222, 0x232, 2, 0x223), (0x23A, 0x23A, 1, 0x2C65),
      (0x23B, 0x23B, 1, 0x23C), (0x23D, 0x23D, 1, 0x19A), (0x23E, 0x23E, 1, 0x2C66),
      (0x241, 0x241, 1, 0x242), (0x243, 0x243, 1, 0x180), (0x244, 0x244, 1, 0x289),
      (0x245, 0x245, 1, 0x28C), (0x246, 0x24E, 2, 0x247), (0x370, 0x372, 2, 0x371),
      (0x376, 0x376, 1, 0x377), (0x37F, 0x37F, 1, 0x3F3), (0x386, 0x386, 1, 0x3AC),
      (0x388, 0x38A, 1, 0x3AD), (0x38C, 0x38C, 1, 0x3CC), (0x38E, 0x38F, 1, 0x3CD),
      (0x391, 0x3A1, 1, 0x3B1), (0x3A3, 0x3AB, 1, 0x3C3), (0x3CF, 0x3CF, 1, 0x3D7),
      (0x3D8, 0x3EE, 2, 0x3D9), (0x3F4, 0x3F4, 1, 0x3B8), (0x3F7, 0x3F7, 1, 0x3F8),
      (0x3F9, 0x3F9, 1, 0x3F2), (0x3FA, 0x3FA, 1, 0x3FB), (0x3FD, 0x3FF, 1, 0x37B),
      (0x400, 0x40F, 1, 0x450), (0x410, 0x42F, 1, 0x430), (0x460, 0x480, 2, 0x461),
      (0x48A, 0x4BE, 2, 0x48B), (0x4C0, 0x4C0, 1, 0x4CF), (0x4C1, 0x4CD, 2, 0x4C2),
      (0x4D0, 0x52E, 2, 0x4D1), (0x531, 0x556, 1, 0x561), (0x10A0, 0x10C5, 1, 0x2D00),
      (0x10C7, 0x10C7, 1, 0x2D27), (0x10CD, 0x10CD, 1, 0x2D2D), (0x13A0, 0x13EF, 1, 0xAB70),
      (0x13F0, 0x13F5, 1, 0x13F8), (0x1C90, 0x1CBA, 1, 0x10D0), (0x1CBD, 0x1CBF, 1, 0x10FD),
      (0x1E00, 0x1E94, 2, 0x1E01), (0x1E9E, 0x1E9E, 1, 0xDF), (0x1EA0, 0x1EFE, 2, 0x1EA1),
      (0x1F08, 0x1F0F, 1, 0x1F00), (0x1F18, 0x1F1D, 1, 0x1F10), (0x1F28, 0x1F2F, 1, 0x1F20),
      (0x1F38, 0x1F3F, 1, 0x1F30), (0x1F48, 0x1F4D, 1, 0x1F40), (0x1F59, 0x1F5F, 2, 0x1F51),
      (0x1F68, 0x1F6F, 1, 0x1F60), (0x1F88, 0x1F8F, 1, 0x1F80), (0x1F98, 0x1F9F, 1, 0x1F90),
      (0x1FA8, 0x1FAF, 1, 0x1FA0), (0x1FB8, 0x1FB9, 1, 0x1FB0), (0x1FBA, 0x1FBB, 1, 0x1F70),
      (0x1FBC, 0x1FBC, 1, 0x1FB3), (0x1FC8, 0x1FCB, 1, 0x1F72), (0x1FCC, 0x1FCC, 1, 0x1FC3),
      (0x1FD8, 0x1FD9, 1, 0x1FD0), (0x1FDA, 0x1FDB, 1, 0x1F76), (0x1FE8, 0x1FE9, 1, 0x1FE0),
      (0x1FEA, 0x1FEB, 1, 0x1F7A), (0x1FEC, 0x1FEC, 1, 0x1FE5), (0x1FF8, 0x1FF9, 1, 0x1F78),
      (0x1FFA, 0x1FFB, 1, 0x1F7C), (0x1FFC, 0x1FFC, 1, 0x1FF3), (0x2126, 0x2126, 1, 0x3C9),
      (0x212A, 0x212A, 1, 0x6B), (0x212B, 0x212B, 1, 0xE5), (0x2132, 0x2132, 1, 0x214E),
      (0x2160, 0x216F, 1, 0x2170), (0x2183, 0x2183, 1, 0x2184), (0x24B6, 0x24CF, 1, 0x24D0),
      (0x2C00, 0x2C2F, 1, 0x2C30), (0x2C60, 0x2C60, 1, 0x2C61), (0x2C62, 0x2C62, 1, 0x26B),
      (0x2C63, 0x2C63, 1, 0x1D7D), (0x2C64, 0x2C64, 1, 0x27D), (0x2C67, 0x2C6B, 2, 0x2C68),
      (0x2C6D, 0x2C6D, 1, 0x251), (0x2C6E, 0x2C6E, 1, 0x271), (0x2C6F, 0x2C6F, 1, 0x250),
      (0x2C70, 0x2C70, 1, 0x252), (0x2C72, 0x2C72, 1, 0x2C73), (0x2C75, 0x2C75, 1, 0x2C76),
      (0x2C7E, 0x2C7F, 1, 0x23F), (0x2C80, 0x2CE2, 2, 0x2C81), (0x2CEB, 0x2CED, 2, 0x2CEC),
      (0x2CF2, 0x2CF2, 1, 0x2CF3), (0xA640, 0xA66C, 2, 0xA641), (0xA680, 0xA69A, 2, 0xA681),
      (0xA722, 0xA72E, 2, 0xA723), (0xA732, 0xA76E, 2, 0xA733), (0xA779, 0xA77B, 2, 0xA77A),
      (0xA77D, 0xA77D, 1, 0x1D79), (0xA77E, 0xA786, 2, 0xA77F), (0xA78B, 0xA78B, 1, 0xA78C),
      (0xA78D, 0xA78D, 1, 0x265), (0xA790, 0xA792, 2, 0xA791), (0xA796, 0xA7A8, 2, 0xA797),
      (0xA7AA, 0xA7AA, 1, 0x266), (0xA7AB, 0xA7AB, 1, 0x25C), (0xA7AC, 0xA7AC, 1, 0x261),
      (0xA7AD, 0xA7AD, 1, 0x26C), (0xA7AE, 0xA7AE, 1, 0x26A), (0xA7B0, 0xA7B0, 1, 0x29E),
      (0xA7B1, 0xA7B1, 1, 0x287), (0xA7B2, 0xA7B2, 1, 0x29D), (0xA7B3, 0xA7B3, 1, 0xAB53),
      (0xA7B4, 0xA7C2, 2, 0xA7B5), (0xA7C4, 0xA7C4, 1, 0xA794), (0xA7C5, 0xA7C5, 1, 0x282),
      (0xA7C6, 0xA7C6, 1, 0x1D8E), (0xA7C7, 0xA7C9, 2, 0xA7C8), (0xA7D0, 0xA7D0, 1, 0xA7D1),
      (0xA7D6, 0xA7D8, 2, 0xA7D7), (0xA7F5, 0xA7F5, 1, 0xA7F6), (0xFF21, 0xFF3A, 1, 0xFF41),
      (0x10400, 0x10427, 1, 0x10428), (0x104B0, 0x104D3, 1, 0x104D8), (0x10570, 0x1057A, 1, 0x10597),
      (0x1057C, 0x1058A, 1, 0x105A3), (0x1058C, 0x10592, 1, 0x105B3), (0x10594, 0x10595, 1, 0x105BB),
      (0x10C80, 0x10CB2, 1, 0x10CC0), (0x118A0, 0x118BF, 1, 0x118C0), (0x16E40, 0x16E5F, 1, 0x16E60),
      (0x1E900, 0x1E921, 1, 0x1E922)]"

definition inRun :: "nat \<Rightarrow> nat \<times> nat \<times> nat \<times> nat \<Rightarrow> bool" where
  "inRun c run = (case run of (lo, hi, step, target) \<Rightarrow>
     lo \<le> c \<and> c \<le> hi \<and> (c - lo) mod step = 0)"

definition simpleLowercase :: "nat \<Rightarrow> nat" where
  "simpleLowercase c =
     (case find (inRun c) lowercaseRuns of
        None \<Rightarrow> c
      | Some (lo, hi, step, target) \<Rightarrow> target + (c - lo))"

text \<open>
  The properties \<^verbatim>\<open>Cased\<close> and \<^verbatim>\<open>Case_Ignorable\<close> of \<^verbatim>\<open>DerivedCoreProperties.txt\<close>, as
  ranges \<open>(lo, hi)\<close>.
\<close>

definition casedRanges :: "(nat \<times> nat) list" where
  "casedRanges =
     [(0x41, 0x5A), (0x61, 0x7A), (0xAA, 0xAA), (0xB5, 0xB5),
      (0xBA, 0xBA), (0xC0, 0xD6), (0xD8, 0xF6), (0xF8, 0x1BA),
      (0x1BC, 0x1BF), (0x1C4, 0x293), (0x295, 0x2B8), (0x2C0, 0x2C1),
      (0x2E0, 0x2E4), (0x345, 0x345), (0x370, 0x373), (0x376, 0x377),
      (0x37A, 0x37D), (0x37F, 0x37F), (0x386, 0x386), (0x388, 0x38A),
      (0x38C, 0x38C), (0x38E, 0x3A1), (0x3A3, 0x3F5), (0x3F7, 0x481),
      (0x48A, 0x52F), (0x531, 0x556), (0x560, 0x588), (0x10A0, 0x10C5),
      (0x10C7, 0x10C7), (0x10CD, 0x10CD), (0x10D0, 0x10FA), (0x10FD, 0x10FF),
      (0x13A0, 0x13F5), (0x13F8, 0x13FD), (0x1C80, 0x1C88), (0x1C90, 0x1CBA),
      (0x1CBD, 0x1CBF), (0x1D00, 0x1DBF), (0x1E00, 0x1F15), (0x1F18, 0x1F1D),
      (0x1F20, 0x1F45), (0x1F48, 0x1F4D), (0x1F50, 0x1F57), (0x1F59, 0x1F59),
      (0x1F5B, 0x1F5B), (0x1F5D, 0x1F5D), (0x1F5F, 0x1F7D), (0x1F80, 0x1FB4),
      (0x1FB6, 0x1FBC), (0x1FBE, 0x1FBE), (0x1FC2, 0x1FC4), (0x1FC6, 0x1FCC),
      (0x1FD0, 0x1FD3), (0x1FD6, 0x1FDB), (0x1FE0, 0x1FEC), (0x1FF2, 0x1FF4),
      (0x1FF6, 0x1FFC), (0x2071, 0x2071), (0x207F, 0x207F), (0x2090, 0x209C),
      (0x2102, 0x2102), (0x2107, 0x2107), (0x210A, 0x2113), (0x2115, 0x2115),
      (0x2119, 0x211D), (0x2124, 0x2124), (0x2126, 0x2126), (0x2128, 0x2128),
      (0x212A, 0x212D), (0x212F, 0x2134), (0x2139, 0x2139), (0x213C, 0x213F),
      (0x2145, 0x2149), (0x214E, 0x214E), (0x2160, 0x217F), (0x2183, 0x2184),
      (0x24B6, 0x24E9), (0x2C00, 0x2CE4), (0x2CEB, 0x2CEE), (0x2CF2, 0x2CF3),
      (0x2D00, 0x2D25), (0x2D27, 0x2D27), (0x2D2D, 0x2D2D), (0xA640, 0xA66D),
      (0xA680, 0xA69D), (0xA722, 0xA787), (0xA78B, 0xA78E), (0xA790, 0xA7CA),
      (0xA7D0, 0xA7D1), (0xA7D3, 0xA7D3), (0xA7D5, 0xA7D9), (0xA7F5, 0xA7F6),
      (0xA7F8, 0xA7FA), (0xAB30, 0xAB5A), (0xAB5C, 0xAB68), (0xAB70, 0xABBF),
      (0xFB00, 0xFB06), (0xFB13, 0xFB17), (0xFF21, 0xFF3A), (0xFF41, 0xFF5A),
      (0x10400, 0x1044F), (0x104B0, 0x104D3), (0x104D8, 0x104FB), (0x10570, 0x1057A),
      (0x1057C, 0x1058A), (0x1058C, 0x10592), (0x10594, 0x10595), (0x10597, 0x105A1),
      (0x105A3, 0x105B1), (0x105B3, 0x105B9), (0x105BB, 0x105BC), (0x10780, 0x10780),
      (0x10783, 0x10785), (0x10787, 0x107B0), (0x107B2, 0x107BA), (0x10C80, 0x10CB2),
      (0x10CC0, 0x10CF2), (0x118A0, 0x118DF), (0x16E40, 0x16E7F), (0x1D400, 0x1D454),
      (0x1D456, 0x1D49C), (0x1D49E, 0x1D49F), (0x1D4A2, 0x1D4A2), (0x1D4A5, 0x1D4A6),
      (0x1D4A9, 0x1D4AC), (0x1D4AE, 0x1D4B9), (0x1D4BB, 0x1D4BB), (0x1D4BD, 0x1D4C3),
      (0x1D4C5, 0x1D505), (0x1D507, 0x1D50A), (0x1D50D, 0x1D514), (0x1D516, 0x1D51C),
      (0x1D51E, 0x1D539), (0x1D53B, 0x1D53E), (0x1D540, 0x1D544), (0x1D546, 0x1D546),
      (0x1D54A, 0x1D550), (0x1D552, 0x1D6A5), (0x1D6A8, 0x1D6C0), (0x1D6C2, 0x1D6DA),
      (0x1D6DC, 0x1D6FA), (0x1D6FC, 0x1D714), (0x1D716, 0x1D734), (0x1D736, 0x1D74E),
      (0x1D750, 0x1D76E), (0x1D770, 0x1D788), (0x1D78A, 0x1D7A8), (0x1D7AA, 0x1D7C2),
      (0x1D7C4, 0x1D7CB), (0x1DF00, 0x1DF09), (0x1DF0B, 0x1DF1E), (0x1E900, 0x1E943),
      (0x1F130, 0x1F149), (0x1F150, 0x1F169), (0x1F170, 0x1F189)]"

definition caseIgnorableRanges :: "(nat \<times> nat) list" where
  "caseIgnorableRanges =
     [(0x27, 0x27), (0x2E, 0x2E), (0x3A, 0x3A), (0x5E, 0x5E),
      (0x60, 0x60), (0xA8, 0xA8), (0xAD, 0xAD), (0xAF, 0xAF),
      (0xB4, 0xB4), (0xB7, 0xB8), (0x2B0, 0x36F), (0x374, 0x375),
      (0x37A, 0x37A), (0x384, 0x385), (0x387, 0x387), (0x483, 0x489),
      (0x559, 0x559), (0x55F, 0x55F), (0x591, 0x5BD), (0x5BF, 0x5BF),
      (0x5C1, 0x5C2), (0x5C4, 0x5C5), (0x5C7, 0x5C7), (0x5F4, 0x5F4),
      (0x600, 0x605), (0x610, 0x61A), (0x61C, 0x61C), (0x640, 0x640),
      (0x64B, 0x65F), (0x670, 0x670), (0x6D6, 0x6DD), (0x6DF, 0x6E8),
      (0x6EA, 0x6ED), (0x70F, 0x70F), (0x711, 0x711), (0x730, 0x74A),
      (0x7A6, 0x7B0), (0x7EB, 0x7F5), (0x7FA, 0x7FA), (0x7FD, 0x7FD),
      (0x816, 0x82D), (0x859, 0x85B), (0x888, 0x888), (0x890, 0x891),
      (0x898, 0x89F), (0x8C9, 0x902), (0x93A, 0x93A), (0x93C, 0x93C),
      (0x941, 0x948), (0x94D, 0x94D), (0x951, 0x957), (0x962, 0x963),
      (0x971, 0x971), (0x981, 0x981), (0x9BC, 0x9BC), (0x9C1, 0x9C4),
      (0x9CD, 0x9CD), (0x9E2, 0x9E3), (0x9FE, 0x9FE), (0xA01, 0xA02),
      (0xA3C, 0xA3C), (0xA41, 0xA42), (0xA47, 0xA48), (0xA4B, 0xA4D),
      (0xA51, 0xA51), (0xA70, 0xA71), (0xA75, 0xA75), (0xA81, 0xA82),
      (0xABC, 0xABC), (0xAC1, 0xAC5), (0xAC7, 0xAC8), (0xACD, 0xACD),
      (0xAE2, 0xAE3), (0xAFA, 0xAFF), (0xB01, 0xB01), (0xB3C, 0xB3C),
      (0xB3F, 0xB3F), (0xB41, 0xB44), (0xB4D, 0xB4D), (0xB55, 0xB56),
      (0xB62, 0xB63), (0xB82, 0xB82), (0xBC0, 0xBC0), (0xBCD, 0xBCD),
      (0xC00, 0xC00), (0xC04, 0xC04), (0xC3C, 0xC3C), (0xC3E, 0xC40),
      (0xC46, 0xC48), (0xC4A, 0xC4D), (0xC55, 0xC56), (0xC62, 0xC63),
      (0xC81, 0xC81), (0xCBC, 0xCBC), (0xCBF, 0xCBF), (0xCC6, 0xCC6),
      (0xCCC, 0xCCD), (0xCE2, 0xCE3), (0xD00, 0xD01), (0xD3B, 0xD3C),
      (0xD41, 0xD44), (0xD4D, 0xD4D), (0xD62, 0xD63), (0xD81, 0xD81),
      (0xDCA, 0xDCA), (0xDD2, 0xDD4), (0xDD6, 0xDD6), (0xE31, 0xE31),
      (0xE34, 0xE3A), (0xE46, 0xE4E), (0xEB1, 0xEB1), (0xEB4, 0xEBC),
      (0xEC6, 0xEC6), (0xEC8, 0xECD), (0xF18, 0xF19), (0xF35, 0xF35),
      (0xF37, 0xF37), (0xF39, 0xF39), (0xF71, 0xF7E), (0xF80, 0xF84),
      (0xF86, 0xF87), (0xF8D, 0xF97), (0xF99, 0xFBC), (0xFC6, 0xFC6),
      (0x102D, 0x1030), (0x1032, 0x1037), (0x1039, 0x103A), (0x103D, 0x103E),
      (0x1058, 0x1059), (0x105E, 0x1060), (0x1071, 0x1074), (0x1082, 0x1082),
      (0x1085, 0x1086), (0x108D, 0x108D), (0x109D, 0x109D), (0x10FC, 0x10FC),
      (0x135D, 0x135F), (0x1712, 0x1714), (0x1732, 0x1733), (0x1752, 0x1753),
      (0x1772, 0x1773), (0x17B4, 0x17B5), (0x17B7, 0x17BD), (0x17C6, 0x17C6),
      (0x17C9, 0x17D3), (0x17D7, 0x17D7), (0x17DD, 0x17DD), (0x180B, 0x180F),
      (0x1843, 0x1843), (0x1885, 0x1886), (0x18A9, 0x18A9), (0x1920, 0x1922),
      (0x1927, 0x1928), (0x1932, 0x1932), (0x1939, 0x193B), (0x1A17, 0x1A18),
      (0x1A1B, 0x1A1B), (0x1A56, 0x1A56), (0x1A58, 0x1A5E), (0x1A60, 0x1A60),
      (0x1A62, 0x1A62), (0x1A65, 0x1A6C), (0x1A73, 0x1A7C), (0x1A7F, 0x1A7F),
      (0x1AA7, 0x1AA7), (0x1AB0, 0x1ACE), (0x1B00, 0x1B03), (0x1B34, 0x1B34),
      (0x1B36, 0x1B3A), (0x1B3C, 0x1B3C), (0x1B42, 0x1B42), (0x1B6B, 0x1B73),
      (0x1B80, 0x1B81), (0x1BA2, 0x1BA5), (0x1BA8, 0x1BA9), (0x1BAB, 0x1BAD),
      (0x1BE6, 0x1BE6), (0x1BE8, 0x1BE9), (0x1BED, 0x1BED), (0x1BEF, 0x1BF1),
      (0x1C2C, 0x1C33), (0x1C36, 0x1C37), (0x1C78, 0x1C7D), (0x1CD0, 0x1CD2),
      (0x1CD4, 0x1CE0), (0x1CE2, 0x1CE8), (0x1CED, 0x1CED), (0x1CF4, 0x1CF4),
      (0x1CF8, 0x1CF9), (0x1D2C, 0x1D6A), (0x1D78, 0x1D78), (0x1D9B, 0x1DFF),
      (0x1FBD, 0x1FBD), (0x1FBF, 0x1FC1), (0x1FCD, 0x1FCF), (0x1FDD, 0x1FDF),
      (0x1FED, 0x1FEF), (0x1FFD, 0x1FFE), (0x200B, 0x200F), (0x2018, 0x2019),
      (0x2024, 0x2024), (0x2027, 0x2027), (0x202A, 0x202E), (0x2060, 0x2064),
      (0x2066, 0x206F), (0x2071, 0x2071), (0x207F, 0x207F), (0x2090, 0x209C),
      (0x20D0, 0x20F0), (0x2C7C, 0x2C7D), (0x2CEF, 0x2CF1), (0x2D6F, 0x2D6F),
      (0x2D7F, 0x2D7F), (0x2DE0, 0x2DFF), (0x2E2F, 0x2E2F), (0x3005, 0x3005),
      (0x302A, 0x302D), (0x3031, 0x3035), (0x303B, 0x303B), (0x3099, 0x309E),
      (0x30FC, 0x30FE), (0xA015, 0xA015), (0xA4F8, 0xA4FD), (0xA60C, 0xA60C),
      (0xA66F, 0xA672), (0xA674, 0xA67D), (0xA67F, 0xA67F), (0xA69C, 0xA69F),
      (0xA6F0, 0xA6F1), (0xA700, 0xA721), (0xA770, 0xA770), (0xA788, 0xA78A),
      (0xA7F2, 0xA7F4), (0xA7F8, 0xA7F9), (0xA802, 0xA802), (0xA806, 0xA806),
      (0xA80B, 0xA80B), (0xA825, 0xA826), (0xA82C, 0xA82C), (0xA8C4, 0xA8C5),
      (0xA8E0, 0xA8F1), (0xA8FF, 0xA8FF), (0xA926, 0xA92D), (0xA947, 0xA951),
      (0xA980, 0xA982), (0xA9B3, 0xA9B3), (0xA9B6, 0xA9B9), (0xA9BC, 0xA9BD),
      (0xA9CF, 0xA9CF), (0xA9E5, 0xA9E6), (0xAA29, 0xAA2E), (0xAA31, 0xAA32),
      (0xAA35, 0xAA36), (0xAA43, 0xAA43), (0xAA4C, 0xAA4C), (0xAA70, 0xAA70),
      (0xAA7C, 0xAA7C), (0xAAB0, 0xAAB0), (0xAAB2, 0xAAB4), (0xAAB7, 0xAAB8),
      (0xAABE, 0xAABF), (0xAAC1, 0xAAC1), (0xAADD, 0xAADD), (0xAAEC, 0xAAED),
      (0xAAF3, 0xAAF4), (0xAAF6, 0xAAF6), (0xAB5B, 0xAB5F), (0xAB69, 0xAB6B),
      (0xABE5, 0xABE5), (0xABE8, 0xABE8), (0xABED, 0xABED), (0xFB1E, 0xFB1E),
      (0xFBB2, 0xFBC2), (0xFE00, 0xFE0F), (0xFE13, 0xFE13), (0xFE20, 0xFE2F),
      (0xFE52, 0xFE52), (0xFE55, 0xFE55), (0xFEFF, 0xFEFF), (0xFF07, 0xFF07),
      (0xFF0E, 0xFF0E), (0xFF1A, 0xFF1A), (0xFF3E, 0xFF3E), (0xFF40, 0xFF40),
      (0xFF70, 0xFF70), (0xFF9E, 0xFF9F), (0xFFE3, 0xFFE3), (0xFFF9, 0xFFFB),
      (0x101FD, 0x101FD), (0x102E0, 0x102E0), (0x10376, 0x1037A), (0x10780, 0x10785),
      (0x10787, 0x107B0), (0x107B2, 0x107BA), (0x10A01, 0x10A03), (0x10A05, 0x10A06),
      (0x10A0C, 0x10A0F), (0x10A38, 0x10A3A), (0x10A3F, 0x10A3F), (0x10AE5, 0x10AE6),
      (0x10D24, 0x10D27), (0x10EAB, 0x10EAC), (0x10F46, 0x10F50), (0x10F82, 0x10F85),
      (0x11001, 0x11001), (0x11038, 0x11046), (0x11070, 0x11070), (0x11073, 0x11074),
      (0x1107F, 0x11081), (0x110B3, 0x110B6), (0x110B9, 0x110BA), (0x110BD, 0x110BD),
      (0x110C2, 0x110C2), (0x110CD, 0x110CD), (0x11100, 0x11102), (0x11127, 0x1112B),
      (0x1112D, 0x11134), (0x11173, 0x11173), (0x11180, 0x11181), (0x111B6, 0x111BE),
      (0x111C9, 0x111CC), (0x111CF, 0x111CF), (0x1122F, 0x11231), (0x11234, 0x11234),
      (0x11236, 0x11237), (0x1123E, 0x1123E), (0x112DF, 0x112DF), (0x112E3, 0x112EA),
      (0x11300, 0x11301), (0x1133B, 0x1133C), (0x11340, 0x11340), (0x11366, 0x1136C),
      (0x11370, 0x11374), (0x11438, 0x1143F), (0x11442, 0x11444), (0x11446, 0x11446),
      (0x1145E, 0x1145E), (0x114B3, 0x114B8), (0x114BA, 0x114BA), (0x114BF, 0x114C0),
      (0x114C2, 0x114C3), (0x115B2, 0x115B5), (0x115BC, 0x115BD), (0x115BF, 0x115C0),
      (0x115DC, 0x115DD), (0x11633, 0x1163A), (0x1163D, 0x1163D), (0x1163F, 0x11640),
      (0x116AB, 0x116AB), (0x116AD, 0x116AD), (0x116B0, 0x116B5), (0x116B7, 0x116B7),
      (0x1171D, 0x1171F), (0x11722, 0x11725), (0x11727, 0x1172B), (0x1182F, 0x11837),
      (0x11839, 0x1183A), (0x1193B, 0x1193C), (0x1193E, 0x1193E), (0x11943, 0x11943),
      (0x119D4, 0x119D7), (0x119DA, 0x119DB), (0x119E0, 0x119E0), (0x11A01, 0x11A0A),
      (0x11A33, 0x11A38), (0x11A3B, 0x11A3E), (0x11A47, 0x11A47), (0x11A51, 0x11A56),
      (0x11A59, 0x11A5B), (0x11A8A, 0x11A96), (0x11A98, 0x11A99), (0x11C30, 0x11C36),
      (0x11C38, 0x11C3D), (0x11C3F, 0x11C3F), (0x11C92, 0x11CA7), (0x11CAA, 0x11CB0),
      (0x11CB2, 0x11CB3), (0x11CB5, 0x11CB6), (0x11D31, 0x11D36), (0x11D3A, 0x11D3A),
      (0x11D3C, 0x11D3D), (0x11D3F, 0x11D45), (0x11D47, 0x11D47), (0x11D90, 0x11D91),
      (0x11D95, 0x11D95), (0x11D97, 0x11D97), (0x11EF3, 0x11EF4), (0x13430, 0x13438),
      (0x16AF0, 0x16AF4), (0x16B30, 0x16B36), (0x16B40, 0x16B43), (0x16F4F, 0x16F4F),
      (0x16F8F, 0x16F9F), (0x16FE0, 0x16FE1), (0x16FE3, 0x16FE4), (0x1AFF0, 0x1AFF3),
      (0x1AFF5, 0x1AFFB), (0x1AFFD, 0x1AFFE), (0x1BC9D, 0x1BC9E), (0x1BCA0, 0x1BCA3),
      (0x1CF00, 0x1CF2D), (0x1CF30, 0x1CF46), (0x1D167, 0x1D169), (0x1D173, 0x1D182),
      (0x1D185, 0x1D18B), (0x1D1AA, 0x1D1AD), (0x1D242, 0x1D244), (0x1DA00, 0x1DA36),
      (0x1DA3B, 0x1DA6C), (0x1DA75, 0x1DA75), (0x1DA84, 0x1DA84), (0x1DA9B, 0x1DA9F),
      (0x1DAA1, 0x1DAAF), (0x1E000, 0x1E006), (0x1E008, 0x1E018), (0x1E01B, 0x1E021),
      (0x1E023, 0x1E024), (0x1E026, 0x1E02A), (0x1E130, 0x1E13D), (0x1E2AE, 0x1E2AE),
      (0x1E2EC, 0x1E2EF), (0x1E8D0, 0x1E8D6), (0x1E944, 0x1E94B), (0x1F3FB, 0x1F3FF),
      (0xE0001, 0xE0001), (0xE0020, 0xE007F), (0xE0100, 0xE01EF)]"

definition inRanges :: "nat \<Rightarrow> (nat \<times> nat) list \<Rightarrow> bool" where
  "inRanges c ranges = list_ex (\<lambda>(lo, hi). lo \<le> c \<and> c \<le> hi) ranges"

definition cased :: "nat \<Rightarrow> bool" where
  "cased c = inRanges c casedRanges"

definition caseIgnorable :: "nat \<Rightarrow> bool" where
  "caseIgnorable c = inRanges c caseIgnorableRanges"

text \<open>
  The condition \<^verbatim>\<open>Final_Sigma\<close> of \<^verbatim>\<open>SpecialCasing.txt\<close>: skipping the case-ignorable
  code points, the capital sigma is preceded by a cased letter and not followed by one.
  \<open>preceding\<close> holds the code points before the sigma, the nearest first.
\<close>

fun skipCaseIgnorable :: "nat list \<Rightarrow> nat option" where
  "skipCaseIgnorable [] = None"
| "skipCaseIgnorable (c # cs) = (if caseIgnorable c then skipCaseIgnorable cs else Some c)"

definition finalSigma :: "nat list \<Rightarrow> nat list \<Rightarrow> bool" where
  "finalSigma preceding following =
     ((case skipCaseIgnorable preceding of None \<Rightarrow> False | Some c \<Rightarrow> cased c)
      \<and> (case skipCaseIgnorable following of None \<Rightarrow> True | Some c \<Rightarrow> \<not> cased c))"

text \<open>
  The lower case of one code point in its context. \<^verbatim>\<open>SpecialCasing.txt\<close> maps U+0130, the
  capital I with a dot above, to an \<^verbatim>\<open>i\<close> and a combining dot, and U+03A3, the capital
  sigma, to the final sigma U+03C2 where \<^verbatim>\<open>Final_Sigma\<close> holds.
\<close>

definition lowercaseMapping :: "nat list \<Rightarrow> nat \<Rightarrow> nat list \<Rightarrow> nat list" where
  "lowercaseMapping preceding c following =
     (if c = 0x130 then [0x69, 0x307]
      else if c = 0x3A3 then (if finalSigma preceding following then [0x3C2] else [0x3C3])
      else [simpleLowercase c])"

fun lowerCodePoints :: "nat list \<Rightarrow> nat list \<Rightarrow> nat list" where
  "lowerCodePoints preceding [] = []"
| "lowerCodePoints preceding (c # cs) =
     lowercaseMapping preceding c cs @ lowerCodePoints (c # preceding) cs"

definition toLowerCase :: "jsString \<Rightarrow> jsString" where
  "toLowerCase s =
     concat (map utf16EncodeCodePoint (lowerCodePoints [] (stringToCodePoints s)))"

text \<open>
  \<^verbatim>\<open>String.prototype.trim\<close> removes the white space and the line terminators of
  ECMAScript from both ends: TAB, LF, VT, FF, CR, the space, the no-break space, the
  other code points of the category \<^verbatim>\<open>Space_Separator\<close>, the line and paragraph
  separators, and the byte order mark.
\<close>

definition isSpace :: "nat \<Rightarrow> bool" where
  "isSpace c =
     (c \<in> set [0x09, 0x0A, 0x0B, 0x0C, 0x0D, 0x20, 0xA0, 0x1680, 0x2028, 0x2029, 0x202F, 0x205F,
               0x3000, 0xFEFF]
      \<or> (0x2000 \<le> c \<and> c \<le> 0x200A))"

definition trim :: "jsString \<Rightarrow> jsString" where
  "trim s = rev (dropWhile isSpace (rev (dropWhile isSpace s)))"

text \<open>\<^verbatim>\<open>xs.join(sep)\<close> on an array of strings.\<close>

fun join :: "'a list \<Rightarrow> 'a list list \<Rightarrow> 'a list" where
  "join sep [] = []"
| "join sep [x] = x"
| "join sep (x # y # ys) = x @ sep @ join sep (y # ys)"

section \<open>Furbooru: the rating tag\<close>

datatype SubmissionRating = GENERAL | MATURE | ADULT | EXTREME | OtherRating string

fun getRating :: "SubmissionRating \<Rightarrow> jsString" where
  "getRating MATURE = str ''questionable''"
| "getRating ADULT = str ''explicit''"
| "getRating EXTREME = str ''explicit''"
| "getRating GENERAL = str ''safe''"
| "getRating (OtherRating r) = str ''safe''"

definition knownRatings :: "jsString list" where
  "knownRatings =
     [str ''safe'', str ''suggestive'', str ''questionable'', str ''explicit'',
      str ''semi-grimdark'', str ''grimdark'', str ''grotesque'']"

text \<open>
  The loop \<^verbatim>\<open>for (const r of knownRatings) { if (lowerCaseTags.includes(r)) { add = false; break; } }\<close>
  started with \<^verbatim>\<open>add = true\<close>: the value of \<^verbatim>\<open>add\<close> after it.
\<close>

fun addAfterLoop :: "jsString list \<Rightarrow> jsString list \<Rightarrow> bool" where
  "addAfterLoop [] lowerCaseTags = True"
| "addAfterLoop (r # rs) lowerCaseTags =
     (if r \<in> set lowerCaseTags then False else addAfterLoop rs lowerCaseTags)"

text \<open>
  Lines 130 to 154 of \<^verbatim>\<open>attemptFilePost\<close>: the tag list after the rating tag has been
  pushed or not. \<open>tags\<close> is the result of \<^verbatim>\<open>parseTags\<close>.
\<close>

definition withRatingTag :: "SubmissionRating \<Rightarrow> jsString list \<Rightarrow> jsString list" where
  "withRatingTag rating tags =
     (let ratingTag = getRating rating;
          lowerCaseTags = map toLowerCase tags
      in if ratingTag \<notin> set lowerCaseTags
         then (if addAfterLoop knownRatings lowerCaseTags then tags @ [ratingTag] else tags)
         else tags)"



section \<open>Furbooru: posting a file\<close>

text \<open>
  The effects of a post are the browser form capture (\<^verbatim>\<open>BrowserWindowUtil.getFormData\<close>),
  the HTTP post and the logger's warning. The world is the list of the effects performed
  so far; what the destination answers is an input of the model (\<open>PostEnv\<close>), and may
  differ from one call to the next.
\<close>

datatype post_error =
    Cancelled
  | FormDataFailed string
  | HttpFailed string
  | ResponseRejected string

text \<open>
  The tags and the values of the form are JavaScript strings; the names that the program
  fixes (field names, URLs, messages) and the account id are plain strings.
\<close>

type_synonym form = "(string \<times> jsString) list"

datatype effect =
    GetFormData string string
  | HttpPost string string form
  | LogWarn post_error string

type_synonym trace = "effect list"

fun isGetFormData :: "effect \<Rightarrow> bool" where
  "isGetFormData (GetFormData a u) = True"
| "isGetFormData e = False"

fun isHttpPost :: "effect \<Rightarrow> bool" where
  "isHttpPost (HttpPost u a f) = True"
| "isHttpPost e = False"

fun isLogWarn :: "effect \<Rightarrow> bool" where
  "isLogWarn (LogWarn e m) = True"
| "isLogWarn e = False"

record CancellationToken =
  isCancelled :: bool

record PostResponse =
  responseWebsite :: string
  responseSource :: "string option"

record FilePostData =
  postTags :: "jsString list"
  postRating :: SubmissionRating
  postAccountId :: string
  postPrimaryFile :: jsString
  postDescription :: jsString
  postOptionsSource :: "jsString option"
  postSources :: "jsString list"

text \<open>
  What \<^verbatim>\<open>attemptFilePost\<close> uses and the sources do not hold: the methods of the base
  class \<^verbatim>\<open>Website\<close> (\<^verbatim>\<open>parseTags\<close> with the options of the call, \<^verbatim>\<open>formatTags\<close>,
  \<^verbatim>\<open>verifyResponse\<close>, which throws or returns, and \<^verbatim>\<open>createPostResponse({})\<close>), and the
  replies of the outside world: the reply to the \<open>n\<close>-th form capture and to the \<open>n\<close>-th
  HTTP post, given the arguments of the call.
\<close>

record PostEnv =
  parseTags :: "jsString list \<Rightarrow> jsString list"
  formatTagsBase :: "jsString list \<Rightarrow> jsString list"
  verifyResponse :: "string \<Rightarrow> post_error option"
  createPostResponse :: PostResponse
  getFormDataReply :: "nat \<Rightarrow> string \<Rightarrow> string \<Rightarrow> post_error + form"
  httpPostReply :: "nat \<Rightarrow> string \<Rightarrow> string \<Rightarrow> form \<Rightarrow> post_error + string"

definition BASE_URL :: string where
  "BASE_URL = ''https://furbooru.org''"

definition getFormData ::
  "PostEnv \<Rightarrow> string \<Rightarrow> string \<Rightarrow> trace \<Rightarrow> (post_error + form) \<times> trace" where
  "getFormData env accountId url w =
     (getFormDataReply env (length (filter isGetFormData w)) accountId url,
      w @ [GetFormData accountId url])"

definition httpPost ::
  "PostEnv \<Rightarrow> string \<Rightarrow> string \<Rightarrow> form \<Rightarrow> trace \<Rightarrow> (post_error + string) \<times> trace" where
  "httpPost env url accountId f w =
     (httpPostReply env (length (filter isHttpPost w)) url accountId f,
      w @ [HttpPost url accountId f])"

text \<open>\<^verbatim>\<open>formatTags(tags) { return super.formatTags(tags).join(', ').trim(); }\<close>\<close>

definition formatTags :: "PostEnv \<Rightarrow> jsString list \<Rightarrow> jsString" where
  "formatTags env tags = trim (join (str '', '') (formatTagsBase env tags))"

text \<open>\<^verbatim>\<open>data.options.source || data.sources[0] || ''\<close>\<close>

definition sourceUrl :: "FilePostData \<Rightarrow> jsString" where
  "sourceUrl d =
     (let first = (case postSources d of [] \<Rightarrow> [] | x # xs \<Rightarrow> x)
      in case postOptionsSource d of
           None \<Rightarrow> first
         | Some s \<Rightarrow> if s \<noteq> [] then s else first)"

text \<open>
  The object literal of the form: the captured fields are spread first, then the
  literal's own keys overwrite them or are added at the end.
\<close>

definition buildForm :: "PostEnv \<Rightarrow> FilePostData \<Rightarrow> jsString list \<Rightarrow> form \<Rightarrow> form" where
  "buildForm env d tags captured =
     AList.update ''image[source_url]'' (sourceUrl d)
       (AList.update ''image[description]'' (postDescription d)
         (AList.update ''image[image]'' (postPrimaryFile d)
           (AList.update ''image[tag_input]'' (formatTags env tags)
             (AList.update ''_method'' (str ''post'') captured))))"

text \<open>
  Modelled from the spec: \<^verbatim>\<open>checkCancelled\<close>, a method of the base class \<^verbatim>\<open>Website\<close>.
  An adapter checks the token and "aborts with a Cancelled outcome if set". The result
  is the error thrown, if any.
\<close>

definition checkCancelled :: "CancellationToken \<Rightarrow> post_error option" where
  "checkCancelled cancellationToken =
     (if isCancelled cancellationToken then Some Cancelled else None)"

text \<open>
  \<^verbatim>\<open>attemptFilePost\<close>. The selector option of the form capture is a constant and is left
  out of the logged call.
\<close>

definition attemptFilePost ::
  "PostEnv \<Rightarrow> CancellationToken \<Rightarrow> FilePostData \<Rightarrow> trace \<Rightarrow> (post_error + PostResponse) \<times> trace" where
  "attemptFilePost env cancellationToken d w =
     (let tags = withRatingTag (postRating d) (parseTags env (postTags d))
      in case getFormData env (postAccountId d) (BASE_URL @ ''/images/new'') w of
           (Inl err, w1) \<Rightarrow> (Inl err, w1)
         | (Inr captured, w1) \<Rightarrow>
             (let f = buildForm env d tags captured
              in case checkCancelled cancellationToken of
                   Some err \<Rightarrow> (Inl err, w1)
                 | None \<Rightarrow>
                     (case httpPost env (BASE_URL @ ''/images'') (postAccountId d) f w1 of
                        (Inl err, w2) \<Rightarrow> (Inl err, w2)
                      | (Inr postResponse, w2) \<Rightarrow>
                          (case verifyResponse env postResponse of
                             Some err \<Rightarrow> (Inl err, w2)
                           | None \<Rightarrow> (Inr (createPostResponse env), w2)))))"

definition postFileSubmission ::
  "PostEnv \<Rightarrow> CancellationToken \<Rightarrow> FilePostData \<Rightarrow> trace \<Rightarrow> (post_error + PostResponse) \<times> trace" where
  "postFileSubmission env cancellationToken d w =
     (case attemptFilePost env cancellationToken d w of
        (Inr response, w1) \<Rightarrow> (Inr response, w1)
      | (Inl err, w1) \<Rightarrow>
          attemptFilePost env cancellationToken d (w1 @ [LogWarn err ''Furbooru Post Retry'']))"

text \<open>
  The attempts a trace shows: every run of \<^verbatim>\<open>attemptFilePost\<close> starts with one form
  capture. The dispatches are the HTTP posts, the retries the logged warnings.
\<close>

definition attempts :: "trace \<Rightarrow> nat" where
  "attempts w = length (filter isGetFormData w)"

definition dispatches :: "trace \<Rightarrow> nat" where
  "dispatches w = length (filter isHttpPost w)"

definition retries :: "trace \<Rightarrow> nat" where
  "retries w = length (filter isLogWarn w)"

text \<open>A destination for the examples: it rejects the first post and accepts the second.\<close>

definition flakyEnv :: PostEnv where
  "flakyEnv =
     \<lparr> parseTags = (\<lambda>ts. ts),
       formatTagsBase = (\<lambda>ts. ts),
       verifyResponse = (\<lambda>body. if body = ''error'' then Some (ResponseRejected body) else None),
       createPostResponse = \<lparr> responseWebsite = ''Furbooru'', responseSource = None \<rparr>,
       getFormDataReply = (\<lambda>n a u. Inr [(''_csrf_token'', str ''t'')]),
       httpPostReply = (\<lambda>n u a f. if n = 0 then Inr ''error'' else Inr ''ok'') \<rparr>"

definition brokenEnv :: PostEnv where
  "brokenEnv = flakyEnv \<lparr> httpPostReply := (\<lambda>n u a f. if n = 0 then Inl (HttpFailed ''first'') else Inl (HttpFailed ''second'')) \<rparr>"

definition wolfPost :: FilePostData where
  "wolfPost =
     \<lparr> postTags = [str ''wolf'', str ''Forest''],
       postRating = MATURE,
       postAccountId = ''acc1'',
       postPrimaryFile = str ''wolf.png'',
       postDescription = str ''A wolf'',
       postOptionsSource = None,
       postSources = [] \<rparr>"

section \<open>Validation by the destination adapters\<close>

datatype FileSubmissionType = IMAGE | TEXT | VIDEO | AUDIO | UNKNOWN

record FileRecord =
  location :: string
  fileName :: string
  mimetype :: string
  originalPath :: string
  fileSize :: nat
  fileType :: FileSubmissionType
  ignoredAccounts :: "string list"

text \<open>The file fields of a file submission (\<^verbatim>\<open>FileSubmission\<close>).\<close>

record FileSubmission =
  primary :: FileRecord
  thumbnail :: "FileRecord option"
  fallback :: "FileRecord option"
  additional :: "FileRecord list"

record TagData =
  extendDefault :: bool
  tagValues :: "string list"

record PartData =
  dataTags :: TagData
  autoScale :: bool

text \<open>
  Modelled from the spec: the statuses of a part (the sources only name \<^verbatim>\<open>UNPOSTED\<close>).
\<close>

datatype PostStatus = UNPOSTED | QUEUED | POSTING | POSTED | FAILED

record SubmissionPart =
  partId :: "nat option"
  submissionId :: nat
  accountId :: string
  website :: string
  isDefault :: bool
  partData :: PartData
  postStatus :: PostStatus
  postedTo :: "string option"

record ValidationParts =
  problems :: "string list"
  warnings :: "string list"

text \<open>
  The helpers of validation that the sources do not hold (\<^verbatim>\<open>FormContent.getTags\<close> or
  \<^verbatim>\<open>WebsiteValidator.getTags\<close>, \<^verbatim>\<open>WebsiteValidator.supportsFileType\<close>, \<^verbatim>\<open>MBtoBytes\<close>,
  \<^verbatim>\<open>ImageManipulator.isMimeType\<close>) and the string value of a \<^verbatim>\<open>FileSubmissionType\<close> are
  parameters.
\<close>

record ValidatorUtils =
  getTags :: "TagData \<Rightarrow> TagData \<Rightarrow> string list"
  supportsFileType :: "FileRecord \<Rightarrow> string list \<Rightarrow> bool"
  MBtoBytes :: "nat \<Rightarrow> nat"
  isMimeType :: "string \<Rightarrow> bool"
  typeString :: "FileSubmissionType \<Rightarrow> string"

definition digitChar :: "nat \<Rightarrow> char" where
  "digitChar n = ''0123456789'' ! n"

fun showNat :: "nat \<Rightarrow> string" where
  "showNat n = (if n < 10 then [digitChar n] else showNat (n div 10) @ [digitChar (n mod 10)])"

declare showNat.simps [simp del]

fun startsWith :: "string \<Rightarrow> string \<Rightarrow> bool" where
  "startsWith s [] = True"
| "startsWith [] (c # cs) = False"
| "startsWith (x # xs) (c # cs) = (x = c \<and> startsWith xs cs)"

fun stringIncludes :: "string \<Rightarrow> string \<Rightarrow> bool" where
  "stringIncludes [] sub = (sub = [])"
| "stringIncludes (x # xs) sub = (startsWith (x # xs) sub \<or> stringIncludes xs sub)"

definition Furbooru_acceptsFiles :: "string list" where
  "Furbooru_acceptsFiles = [''jpeg'', ''jpg'', ''png'', ''svg'', ''gif'', ''webm'']"

definition Furbooru_validateFileSubmission ::
  "ValidatorUtils \<Rightarrow> FileSubmission \<Rightarrow> SubmissionPart \<Rightarrow> SubmissionPart \<Rightarrow> ValidationParts" where
  "Furbooru_validateFileSubmission u submission submissionPart defaultPart =
     (let isAutoscaling = autoScale (partData submissionPart);
          problems1 =
            (if length (getTags u (dataTags (partData defaultPart))
                         (dataTags (partData submissionPart))) < 5
             then [''Requires at least 5 tags.''] else []);
          problems2 = problems1 @
            (if \<not> supportsFileType u (primary submission) Furbooru_acceptsFiles
             then [''Currently supported file formats: '' @ join '', '' Furbooru_acceptsFiles]
             else []);
          maxMB = 100
      in if MBtoBytes u maxMB < fileSize (primary submission)
         then (if isAutoscaling \<and> fileType (primary submission) = IMAGE
                   \<and> isMimeType u (mimetype (primary submission))
               then \<lparr> problems = problems2,
                      warnings = [fileName (primary submission) @ '' will be scaled down to ''
                                   @ showNat maxMB @ ''MB''] \<rparr>
               else \<lparr> problems = problems2 @
                        [''Furbooru limits '' @ mimetype (primary submission) @ '' to ''
                          @ showNat maxMB @ ''MB''],
                      warnings = [] \<rparr>)
         else \<lparr> problems = problems2, warnings = [] \<rparr>)"

definition Weasyl_acceptsFiles :: "string list" where
  "Weasyl_acceptsFiles =
     [''jpg'', ''jpeg'', ''png'', ''gif'', ''md'', ''txt'', ''pdf'', ''swf'', ''mp3'']"

definition Weasyl_maxMB :: "FileRecord \<Rightarrow> nat" where
  "Weasyl_maxMB file =
     (if fileType file = VIDEO \<or> fileType file = AUDIO then 15
      else if fileType file = TEXT
           then (if stringIncludes (fileName file) ''.md'' \<or> stringIncludes (fileName file) ''.md''
                 then 2 else 10)
           else 10)"

definition Weasyl_validateFileSubmission ::
  "ValidatorUtils \<Rightarrow> FileSubmission \<Rightarrow> SubmissionPart \<Rightarrow> SubmissionPart \<Rightarrow> string list" where
  "Weasyl_validateFileSubmission u submission submissionPart defaultPart =
     (let problems1 =
            (if \<not> supportsFileType u (primary submission) Weasyl_acceptsFiles
             then [''Weasyl does not support file format: ''
                     @ mimetype (primary submission) @ ''.'']
             else []);
          problems2 = problems1 @
            (if length (getTags u (dataTags (partData defaultPart))
                         (dataTags (partData submissionPart))) < 2
             then [''Weasyl requires at least 2 tags.''] else []);
          maxMB = Weasyl_maxMB (primary submission)
      in if MBtoBytes u maxMB < fileSize (primary submission)
         then problems2 @
                [''Weasyl limits '' @ typeString u (fileType (primary submission)) @ '' to ''
                   @ showNat maxMB @ ''MB'']
         else problems2)"

text \<open>
  What a call of \<^verbatim>\<open>validateFileSubmission\<close> on an adapter returns at run time: an object
  with the two lists, or a bare array of problems.
\<close>

datatype validation_return =
    PartsObject ValidationParts
  | ProblemsArray "string list"

datatype adapter = Furbooru | Weasyl

fun validateFileSubmission ::
  "ValidatorUtils \<Rightarrow> adapter \<Rightarrow> FileSubmission \<Rightarrow> SubmissionPart \<Rightarrow> SubmissionPart
     \<Rightarrow> validation_return" where
  "validateFileSubmission u Furbooru s p dp = PartsObject (Furbooru_validateFileSubmission u s p dp)"
| "validateFileSubmission u Weasyl s p dp = ProblemsArray (Weasyl_validateFileSubmission u s p dp)"

fun problemsOf :: "validation_return \<Rightarrow> string list" where
  "problemsOf (PartsObject vp) = problems vp"
| "problemsOf (ProblemsArray ps) = ps"

text \<open>
  Modelled from the spec: the dispatch loop of the orchestrator (the post service, which
  the sources do not hold) posts "each part with status UNPOSTED whose problems list is
  empty".
\<close>

definition dispatchable :: "PostStatus \<Rightarrow> validation_return \<Rightarrow> bool" where
  "dispatchable status r = (status = UNPOSTED \<and> problemsOf r = [])"

text \<open>Examples: a large image with five tags, posted with autoscaling.\<close>

definition plainUtils :: ValidatorUtils where
  "plainUtils =
     \<lparr> getTags = (\<lambda>d p. if extendDefault p then tagValues d @ tagValues p else tagValues p),
       supportsFileType = (\<lambda>f accepted. True),
       MBtoBytes = (\<lambda>mb. mb * 1048576),
       isMimeType = (\<lambda>m. m = ''image/png''),
       typeString = (\<lambda>t. ''IMAGE'') \<rparr>"

definition bigImage :: FileSubmission where
  "bigImage =
     \<lparr> primary = \<lparr> location = ''/files/wolf.png'', fileName = ''wolf.png'',
                   mimetype = ''image/png'', originalPath = ''/home/wolf.png'',
                   fileSize = 209715200, fileType = IMAGE, ignoredAccounts = [] \<rparr>,
       thumbnail = None, fallback = None, additional = [] \<rparr>"

definition fiveTags :: PartData where
  "fiveTags = \<lparr> dataTags = \<lparr> extendDefault = False,
                               tagValues = [''a'', ''b'', ''c'', ''d'', ''e''] \<rparr>,
                autoScale = True \<rparr>"

definition examplePart :: "string \<Rightarrow> SubmissionPart" where
  "examplePart site =
     \<lparr> partId = Some 7, submissionId = 1, accountId = ''acc1'', website = site,
       isDefault = False, partData = fiveTags, postStatus = UNPOSTED, postedTo = None \<rparr>"

section \<open>The submission service\<close>

text \<open>
  \<^verbatim>\<open>SubmissionService\<close> works on a repository of submissions, the part service, the post
  service, the validator, the file submission service and the event gateway. Their code
  is not part of the sources; the world below holds what the service can observe of them.
  Entity ids are opaque strings in the sources; they are natural numbers here, so that
  the world can issue fresh ones.
\<close>

datatype SubmissionType = FILE | NOTIFICATION

record SubmissionSchedule =
  isScheduled :: bool
  postAt :: "int option"

text \<open>
  A submission as the repository stores it. \<open>order\<close> is a number that \<^verbatim>\<open>duplicate\<close> and
  the split raise by 0.01; it is kept in hundredths. \<open>files\<close> holds the file fields
  of a file submission.
\<close>

record SubmissionDoc =
  sid :: nat
  title :: string
  submissionType :: SubmissionType
  schedule :: SubmissionSchedule
  order :: int
  sources :: "string list"
  files :: "FileSubmission option"

text \<open>
  The entity in memory carries the two derived flags, which \<^verbatim>\<open>get\<close> and \<^verbatim>\<open>getAll\<close>
  compute from the post service on every read and which are not stored.
\<close>

record Submission = SubmissionDoc +
  isPosting :: bool
  isQueued :: bool

definition toEntity :: "SubmissionDoc \<Rightarrow> bool \<Rightarrow> bool \<Rightarrow> Submission" where
  "toEntity d p q =
     \<lparr> sid = sid d, title = title d, submissionType = submissionType d,
       schedule = schedule d, order = order d, sources = sources d, files = files d,
       isPosting = p, isQueued = q \<rparr>"

definition toDoc :: "Submission \<Rightarrow> SubmissionDoc" where
  "toDoc s =
     \<lparr> sid = sid s, title = title s, submissionType = submissionType s,
       schedule = schedule s, order = order s, sources = sources s, files = files s \<rparr>"

text \<open>
  A reference is an id or an entity. \<^verbatim>\<open>create\<close> can also hand \<^verbatim>\<open>null\<close> to
  \<^verbatim>\<open>deleteSubmission\<close>, which is \<open>NullReference\<close>.
\<close>

datatype SubmissionEntityReference = ById nat | ByEntity Submission | NullReference

datatype service_error =
    NotFoundException string
  | BadRequestException string
  | InternalServerErrorException service_error
  | OtherError string

datatype SubmissionEvent = CREATED | UPDATED | REMOVED

record UploadedFile =
  originalname :: string
  uploadMimetype :: string
  buffer :: string

record SubmissionCreate =
  createType :: string
  createTitle :: string
  createPath :: "string option"
  createFile :: "UploadedFile option"

text \<open>The operations of the file submission service, with their arguments.\<close>

datatype file_op =
    CreateSubmission SubmissionCreate
  | DuplicateSubmission
  | ChangeFallbackFile UploadedFile
  | RemoveThumbnail
  | RemoveAdditionalFile string
  | ChangeThumbnailFile UploadedFile string
  | ChangePrimaryFile UploadedFile string
  | RemoveFallbackFile
  | AddAdditionalFile UploadedFile string

text \<open>The calls to collaborators that leave a mark outside the service.\<close>

datatype call =
    Emit SubmissionEvent "nat list"
  | QueueCall nat
  | CancelCall nat
  | ValidateParts nat
  | CleanupSubmission nat
  | FileServiceCall file_op nat

record world =
  repository :: "SubmissionDoc list"
  partStore :: "SubmissionPart list"
  posting :: "nat list"
  queued :: "nat list"
  nextId :: nat
  calls :: "call list"

type_synonym 'a action = "world \<Rightarrow> (service_error + 'a) \<times> world"

text \<open>Sequencing with exceptions: a failed step ends the sequence with its error.\<close>

definition andThen :: "'a action \<Rightarrow> ('a \<Rightarrow> 'b action) \<Rightarrow> 'b action" where
  "andThen m f w = (case m w of (Inl e, w1) \<Rightarrow> (Inl e, w1) | (Inr x, w1) \<Rightarrow> f x w1)"

definition succeed :: "'a \<Rightarrow> 'a action" where
  "succeed x w = (Inr x, w)"

definition throw :: "service_error \<Rightarrow> 'a action" where
  "throw e w = (Inl e, w)"

text \<open>\<^verbatim>\<open>try { body } catch (err) { handler(err) }\<close>\<close>

definition tryCatch :: "'a action \<Rightarrow> (service_error \<Rightarrow> 'a action) \<Rightarrow> 'a action" where
  "tryCatch body handler w =
     (case body w of (Inl e, w1) \<Rightarrow> handler e w1 | (Inr x, w1) \<Rightarrow> (Inr x, w1))"

definition logCall :: "call \<Rightarrow> unit action" where
  "logCall c w = (Inr (), w \<lparr> calls := calls w @ [c] \<rparr>)"

type_synonym Problems = "(string \<times> ValidationParts) list"

text \<open>
  The collaborators as parameters: the validator; the file submission service, which
  returns the new file fields of the submission or throws; which writes of the repository and of the
  part service fail; the options a default part starts with; and the website modules
  with their \<^verbatim>\<open>acceptsAdditionalFiles\<close> flag.
\<close>

record ServiceEnv =
  validateParts :: "Submission \<Rightarrow> SubmissionPart list \<Rightarrow> Problems"
  fileService :: "file_op \<Rightarrow> Submission \<Rightarrow> service_error + FileSubmission option"
  saveFails :: "Submission \<Rightarrow> bool"
  defaultPartFails :: "Submission \<Rightarrow> bool"
  partWriteFails :: "SubmissionPart \<Rightarrow> bool"
  defaultPartData :: PartData
  websiteModules :: "(string \<times> bool) list"

subsection \<open>The repository, the part service and the post service\<close>

text \<open>
  Modelled from the spec: persistence is \<^verbatim>\<open>find/findOne/save/update/remove/count\<close> over
  submission and part records. A save or a part write either fails and changes nothing
  or stores the record; updates and removals always succeed. Parts are keyed by
  submission and account, as \<^verbatim>\<open>getSubmissionPart\<close> reads them.
\<close>

definition findOne :: "world \<Rightarrow> nat \<Rightarrow> SubmissionDoc option" where
  "findOne w i = find (\<lambda>d. sid d = i) (repository w)"

definition repositorySave :: "ServiceEnv \<Rightarrow> Submission \<Rightarrow> Submission action" where
  "repositorySave env s w =
     (if saveFails env s then (Inl (OtherError ''save''), w)
      else (Inr s, w \<lparr> repository := repository w @ [toDoc s] \<rparr>))"

definition repositoryUpdate :: "Submission \<Rightarrow> unit action" where
  "repositoryUpdate s w =
     (Inr (), w \<lparr> repository := map (\<lambda>d. if sid d = sid s then toDoc s else d) (repository w) \<rparr>)"

definition repositoryRemove :: "nat \<Rightarrow> nat action" where
  "repositoryRemove i w =
     (Inr (length (filter (\<lambda>d. sid d = i) (repository w))),
      w \<lparr> repository := filter (\<lambda>d. sid d \<noteq> i) (repository w) \<rparr>)"

definition getPartsForSubmission :: "world \<Rightarrow> nat \<Rightarrow> bool \<Rightarrow> SubmissionPart list" where
  "getPartsForSubmission w i incDefault =
     filter (\<lambda>p. submissionId p = i \<and> (incDefault \<or> \<not> isDefault p)) (partStore w)"

definition getSubmissionPart :: "world \<Rightarrow> nat \<Rightarrow> string \<Rightarrow> SubmissionPart option" where
  "getSubmissionPart w i account =
     find (\<lambda>p. submissionId p = i \<and> accountId p = account) (partStore w)"

definition createOrUpdateSubmissionPart ::
  "ServiceEnv \<Rightarrow> SubmissionPart \<Rightarrow> SubmissionType \<Rightarrow> SubmissionPart action" where
  "createOrUpdateSubmissionPart env part t w =
     (if partWriteFails env part then (Inl (OtherError ''part''), w)
      else case getSubmissionPart w (submissionId part) (accountId part) of
             Some old \<Rightarrow>
               (let stored = part \<lparr> partId := partId old \<rparr>
                in (Inr stored,
                    w \<lparr> partStore :=
                          map (\<lambda>p. if submissionId p = submissionId part
                                        \<and> accountId p = accountId part
                                     then stored else p) (partStore w) \<rparr>))
           | None \<Rightarrow>
               (let stored = part \<lparr> partId := Some (nextId w) \<rparr>
                in (Inr stored,
                    w \<lparr> partStore := partStore w @ [stored], nextId := Suc (nextId w) \<rparr>)))"

definition createDefaultPart :: "ServiceEnv \<Rightarrow> Submission \<Rightarrow> SubmissionPart action" where
  "createDefaultPart env s w =
     (if defaultPartFails env s then (Inl (OtherError ''default part''), w)
      else (let stored =
                  \<lparr> partId = Some (nextId w), submissionId = sid s, accountId = ''default'',
                    website = ''default'', isDefault = True, partData = defaultPartData env,
                    postStatus = UNPOSTED, postedTo = None \<rparr>
            in (Inr stored,
                w \<lparr> partStore := partStore w @ [stored], nextId := Suc (nextId w) \<rparr>)))"

definition removeSubmissionPart :: "nat \<Rightarrow> unit action" where
  "removeSubmissionPart i w =
     (Inr (), w \<lparr> partStore := filter (\<lambda>p. partId p \<noteq> Some i) (partStore w) \<rparr>)"

definition removeBySubmissionId :: "nat \<Rightarrow> unit action" where
  "removeBySubmissionId i w =
     (Inr (), w \<lparr> partStore := filter (\<lambda>p. submissionId p \<noteq> i) (partStore w) \<rparr>)"

text \<open>
  Modelled from the spec: the post service. \<^verbatim>\<open>isCurrentlyPosting\<close> and
  \<^verbatim>\<open>isCurrentlyQueued\<close> are read-only predicates; \<^verbatim>\<open>queue\<close> "adds to the pending set if not
  already queued or posting"; \<^verbatim>\<open>cancel\<close> "signals the submission's active
  CancellationToken (if posting) and removes it from the pending set (if merely queued)".
  Every call is logged.
\<close>

definition isCurrentlyPosting :: "world \<Rightarrow> nat \<Rightarrow> bool" where
  "isCurrentlyPosting w i = (i \<in> set (posting w))"

definition isCurrentlyQueued :: "world \<Rightarrow> nat \<Rightarrow> bool" where
  "isCurrentlyQueued w i = (i \<in> set (queued w))"

definition postServiceQueue :: "nat \<Rightarrow> world \<Rightarrow> world" where
  "postServiceQueue i w =
     (if i \<in> set (queued w) \<or> i \<in> set (posting w)
      then w \<lparr> calls := calls w @ [QueueCall i] \<rparr>
      else w \<lparr> queued := queued w @ [i], calls := calls w @ [QueueCall i] \<rparr>)"

definition postServiceCancel :: "nat \<Rightarrow> unit action" where
  "postServiceCancel i w =
     (Inr (), w \<lparr> queued := removeAll i (queued w), calls := calls w @ [CancelCall i] \<rparr>)"

subsection \<open>Reading and validating\<close>

record SubmissionPackage =
  pkgSubmission :: Submission
  pkgParts :: "(string \<times> SubmissionPart) list"
  pkgProblems :: Problems

text \<open>
  \<^verbatim>\<open>get\<close>: an entity is returned as it is; an id is looked up, and the entity read from
  the repository gets its flags from the post service.
\<close>

definition get :: "SubmissionEntityReference \<Rightarrow> Submission action" where
  "get ref w =
     (case ref of
        ByEntity s \<Rightarrow> (Inr s, w)
      | ById i \<Rightarrow>
          (case findOne w i of
             None \<Rightarrow>
               (Inl (NotFoundException (''Submission '' @ showNat i @ '' could not be found'')), w)
           | Some d \<Rightarrow>
               (Inr (toEntity d (isCurrentlyPosting w i) (isCurrentlyQueued w i)), w))
      | NullReference \<Rightarrow> (Inl (NotFoundException ''Submission null could not be found''), w))"

definition getAll :: "SubmissionType option \<Rightarrow> Submission list action" where
  "getAll t w =
     (Inr (map (\<lambda>d. toEntity d (isCurrentlyPosting w (sid d)) (isCurrentlyQueued w (sid d)))
             (filter (\<lambda>d. case t of None \<Rightarrow> True | Some ty \<Rightarrow> submissionType d = ty)
                (repository w))),
      w)"

definition validate :: "ServiceEnv \<Rightarrow> SubmissionEntityReference \<Rightarrow> SubmissionPackage action" where
  "validate env ref =
     andThen (get ref) (\<lambda>submission w.
       (let parts = getPartsForSubmission w (sid submission) True;
            found = validateParts env submission parts;
            mappedParts = foldl (\<lambda>m part. AList.update (accountId part) part m) [] parts
        in (Inr \<lparr> pkgSubmission = submission, pkgParts = mappedParts, pkgProblems = found \<rparr>,
            w \<lparr> calls := calls w @ [ValidateParts (sid submission)] \<rparr>)))"

text \<open>
  \<^verbatim>\<open>Promise.all(xs.map(f))\<close>: every call is started, so every call takes effect; the
  result is the list of the results, or the first error. The calls are taken in the
  order of the list, and all of them have finished when the result is looked at.
\<close>

fun promiseAll :: "('x \<Rightarrow> 'a action) \<Rightarrow> 'x list \<Rightarrow> 'a list action" where
  "promiseAll f [] w = (Inr [], w)"
| "promiseAll f (x # xs) w =
     (case f x w of
        (r, w1) \<Rightarrow>
          (case promiseAll f xs w1 of
             (rs, w2) \<Rightarrow>
               (case r of
                  Inl e \<Rightarrow> (Inl e, w2)
                | Inr y \<Rightarrow> (case rs of Inl e \<Rightarrow> (Inl e, w2) | Inr ys \<Rightarrow> (Inr (y # ys), w2)))))"

definition getAllAndValidate ::
  "ServiceEnv \<Rightarrow> SubmissionType option \<Rightarrow> SubmissionPackage list action" where
  "getAllAndValidate env t =
     andThen (getAll t) (promiseAll (\<lambda>s. validate env (ByEntity s)))"

text \<open>
  The tail that the update operations share: \<^verbatim>\<open>validate\<close> the submission and emit the
  event with the package.
\<close>

definition emitValidated ::
  "ServiceEnv \<Rightarrow> SubmissionEvent \<Rightarrow> Submission \<Rightarrow> SubmissionPackage action" where
  "emitValidated env ev s =
     andThen (validate env (ByEntity s)) (\<lambda>packaged.
     andThen (logCall (Emit ev [sid s])) (\<lambda>u. succeed packaged))"

subsection \<open>Scheduling\<close>

text \<open>A number is falsy when it is missing or zero.\<close>

fun truthyNumber :: "int option \<Rightarrow> bool" where
  "truthyNumber None = False"
| "truthyNumber (Some n) = (n \<noteq> 0)"

definition scheduleSubmission ::
  "ServiceEnv \<Rightarrow> SubmissionEntityReference \<Rightarrow> bool \<Rightarrow> int option \<Rightarrow> unit action" where
  "scheduleSubmission env ref scheduled postAtArg =
     andThen (get ref) (\<lambda>found.
       (let submissionToSchedule =
              (if truthyNumber postAtArg
               then found \<lparr> schedule := (schedule found) \<lparr> postAt := postAtArg \<rparr> \<rparr>
               else found)
        in if \<not> truthyNumber (postAt (schedule submissionToSchedule))
           then throw (BadRequestException
                  ''Submission cannot be scheduled because it does not have a postAt value'')
           else (let updated = submissionToSchedule
                       \<lparr> schedule := (schedule submissionToSchedule) \<lparr> isScheduled := scheduled \<rparr> \<rparr>
                 in andThen (repositoryUpdate updated) (\<lambda>u.
                    andThen (emitValidated env UPDATED updated) (\<lambda>p. succeed ())))))"

text \<open>
  \<^verbatim>\<open>postAt <= now\<close> is false for a missing \<^verbatim>\<open>postAt\<close>; the comparator of the sort
  subtracts the two \<^verbatim>\<open>postAt\<close>, which are numbers once the filter has passed.
\<close>

definition isDue :: "int \<Rightarrow> Submission \<Rightarrow> bool" where
  "isDue now s = (case postAt (schedule s) of None \<Rightarrow> False | Some t \<Rightarrow> t \<le> now)"

definition postAtNumber :: "Submission \<Rightarrow> int" where
  "postAtNumber s = (case postAt (schedule s) of None \<Rightarrow> 0 | Some t \<Rightarrow> t)"

definition candidates :: "world \<Rightarrow> int \<Rightarrow> SubmissionPackage list \<Rightarrow> SubmissionPackage list" where
  "candidates w now submissions =
     sort_key (\<lambda>p. postAtNumber (pkgSubmission p))
       (filter (\<lambda>p. \<not> isCurrentlyQueued w (sid (pkgSubmission p)))
         (filter (\<lambda>p. \<not> isCurrentlyPosting w (sid (pkgSubmission p)))
           (filter (\<lambda>p. isDue now (pkgSubmission p))
             (filter (\<lambda>p. isScheduled (schedule (pkgSubmission p))) submissions))))"

text \<open>
  The scan. In the \<^verbatim>\<open>forEach\<close>, \<^verbatim>\<open>scheduleSubmission(id, false)\<close> is started and not
  awaited: it yields at its first read of the repository, so the calls of
  \<^verbatim>\<open>postService.queue\<close> run first, in the order of the candidates, and the
  unschedulings complete after the loop; an unscheduling that throws is an unhandled
  rejection and changes nothing.
\<close>

definition queueScheduledSubmissions :: "ServiceEnv \<Rightarrow> int \<Rightarrow> unit action" where
  "queueScheduledSubmissions env now =
     andThen (getAllAndValidate env None) (\<lambda>submissions w.
       (let due = candidates w now submissions;
            w1 = foldl (\<lambda>v p. postServiceQueue (sid (pkgSubmission p)) v) w due;
            w2 = foldl (\<lambda>v p. snd (scheduleSubmission env (ById (sid (pkgSubmission p)))
                                      False None v)) w1 due
        in (Inr (), w2)))"

subsection \<open>Deleting and creating\<close>

definition deleteSubmission ::
  "ServiceEnv \<Rightarrow> SubmissionEntityReference \<Rightarrow> bool \<Rightarrow> nat action" where
  "deleteSubmission env ref skipCancel =
     andThen (get ref) (\<lambda>submission.
     andThen (if \<not> skipCancel then postServiceCancel (sid submission) else succeed ()) (\<lambda>u.
     andThen (case submissionType submission of
                FILE \<Rightarrow> logCall (CleanupSubmission (sid submission))
              | NOTIFICATION \<Rightarrow> succeed ()) (\<lambda>u.
     andThen (removeBySubmissionId (sid submission)) (\<lambda>u.
     andThen (logCall (Emit REMOVED [sid submission])) (\<lambda>u.
     repositoryRemove (sid submission))))))"

text \<open>
  \<^verbatim>\<open>SubmissionType[createDto.type]\<close> reads a property of the enum object, whose own
  properties are the members \<^verbatim>\<open>FILE\<close> and \<^verbatim>\<open>NOTIFICATION\<close>. A name that every object
  inherits from \<^verbatim>\<open>Object.prototype\<close> yields a function or an object, which is truthy;
  any other name yields \<^verbatim>\<open>undefined\<close>.
\<close>

datatype enum_lookup = EnumMember SubmissionType | InheritedProperty | NoProperty

definition objectPrototypeNames :: "string list" where
  "objectPrototypeNames =
     [''constructor'', ''hasOwnProperty'', ''isPrototypeOf'', ''propertyIsEnumerable'',
      ''toLocaleString'', ''toString'', ''valueOf'', ''__proto__'', ''__defineGetter__'',
      ''__defineSetter__'', ''__lookupGetter__'', ''__lookupSetter__'']"

definition lookupSubmissionType :: "string \<Rightarrow> enum_lookup" where
  "lookupSubmissionType t =
     (if t = ''FILE'' then EnumMember FILE
      else if t = ''NOTIFICATION'' then EnumMember NOTIFICATION
      else if t \<in> set objectPrototypeNames then InheritedProperty
      else NoProperty)"

text \<open>
  The file submission service changes the file fields of the submission it is given;
  what it does to the files on disk is logged as a call.
\<close>

definition callFileService :: "ServiceEnv \<Rightarrow> file_op \<Rightarrow> Submission \<Rightarrow> Submission action" where
  "callFileService env fop s w =
     (case fileService env fop s of
        Inl e \<Rightarrow> (Inl e, w \<lparr> calls := calls w @ [FileServiceCall fop (sid s)] \<rparr>)
      | Inr changed \<Rightarrow>
          (Inr (s \<lparr> files := changed \<rparr>), w \<lparr> calls := calls w @ [FileServiceCall fop (sid s)] \<rparr>))"

text \<open>\<^verbatim>\<open>new SubmissionEntity({...})\<close>: a new entity takes the next id.\<close>

definition newSubmissionEntity :: "string \<Rightarrow> SubmissionType \<Rightarrow> Submission action" where
  "newSubmissionEntity t ty w =
     (Inr \<lparr> sid = nextId w, title = t, submissionType = ty,
            schedule = \<lparr> isScheduled = False, postAt = None \<rparr>,
            order = 100 * int (length (repository w)), sources = [], files = None,
            isPosting = False, isQueued = False \<rparr>,
      w \<lparr> nextId := Suc (nextId w) \<rparr>)"

text \<open>
  \<^verbatim>\<open>create\<close>. With a type that passes the guard and is no member of the enum, no case
  of the \<^verbatim>\<open>switch\<close> matches and \<^verbatim>\<open>completedSubmission\<close> stays \<^verbatim>\<open>null\<close>: the new entity
  is dropped, the save of \<^verbatim>\<open>null\<close> throws, and the handler calls \<^verbatim>\<open>deleteSubmission\<close>
  with \<^verbatim>\<open>null\<close>.
\<close>

definition create :: "ServiceEnv \<Rightarrow> SubmissionCreate \<Rightarrow> Submission action" where
  "create env createDto =
     (case lookupSubmissionType (createType createDto) of
        NoProperty \<Rightarrow>
          throw (BadRequestException (''Unknown submission type: '' @ createType createDto))
      | InheritedProperty \<Rightarrow>
          andThen (\<lambda>w. (Inr (), w \<lparr> nextId := Suc (nextId w) \<rparr>)) (\<lambda>submission.
          tryCatch (throw (OtherError ''save''))
            (\<lambda>err.
               andThen (deleteSubmission env NullReference False) (\<lambda>n.
               throw (InternalServerErrorException err))))
      | EnumMember ty \<Rightarrow>
          andThen (newSubmissionEntity (createTitle createDto) ty) (\<lambda>submission.
          andThen (case ty of
                     FILE \<Rightarrow> callFileService env (CreateSubmission createDto) submission
                   | NOTIFICATION \<Rightarrow> succeed submission) (\<lambda>completedSubmission.
          andThen (tryCatch
                     (andThen (repositorySave env completedSubmission) (\<lambda>saved.
                      andThen (createDefaultPart env completedSubmission) (\<lambda>part. succeed ())))
                     (\<lambda>err.
                        andThen (deleteSubmission env (ByEntity completedSubmission) False) (\<lambda>n.
                        throw (InternalServerErrorException err)))) (\<lambda>u.
          andThen (emitValidated env CREATED completedSubmission) (\<lambda>p.
          succeed completedSubmission)))))"

subsection \<open>Updating\<close>

record SubmissionUpdate =
  updateId :: nat
  updateParts :: "SubmissionPart list"
  updatePostAt :: "int option"
  removedParts :: "nat list"

record SubmissionOverwrite =
  overwriteId :: nat
  overwriteParts :: "SubmissionPart list"

definition postingMessage :: string where
  "postingMessage = ''Cannot update a submission that is posting''"

definition setPart :: "ServiceEnv \<Rightarrow> Submission \<Rightarrow> SubmissionPart \<Rightarrow> SubmissionPart action" where
  "setPart env submission submissionPart w =
     (let existingPart = getSubmissionPart w (sid submission) (accountId submissionPart);
          part = (case existingPart of
                    Some existing \<Rightarrow> existing \<lparr> partData := partData submissionPart \<rparr>
                  | None \<Rightarrow>
                      \<lparr> partId = None, submissionId = sid submission,
                        accountId = accountId submissionPart, website = website submissionPart,
                        isDefault = isDefault submissionPart,
                        partData = partData submissionPart,
                        postStatus = postStatus submissionPart,
                        postedTo = postedTo submissionPart \<rparr>)
      in createOrUpdateSubmissionPart env part (submissionType submission) w)"

definition updateSubmission :: "ServiceEnv \<Rightarrow> SubmissionUpdate \<Rightarrow> SubmissionPackage action" where
  "updateSubmission env update =
     andThen (get (ById (updateId update))) (\<lambda>found.
       if isPosting found then throw (BadRequestException postingMessage)
       else (let withPostAt = found \<lparr> schedule := (schedule found) \<lparr> postAt := updatePostAt update \<rparr> \<rparr>;
                 submissionToUpdate =
                   (if \<not> truthyNumber (updatePostAt update)
                    then withPostAt \<lparr> schedule := (schedule withPostAt) \<lparr> isScheduled := False \<rparr> \<rparr>
                    else withPostAt)
             in andThen (repositoryUpdate submissionToUpdate) (\<lambda>u.
                andThen (promiseAll removeSubmissionPart (removedParts update)) (\<lambda>us.
                andThen (promiseAll (setPart env submissionToUpdate) (updateParts update)) (\<lambda>ps.
                emitValidated env UPDATED submissionToUpdate)))))"

definition overwriteSubmissionParts :: "ServiceEnv \<Rightarrow> SubmissionOverwrite \<Rightarrow> unit action" where
  "overwriteSubmissionParts env submissionOverwrite =
     andThen (get (ById (overwriteId submissionOverwrite))) (\<lambda>submission.
       if isPosting submission then throw (BadRequestException postingMessage)
       else (\<lambda>w.
         (let allParts = getPartsForSubmission w (sid submission) False;
              keepIds = map accountId (overwriteParts submissionOverwrite);
              removeParts = filter (\<lambda>p. accountId p \<notin> set keepIds) allParts
          in andThen (promiseAll (setPart env submission) (overwriteParts submissionOverwrite)) (\<lambda>ps.
             andThen (promiseAll (\<lambda>p. case partId p of
                                          Some i \<Rightarrow> removeSubmissionPart i
                                        | None \<Rightarrow> succeed ()) removeParts) (\<lambda>us.
             andThen (emitValidated env UPDATED submission) (\<lambda>p. succeed ()))) w)))"

definition setPostAt ::
  "ServiceEnv \<Rightarrow> SubmissionEntityReference \<Rightarrow> int option \<Rightarrow> unit action" where
  "setPostAt env ref newPostAt =
     andThen (get ref) (\<lambda>submission.
       if isPosting submission then throw (BadRequestException postingMessage)
       else (let changed = submission \<lparr> schedule := (schedule submission) \<lparr> postAt := newPostAt \<rparr> \<rparr>
             in andThen (repositoryUpdate changed) (\<lambda>u.
                andThen (emitValidated env UPDATED changed) (\<lambda>p. succeed ()))))"

subsection \<open>File submission actions\<close>

text \<open>
  The tail of the file actions: \<^verbatim>\<open>repository.update\<close>, \<^verbatim>\<open>validate\<close>, emit, return the
  package.
\<close>

definition updateAndEmit :: "ServiceEnv \<Rightarrow> Submission \<Rightarrow> SubmissionPackage action" where
  "updateAndEmit env submission =
     andThen (repositoryUpdate submission) (\<lambda>u. emitValidated env UPDATED submission)"

definition setFallbackFile ::
  "ServiceEnv \<Rightarrow> UploadedFile \<Rightarrow> nat \<Rightarrow> SubmissionPackage action" where
  "setFallbackFile env file i =
     andThen (get (ById i)) (\<lambda>submission.
       if isPosting submission then throw (BadRequestException postingMessage)
       else andThen (callFileService env (ChangeFallbackFile file) submission)
              (updateAndEmit env))"

definition removeFileSubmissionThumbnail :: "ServiceEnv \<Rightarrow> nat \<Rightarrow> SubmissionPackage action" where
  "removeFileSubmissionThumbnail env i =
     andThen (get (ById i)) (\<lambda>submission.
       if isPosting submission then throw (BadRequestException postingMessage)
       else andThen (callFileService env RemoveThumbnail submission) (updateAndEmit env))"

definition removeFileSubmissionAdditionalFile ::
  "ServiceEnv \<Rightarrow> nat \<Rightarrow> string \<Rightarrow> SubmissionPackage action" where
  "removeFileSubmissionAdditionalFile env i loc =
     andThen (get (ById i)) (\<lambda>submission.
       if isPosting submission then throw (BadRequestException postingMessage)
       else andThen (callFileService env (RemoveAdditionalFile loc) submission)
              (updateAndEmit env))"

definition changeFileSubmissionThumbnailFile ::
  "ServiceEnv \<Rightarrow> UploadedFile \<Rightarrow> nat \<Rightarrow> string \<Rightarrow> SubmissionPackage action" where
  "changeFileSubmissionThumbnailFile env file i path =
     andThen (get (ById i)) (\<lambda>submission.
       if isPosting submission then throw (BadRequestException postingMessage)
       else andThen (callFileService env (ChangeThumbnailFile file path) submission)
              (updateAndEmit env))"

definition hasFallbackForNonText :: "Submission \<Rightarrow> bool" where
  "hasFallbackForNonText s =
     (case files s of
        None \<Rightarrow> False
      | Some f \<Rightarrow> fallback f \<noteq> None \<and> fileType (primary f) \<noteq> TEXT)"

definition changeFileSubmissionPrimaryFile ::
  "ServiceEnv \<Rightarrow> UploadedFile \<Rightarrow> nat \<Rightarrow> string \<Rightarrow> SubmissionPackage action" where
  "changeFileSubmissionPrimaryFile env file i path =
     andThen (get (ById i)) (\<lambda>submission.
       if isPosting submission then throw (BadRequestException postingMessage)
       else andThen (callFileService env (ChangePrimaryFile file path) submission) (\<lambda>changed.
            andThen (if hasFallbackForNonText changed
                     then callFileService env RemoveFallbackFile changed
                     else succeed changed)
              (updateAndEmit env)))"

definition addFileSubmissionAdditionalFile ::
  "ServiceEnv \<Rightarrow> UploadedFile \<Rightarrow> nat \<Rightarrow> string \<Rightarrow> SubmissionPackage action" where
  "addFileSubmissionAdditionalFile env file i path =
     andThen (get (ById i)) (\<lambda>submission.
       if isPosting submission then throw (BadRequestException postingMessage)
       else andThen (callFileService env (AddAdditionalFile file path) submission)
              (updateAndEmit env))"

text \<open>
  \<^verbatim>\<open>updateFileSubmissionAdditionalFile\<close> replaces the ignored accounts of the first
  additional file at the record's location, if there is one.
\<close>

fun setIgnoredAccounts :: "FileRecord \<Rightarrow> FileRecord list \<Rightarrow> FileRecord list" where
  "setIgnoredAccounts r [] = []"
| "setIgnoredAccounts r (x # xs) =
     (if location x = location r
      then x \<lparr> ignoredAccounts := ignoredAccounts r \<rparr> # xs
      else x # setIgnoredAccounts r xs)"

definition updateFileSubmissionAdditionalFile ::
  "ServiceEnv \<Rightarrow> nat \<Rightarrow> FileRecord \<Rightarrow> unit action" where
  "updateFileSubmissionAdditionalFile env i r =
     andThen (get (ById i)) (\<lambda>submission.
       if isPosting submission then throw (BadRequestException postingMessage)
       else (case files submission of
               None \<Rightarrow> succeed ()
             | Some f \<Rightarrow>
                 (if find (\<lambda>x. location x = location r) (additional f) = None then succeed ()
                  else (let changed = submission
                              \<lparr> files := Some (f \<lparr> additional := setIgnoredAccounts r (additional f) \<rparr>) \<rparr>
                        in andThen (repositoryUpdate changed) (\<lambda>u.
                           andThen (emitValidated env UPDATED changed) (\<lambda>p. succeed ()))))))"

subsection \<open>Duplicating, splitting and recreating\<close>

text \<open>
  The callback of the part copies in \<^verbatim>\<open>duplicate\<close> and in the split:
  \<^verbatim>\<open>p.submissionId = id; p.postStatus = 'UNPOSTED'\<close>.
\<close>

definition copyPartTo :: "nat \<Rightarrow> SubmissionPart \<Rightarrow> SubmissionPart" where
  "copyPartTo i p = p \<lparr> submissionId := i, postStatus := UNPOSTED \<rparr>"

text \<open>
  \<^verbatim>\<open>original._id = undefined; let duplicate = new SubmissionEntity(original)\<close>: the copy is
  a new entity with the next id.
\<close>

definition copyEntity :: "Submission \<Rightarrow> Submission action" where
  "copyEntity original w =
     (Inr (original \<lparr> sid := nextId w \<rparr>), w \<lparr> nextId := Suc (nextId w) \<rparr>)"

definition duplicate :: "ServiceEnv \<Rightarrow> nat \<Rightarrow> Submission action" where
  "duplicate env originalId =
     andThen (get (ById originalId)) (\<lambda>original.
     andThen (copyEntity original) (\<lambda>copied.
     andThen (case submissionType copied of
                FILE \<Rightarrow> callFileService env DuplicateSubmission
                          (copied \<lparr> order := order copied + 1 \<rparr>)
              | NOTIFICATION \<Rightarrow> succeed (copied \<lparr> order := order copied + 1 \<rparr>)) (\<lambda>dup.
     tryCatch
       (andThen (repositorySave env dup) (\<lambda>createdSubmission w.
          (let parts = getPartsForSubmission w originalId True
           in andThen (promiseAll (\<lambda>p. createOrUpdateSubmissionPart env (copyPartTo (sid dup) p)
                                           (submissionType dup)) parts) (\<lambda>ps.
              andThen (emitValidated env CREATED createdSubmission) (\<lambda>p.
              succeed createdSubmission))) w))
       (\<lambda>err.
          andThen (deleteSubmission env (ById (sid dup)) False) (\<lambda>n.
          throw (InternalServerErrorException err))))))"

text \<open>
  The split. \<open>partsToCopy\<close> is \<^verbatim>\<open>websitePartsThatNeedSplitting\<close> after the default part
  has been pushed; \<^verbatim>\<open>parts.find(p => p.isDefault)\<close> is \<^verbatim>\<open>undefined\<close> when there is no
  default part, and the callback then throws on it.
\<close>

definition copyOptionalPart ::
  "ServiceEnv \<Rightarrow> Submission \<Rightarrow> SubmissionPart option \<Rightarrow> SubmissionPart action" where
  "copyOptionalPart env newSubmission po =
     (case po of
        None \<Rightarrow> throw (OtherError ''TypeError: cannot set properties of undefined'')
      | Some p \<Rightarrow> createOrUpdateSubmissionPart env (copyPartTo (sid newSubmission) p)
                   (submissionType newSubmission))"

text \<open>The \<^verbatim>\<open>try\<close> and \<^verbatim>\<open>catch\<close> of the loop, for the new submission of one additional file.\<close>

definition splitOne ::
  "ServiceEnv \<Rightarrow> SubmissionPart option list \<Rightarrow> Submission \<Rightarrow> unit action" where
  "splitOne env partsToCopy newSubmission =
     tryCatch
       (andThen (callFileService env DuplicateSubmission newSubmission) (\<lambda>dup.
        andThen (repositorySave env dup) (\<lambda>createdSubmission.
        andThen (promiseAll (copyOptionalPart env dup) partsToCopy) (\<lambda>ps.
        andThen (emitValidated env CREATED createdSubmission) (\<lambda>p.
        succeed ())))))
       (\<lambda>err.
          andThen (deleteSubmission env (ByEntity newSubmission) False) (\<lambda>n.
          throw (InternalServerErrorException err)))"

text \<open>
  The loop over the additional files: each gets a copy of the submission with a new id,
  the next \<open>order\<close>, no additional files and the file as its primary.
\<close>

fun splitEach ::
  "ServiceEnv \<Rightarrow> Submission \<Rightarrow> SubmissionPart option list \<Rightarrow> int \<Rightarrow> FileRecord list
     \<Rightarrow> unit action" where
  "splitEach env submission partsToCopy ord [] w = (Inr (), w)"
| "splitEach env submission partsToCopy ord (extra # rest) w =
     (case copyEntity submission w of
        (Inl e, w1) \<Rightarrow> (Inl e, w1)
      | (Inr copied, w1) \<Rightarrow>
          (case splitOne env partsToCopy
                  (copied \<lparr> order := ord + 1,
                            files := map_option (\<lambda>f. f \<lparr> additional := [], primary := extra \<rparr>)
                                       (files copied) \<rparr>) w1 of
             (Inl e, w2) \<Rightarrow> (Inl e, w2)
           | (Inr u, w2) \<Rightarrow> splitEach env submission partsToCopy (ord + 1) rest w2))"

definition additionalFiles :: "Submission \<Rightarrow> FileRecord list" where
  "additionalFiles s = (case files s of None \<Rightarrow> [] | Some f \<Rightarrow> additional f)"

definition splitAdditionalIntoSubmissions :: "ServiceEnv \<Rightarrow> nat \<Rightarrow> unit action" where
  "splitAdditionalIntoSubmissions env i =
     andThen (get (ById i)) (\<lambda>submission.
       if additionalFiles submission = []
       then throw (BadRequestException
              ''Submission is not a File submission or does not have additional files'')
       else (\<lambda>w.
         (let unsupportedAdditionalWebsites =
                map fst (filter (\<lambda>m. \<not> snd m) (websiteModules env));
              parts = getPartsForSubmission w (sid submission) True;
              websitePartsThatNeedSplitting =
                filter (\<lambda>p. website p \<in> set unsupportedAdditionalWebsites)
                  (filter (\<lambda>p. \<not> isDefault p) parts)
          in if websitePartsThatNeedSplitting = [] then (Inr (), w)
             else splitEach env submission
                    (map Some websitePartsThatNeedSplitting @ [find isDefault parts])
                    (order submission) (additionalFiles submission) w)))"

text \<open>
  \<^verbatim>\<open>recreate\<close> builds a submission from a log. Its part copies also clear \<^verbatim>\<open>postedTo\<close>;
  the \<^verbatim>\<open>filter\<close> after them has an \<^verbatim>\<open>async\<close> predicate, whose promise is truthy, and
  keeps every part. Reading the logged files is an input (\<open>readFile\<close>); a thumbnail or
  an additional file that cannot be restored is skipped.
\<close>

record SubmissionLog =
  logSubmission :: Submission
  logParts :: "SubmissionPart list"
  logDefaultPart :: SubmissionPart

definition recreatePart :: "nat \<Rightarrow> SubmissionPart \<Rightarrow> SubmissionPart" where
  "recreatePart i part = part \<lparr> submissionId := i, postStatus := UNPOSTED, postedTo := None \<rparr>"

definition uploadOf :: "(string \<Rightarrow> string option) \<Rightarrow> FileRecord \<Rightarrow> UploadedFile option" where
  "uploadOf readFile r =
     map_option (\<lambda>b. \<lparr> originalname = fileName r, uploadMimetype = mimetype r, buffer = b \<rparr>)
       (readFile (originalPath r))"

definition ignoringErrors :: "'a action \<Rightarrow> unit action" where
  "ignoringErrors m w = (Inr (), snd (m w))"

definition recreateData ::
  "(string \<Rightarrow> string option) \<Rightarrow> Submission \<Rightarrow> SubmissionCreate action" where
  "recreateData readFile s =
     (case submissionType s of
        NOTIFICATION \<Rightarrow>
          succeed \<lparr> createType = ''NOTIFICATION'', createTitle = title s,
                    createPath = None, createFile = None \<rparr>
      | FILE \<Rightarrow>
          (case files s of
             None \<Rightarrow> throw (OtherError ''TypeError: cannot read properties of undefined'')
           | Some f \<Rightarrow>
               succeed \<lparr> createType = ''FILE'', createTitle = title s,
                         createPath = Some (originalPath (primary f)),
                         createFile = Some \<lparr> originalname = fileName (primary f),
                                             uploadMimetype = mimetype (primary f),
                                             buffer = (case readFile (originalPath (primary f)) of
                                                         None \<Rightarrow> [] | Some b \<Rightarrow> b) \<rparr> \<rparr>))"

definition restoreFiles ::
  "ServiceEnv \<Rightarrow> (string \<Rightarrow> string option) \<Rightarrow> Submission \<Rightarrow> nat \<Rightarrow> unit action" where
  "restoreFiles env readFile s newId =
     (case (submissionType s, files s) of
        (FILE, Some f) \<Rightarrow>
          andThen (case thumbnail f of
                     None \<Rightarrow> succeed ()
                   | Some t \<Rightarrow>
                       (case uploadOf readFile t of
                          None \<Rightarrow> succeed ()
                        | Some up \<Rightarrow>
                            ignoringErrors (changeFileSubmissionThumbnailFile env up newId
                                              (originalPath t)))) (\<lambda>u.
          andThen (promiseAll (\<lambda>a. case uploadOf readFile a of
                                      None \<Rightarrow> succeed ()
                                    | Some up \<Rightarrow>
                                        ignoringErrors (addFileSubmissionAdditionalFile env up
                                                          newId (originalPath a)))
                     (additional f)) (\<lambda>us. succeed ()))
      | (ty, fs) \<Rightarrow> succeed ())"

definition recreate ::
  "ServiceEnv \<Rightarrow> (string \<Rightarrow> string option) \<Rightarrow> SubmissionLog \<Rightarrow> Submission action" where
  "recreate env readFile lg =
     andThen (recreateData readFile (logSubmission lg)) (\<lambda>createData.
     andThen (create env createData) (\<lambda>newSubmission.
     andThen (tryCatch
                (andThen (promiseAll (\<lambda>p. createOrUpdateSubmissionPart env p
                                              (submissionType newSubmission))
                            (map (recreatePart (sid newSubmission)) (logParts lg)
                             @ [(logDefaultPart lg) \<lparr> submissionId := sid newSubmission \<rparr>])) (\<lambda>ps.
                 restoreFiles env readFile (logSubmission lg) (sid newSubmission)))
                (\<lambda>err.
                   andThen (deleteSubmission env (ByEntity newSubmission) False) (\<lambda>n.
                   throw (InternalServerErrorException err)))) (\<lambda>u.
     andThen (validate env (ById (sid newSubmission))) (\<lambda>s.
     andThen (logCall (Emit UPDATED [sid newSubmission])) (\<lambda>u.
     succeed (pkgSubmission s))))))"


subsection \<open>Examples\<close>

text \<open>Collaborators that never fail and a validator that finds a problem everywhere.\<close>

definition quietEnv :: ServiceEnv where
  "quietEnv =
     \<lparr> validateParts = (\<lambda>s ps. map (\<lambda>p. (accountId p, \<lparr> problems = [''invalid''], warnings = [] \<rparr>)) ps),
       fileService = (\<lambda>fop s. Inr (files s)),
       saveFails = (\<lambda>s. False),
       defaultPartFails = (\<lambda>s. False),
       partWriteFails = (\<lambda>p. False),
       defaultPartData = \<lparr> dataTags = \<lparr> extendDefault = False, tagValues = [] \<rparr>,
                           autoScale = False \<rparr>,
       websiteModules = [(''Furbooru'', False), (''Weasyl'', True)] \<rparr>"

definition imageFiles :: FileSubmission where
  "imageFiles =
     \<lparr> primary = \<lparr> location = ''/files/wolf.png'', fileName = ''wolf.png'',
                   mimetype = ''image/png'', originalPath = ''/home/wolf.png'',
                   fileSize = 1024, fileType = IMAGE, ignoredAccounts = [] \<rparr>,
       thumbnail = None, fallback = None, additional = [] \<rparr>"

definition fileDoc :: "nat \<Rightarrow> SubmissionDoc" where
  "fileDoc i =
     \<lparr> sid = i, title = ''wolf'', submissionType = FILE,
       schedule = \<lparr> isScheduled = False, postAt = None \<rparr>,
       order = 0, sources = [], files = Some imageFiles \<rparr>"

definition exampleDoc :: "nat \<Rightarrow> bool \<Rightarrow> int option \<Rightarrow> SubmissionDoc" where
  "exampleDoc i scheduled t =
     \<lparr> sid = i, title = ''wolf'', submissionType = NOTIFICATION,
       schedule = \<lparr> isScheduled = scheduled, postAt = t \<rparr>,
       order = 0, sources = [], files = None \<rparr>"

definition postedPart :: SubmissionPart where
  "postedPart =
     \<lparr> partId = Some 2, submissionId = 1, accountId = ''acc1'', website = ''Furbooru'',
       isDefault = False, partData = fiveTags, postStatus = POSTED,
       postedTo = Some ''https://furbooru.org/images/42'' \<rparr>"

definition defaultPartOf :: "nat \<Rightarrow> nat \<Rightarrow> SubmissionPart" where
  "defaultPartOf pid i =
     \<lparr> partId = Some pid, submissionId = i, accountId = ''default'', website = ''default'',
       isDefault = True, partData = fiveTags, postStatus = UNPOSTED, postedTo = None \<rparr>"

definition exampleWorld :: "SubmissionDoc list \<Rightarrow> world" where
  "exampleWorld docs =
     \<lparr> repository = docs, partStore = [postedPart, defaultPartOf 3 1],
       posting = [], queued = [], nextId = 10, calls = [] \<rparr>"

subsection \<open>What the spec says of a scheduler tick\<close>

text \<open>
  Following the spec's words: the submissions a tick promotes are those with
  \<^verbatim>\<open>isScheduled == true\<close>, \<^verbatim>\<open>postAt <= now\<close>, neither posting nor queued, in ascending
  order of \<^verbatim>\<open>postAt\<close>; a promoted submission is marked no-longer-scheduled.
  \<open>unschedule\<close> marks the submissions with the given ids whose \<^verbatim>\<open>postAt\<close> is a
  non-zero number.
\<close>

definition docDue :: "int \<Rightarrow> SubmissionDoc \<Rightarrow> bool" where
  "docDue now d = (case postAt (schedule d) of None \<Rightarrow> False | Some t \<Rightarrow> t \<le> now)"

definition docPostAt :: "SubmissionDoc \<Rightarrow> int" where
  "docPostAt d = (case postAt (schedule d) of None \<Rightarrow> 0 | Some t \<Rightarrow> t)"

definition promoted :: "world \<Rightarrow> int \<Rightarrow> SubmissionDoc list" where
  "promoted w now =
     sort_key docPostAt
       (filter (\<lambda>d. isScheduled (schedule d) \<and> docDue now d
                     \<and> sid d \<notin> set (posting w) \<and> sid d \<notin> set (queued w))
          (repository w))"

definition unschedule :: "nat set \<Rightarrow> SubmissionDoc \<Rightarrow> SubmissionDoc" where
  "unschedule ids d =
     (if sid d \<in> ids \<and> truthyNumber (postAt (schedule d))
      then d \<lparr> schedule := (schedule d) \<lparr> isScheduled := False \<rparr> \<rparr>
      else d)"

subsection \<open>Fresh ids\<close>

text \<open>
  A world is fresh when every stored submission and part refers to an id that has been
  issued. \<open>touchesOnly k\<close> relates two worlds that differ, in the repository and the
  parts, only in records of the submission \<open>k\<close>.
\<close>

definition fresh :: "world \<Rightarrow> bool" where
  "fresh w = ((\<forall>d\<in>set (repository w). sid d < nextId w)
              \<and> (\<forall>p\<in>set (partStore w). submissionId p < nextId w))"

definition touchesOnly :: "nat \<Rightarrow> world \<Rightarrow> world \<Rightarrow> bool" where
  "touchesOnly k w w' =
     (filter (\<lambda>d. sid d \<noteq> k) (repository w') = filter (\<lambda>d. sid d \<noteq> k) (repository w)
      \<and> filter (\<lambda>p. submissionId p \<noteq> k) (partStore w')
          = filter (\<lambda>p. submissionId p \<noteq> k) (partStore w)
      \<and> nextId w \<le> nextId w'
      \<and> (\<forall>d\<in>set (repository w'). d \<in> set (repository w) \<or> sid d = k)
      \<and> (\<forall>p\<in>set (partStore w'). p \<in> set (partStore w) \<or> submissionId p = k))"

subsection \<open>More examples\<close>

definition postingWorld :: world where
  "postingWorld = (exampleWorld [exampleDoc 1 False (Some 500)]) \<lparr> posting := [1] \<rparr>"

definition dueWorld :: world where
  "dueWorld =
     exampleWorld [exampleDoc 1 True (Some 500), exampleDoc 4 True (Some 400),
                   exampleDoc 6 True (Some 2000), exampleDoc 7 False (Some 100)]"

definition emptyUpdate :: SubmissionUpdate where
  "emptyUpdate = \<lparr> updateId = 1, updateParts = [], updatePostAt = None, removedParts = [] \<rparr>"

definition pngUpload :: UploadedFile where
  "pngUpload = \<lparr> originalname = ''fox.png'', uploadMimetype = ''image/png'', buffer = ''12'' \<rparr>"

section \<open>Properties\<close>

subsection \<open>The tag search provider\<close>

lemma mapNames_entries: "mapNames (map tagEntry ns) = Inr (map JStr ns)"
  by (induction ns) auto

lemma getName_nameOf: "\<not> nullish d \<Longrightarrow> getName d = Inr (nameOf d)"
  by (cases d) auto

lemma mapNames_nameOf: "\<forall>d\<in>set ds. \<not> nullish d \<Longrightarrow> mapNames ds = Inr (map nameOf ds)"
  by (induction ds) (auto simp: getName_nameOf)

text \<open>
  C9: for every outcome of the request the provider resolves to a list and never
  rejects. A rejected request gives the empty list, and so does a response without data
  (a falsy body). A response whose body is an array gives the \<^verbatim>\<open>name\<close> of each entry,
  provided no entry is \<^verbatim>\<open>null\<close> or \<^verbatim>\<open>undefined\<close>; for entries that are tags with a
  name, these are the names as strings.
\<close>

theorem customE621TagSearchProvider_resolves:
  "(\<exists>names. customE621TagSearchProvider axiosGet processEnv v = Inr names)
   \<and> (\<forall>err. axiosGet (getBaseE621Url processEnv @ ''/tags/autocomplete.json?'')
               [(''expiry'', ''7''), (''search[name_matches]'', v)] = Inl err \<longrightarrow>
          customE621TagSearchProvider axiosGet processEnv v = Inr [])
   \<and> (\<forall>rdata. axiosGet (getBaseE621Url processEnv @ ''/tags/autocomplete.json?'')
               [(''expiry'', ''7''), (''search[name_matches]'', v)] = Inr rdata
             \<and> \<not> truthy rdata \<longrightarrow>
          customE621TagSearchProvider axiosGet processEnv v = Inr [])
   \<and> (\<forall>ds. axiosGet (getBaseE621Url processEnv @ ''/tags/autocomplete.json?'')
               [(''expiry'', ''7''), (''search[name_matches]'', v)] = Inr (JArr ds)
             \<and> (\<forall>d\<in>set ds. \<not> nullish d) \<longrightarrow>
          customE621TagSearchProvider axiosGet processEnv v = Inr (map nameOf ds))
   \<and> (\<forall>ns. axiosGet (getBaseE621Url processEnv @ ''/tags/autocomplete.json?'')
               [(''expiry'', ''7''), (''search[name_matches]'', v)] = Inr (JArr (map tagEntry ns)) \<longrightarrow>
          customE621TagSearchProvider axiosGet processEnv v = Inr (map JStr ns))"
proof -
  let ?r = "axiosGet (getBaseE621Url processEnv @ ''/tags/autocomplete.json?'')
               [(''expiry'', ''7''), (''search[name_matches]'', v)]"
  have p: "customE621TagSearchProvider axiosGet processEnv v = thenCatch ?r"
    by (simp add: customE621TagSearchProvider_def)
  have a: "\<exists>names. thenCatch ?r = Inr names"
    by (cases ?r) (auto simp: thenCatch_def split: sum.splits)
  have b: "\<And>err. thenCatch (Inl err) = Inr []"
    by (simp add: thenCatch_def onRejected_def)
  have c: "\<And>rdata. \<not> truthy rdata \<Longrightarrow> thenCatch (Inr rdata) = Inr []"
    by (simp add: thenCatch_def onFulfilled_def)
  have d: "\<And>ds. (\<forall>d\<in>set ds. \<not> nullish d) \<Longrightarrow> thenCatch (Inr (JArr ds)) = Inr (map nameOf ds)"
    by (simp add: thenCatch_def onFulfilled_def mapNames_nameOf)
  have e: "\<And>ns. thenCatch (Inr (JArr (map tagEntry ns))) = Inr (map JStr ns)"
    by (simp add: thenCatch_def onFulfilled_def mapNames_entries)
  show ?thesis
    unfolding p using a b c d e by simp
qed

text \<open>
  The provider asked for \<^verbatim>\<open>wo\<close>, against a server that answers with two tags, one that
  refuses the connection and one that answers with no data.
\<close>

theorem customE621TagSearchProvider_resolves_witness:
  "customE621TagSearchProvider twoTags (\<lambda>k. None) ''wo'' = Inr [JStr ''wolf'', JStr ''wolverine'']
   \<and> customE621TagSearchProvider (\<lambda>url params. Inl (RequestError ''refused'')) (\<lambda>k. None) ''wo''
        = Inr []
   \<and> customE621TagSearchProvider (\<lambda>url params. Inr JNull) (\<lambda>k. None) ''wo'' = Inr []"
proof -
  have u: "getBaseE621Url (\<lambda>k. None) = ''http://192.168.0.113''"
    by (simp add: getBaseE621Url_def)
  have 1: "customE621TagSearchProvider twoTags (\<lambda>k. None) ''wo''
      = Inr [JStr ''wolf'', JStr ''wolverine'']"
    using customE621TagSearchProvider_resolves [of twoTags "\<lambda>k. None" "''wo''"]
    by (simp add: u twoTags_def)
  have 2: "customE621TagSearchProvider (\<lambda>url params. Inl (RequestError ''refused'')) (\<lambda>k. None) ''wo''
        = Inr []"
    using customE621TagSearchProvider_resolves
      [of "\<lambda>url params. Inl (RequestError ''refused'')" "\<lambda>k. None" "''wo''"]
    by simp
  have 3: "customE621TagSearchProvider (\<lambda>url params. Inr JNull) (\<lambda>k. None) ''wo'' = Inr []"
    using customE621TagSearchProvider_resolves [of "\<lambda>url params. Inr JNull" "\<lambda>k. None" "''wo''"]
    by simp
  from 1 2 3 show ?thesis by simp
qed

subsection \<open>Lower case\<close>


















text \<open>Examples: capitals, the Kelvin sign, the two sigmas, the dotted capital I, a pair of surrogates.\<close>

lemmas lower_defs = toLowerCase_def lowercaseMapping_def simpleLowercase_def inRun_def
  utf16EncodeCodePoint_def isLeadingSurrogate_def isTrailingSurrogate_def

lemma toLowerCase_capitals: "toLowerCase (str ''Semi-GRIMDARK'') = str ''semi-grimdark''"
  by (simp add: lower_defs lowercaseRuns_def)

lemma toLowerCase_kelvin: "toLowerCase [0x212A, 0xC0, 0x17F] = [0x6B, 0xE0, 0x17F]"
  by (simp add: lower_defs lowercaseRuns_def)

lemma toLowerCase_sigma:
  "toLowerCase [0x41, 0x3A3, 0x27, 0x20, 0x3A3, 0x42] = [0x61, 0x3C2, 0x27, 0x20, 0x3C3, 0x62]"
  by (simp add: lower_defs lowercaseRuns_def finalSigma_def cased_def caseIgnorable_def
      inRanges_def casedRanges_def caseIgnorableRanges_def)

lemma toLowerCase_dotted: "toLowerCase [0x130] = [0x69, 0x307]"
  by (simp add: lower_defs)

lemma toLowerCase_surrogates: "toLowerCase [0xD801, 0xDC00, 0xDC00] = [0xD801, 0xDC28, 0xDC00]"
  by (simp add: lower_defs lowercaseRuns_def)

subsection \<open>The rating tag\<close>







subsection \<open>Posting with one retry\<close>

lemma getFormData_trace:
  "snd (getFormData env a u w) = w @ [GetFormData a u]"
  by (simp add: getFormData_def)

lemma attemptFilePost_trace:
  "\<exists>new. snd (attemptFilePost env tok d w)
      = w @ GetFormData (postAccountId d) (BASE_URL @ ''/images/new'') # new
    \<and> filter isGetFormData new = [] \<and> filter isLogWarn new = []
    \<and> length (filter isHttpPost new) \<le> 1
    \<and> (isCancelled tok \<longrightarrow> new = [])"
  by (auto simp: attemptFilePost_def getFormData_def httpPost_def checkCancelled_def Let_def
      split: sum.splits option.splits prod.splits)

lemma attemptFilePost_cancelled:
  "isCancelled tok \<Longrightarrow> \<exists>e. fst (attemptFilePost env tok d w) = Inl e"
  by (auto simp: attemptFilePost_def getFormData_def httpPost_def checkCancelled_def Let_def
      split: sum.splits option.splits prod.splits)

lemma attempts_append [simp]: "attempts (w @ v) = attempts w + attempts v"
  by (simp add: attempts_def)

lemma retries_append [simp]: "retries (w @ v) = retries w + retries v"
  by (simp add: retries_def)

lemma dispatches_append [simp]: "dispatches (w @ v) = dispatches w + dispatches v"
  by (simp add: dispatches_def)

lemma attemptFilePost_counts:
  assumes "attemptFilePost env tok d w = (r, w1)"
  shows "attempts w1 = attempts w + 1" and "retries w1 = retries w"
    and "dispatches w1 \<le> dispatches w + 1"
    and "isCancelled tok \<Longrightarrow> dispatches w1 = dispatches w"
    and "filter isGetFormData (drop (length w) w1)
           = [GetFormData (postAccountId d) (BASE_URL @ ''/images/new'')]"
    and "length w < length w1" and "take (length w) w1 = w"
proof -
  from attemptFilePost_trace [of env tok d w] assms
  obtain new where w1: "w1 = w @ GetFormData (postAccountId d) (BASE_URL @ ''/images/new'') # new"
    and n: "filter isGetFormData new = []" "filter isLogWarn new = []"
      "length (filter isHttpPost new) \<le> 1" "isCancelled tok \<longrightarrow> new = []"
    by auto
  show "attempts w1 = attempts w + 1" using n by (simp add: w1 attempts_def)
  show "retries w1 = retries w" using n by (simp add: w1 retries_def)
  show "dispatches w1 \<le> dispatches w + 1" using n by (simp add: w1 dispatches_def)
  show "isCancelled tok \<Longrightarrow> dispatches w1 = dispatches w" using n by (simp add: w1 dispatches_def)
  show "filter isGetFormData (drop (length w) w1)
           = [GetFormData (postAccountId d) (BASE_URL @ ''/images/new'')]"
    using n by (simp add: w1)
  show "length w < length w1" by (simp add: w1)
  show "take (length w) w1 = w" by (simp add: w1)
qed

text \<open>
  C1: when the first attempt returns a response, \<^verbatim>\<open>postFileSubmission\<close> returns it after
  a single attempt. When the first attempt throws, exactly one more attempt is made,
  at once, with the same token and data (the trace gains two form captures with the same
  arguments and one retry warning), and the outcome of the post is the outcome of that
  second attempt: its response when it succeeds, its error when it fails as well.
\<close>

theorem postFileSubmission_retries_once:
  "(\<forall>response w1. attemptFilePost env tok d w = (Inr response, w1) \<longrightarrow>
       postFileSubmission env tok d w = (Inr response, w1)
       \<and> attempts w1 = attempts w + 1 \<and> retries w1 = retries w)
   \<and> (\<forall>err w1 r2 w2.
        attemptFilePost env tok d w = (Inl err, w1)
        \<and> attemptFilePost env tok d (w1 @ [LogWarn err ''Furbooru Post Retry'']) = (r2, w2) \<longrightarrow>
          postFileSubmission env tok d w = (r2, w2)
          \<and> attempts w2 = attempts w + 2 \<and> retries w2 = retries w + 1
          \<and> filter isGetFormData (drop (length w) w2)
              = [GetFormData (postAccountId d) (BASE_URL @ ''/images/new''),
                 GetFormData (postAccountId d) (BASE_URL @ ''/images/new'')])"
proof (intro conjI allI impI)
  fix response w1
  assume a: "attemptFilePost env tok d w = (Inr response, w1)"
  show "postFileSubmission env tok d w = (Inr response, w1)"
    by (simp add: postFileSubmission_def a)
  show "attempts w1 = attempts w + 1" using attemptFilePost_counts(1) [OF a] .
  show "retries w1 = retries w" using attemptFilePost_counts(2) [OF a] .
next
  fix err w1 r2 w2
  assume "attemptFilePost env tok d w = (Inl err, w1)
        \<and> attemptFilePost env tok d (w1 @ [LogWarn err ''Furbooru Post Retry'']) = (r2, w2)"
  then have a: "attemptFilePost env tok d w = (Inl err, w1)"
    and b: "attemptFilePost env tok d (w1 @ [LogWarn err ''Furbooru Post Retry'']) = (r2, w2)"
    by simp_all
  show "postFileSubmission env tok d w = (r2, w2)"
    by (simp add: postFileSubmission_def a b)
  show "attempts w2 = attempts w + 2"
    using attemptFilePost_counts(1) [OF a] attemptFilePost_counts(1) [OF b]
    by (simp add: attempts_def)
  show "retries w2 = retries w + 1"
    using attemptFilePost_counts(2) [OF a] attemptFilePost_counts(2) [OF b]
    by (simp add: retries_def)
  from attemptFilePost_trace [of env tok d w] a
  obtain n1 where w1: "w1 = w @ GetFormData (postAccountId d) (BASE_URL @ ''/images/new'') # n1"
    and n1: "filter isGetFormData n1 = []" by auto
  from attemptFilePost_trace [of env tok d "w1 @ [LogWarn err ''Furbooru Post Retry'']"] b
  obtain n2 where w2: "w2 = (w1 @ [LogWarn err ''Furbooru Post Retry''])
        @ GetFormData (postAccountId d) (BASE_URL @ ''/images/new'') # n2"
    and n2: "filter isGetFormData n2 = []" by auto
  show "filter isGetFormData (drop (length w) w2)
              = [GetFormData (postAccountId d) (BASE_URL @ ''/images/new''),
                 GetFormData (postAccountId d) (BASE_URL @ ''/images/new'')]"
    using n1 n2 by (simp add: w1 w2)
qed

lemmas post_defs = postFileSubmission_def attemptFilePost_def getFormData_def httpPost_def
  checkCancelled_def
  buildForm_def sourceUrl_def BASE_URL_def flakyEnv_def brokenEnv_def wolfPost_def
  attempts_def retries_def dispatches_def

text \<open>
  A destination that rejects the first post and accepts the second, and one that fails
  both times.
\<close>

theorem postFileSubmission_retries_once_witness:
  "fst (attemptFilePost flakyEnv \<lparr>isCancelled = False\<rparr> wolfPost [])
     = Inl (ResponseRejected ''error'')
   \<and> fst (postFileSubmission flakyEnv \<lparr>isCancelled = False\<rparr> wolfPost [])
     = Inr \<lparr>responseWebsite = ''Furbooru'', responseSource = None\<rparr>
   \<and> attempts (snd (postFileSubmission flakyEnv \<lparr>isCancelled = False\<rparr> wolfPost [])) = 2
   \<and> retries (snd (postFileSubmission flakyEnv \<lparr>isCancelled = False\<rparr> wolfPost [])) = 1
   \<and> fst (postFileSubmission brokenEnv \<lparr>isCancelled = False\<rparr> wolfPost [])
     = Inl (HttpFailed ''second'')"
proof -
  let ?tok = "\<lparr>isCancelled = False\<rparr>"
  let ?w1 = "snd (attemptFilePost flakyEnv ?tok wolfPost [])"
  let ?w1' = "?w1 @ [LogWarn (ResponseRejected ''error'') ''Furbooru Post Retry'']"
  let ?v1 = "snd (attemptFilePost brokenEnv ?tok wolfPost [])"
  let ?v1' = "?v1 @ [LogWarn (HttpFailed ''first'') ''Furbooru Post Retry'']"
  have a0: "fst (attemptFilePost flakyEnv ?tok wolfPost []) = Inl (ResponseRejected ''error'')"
    by (simp add: post_defs)
  then have a: "attemptFilePost flakyEnv ?tok wolfPost [] = (Inl (ResponseRejected ''error''), ?w1)"
    by (simp add: prod_eq_iff)
  have "fst (attemptFilePost flakyEnv ?tok wolfPost ?w1')
      = Inr \<lparr>responseWebsite = ''Furbooru'', responseSource = None\<rparr>"
    by (simp add: post_defs)
  then have b: "attemptFilePost flakyEnv ?tok wolfPost ?w1'
      = (Inr \<lparr>responseWebsite = ''Furbooru'', responseSource = None\<rparr>,
         snd (attemptFilePost flakyEnv ?tok wolfPost ?w1'))"
    by (simp add: prod_eq_iff)
  have "fst (attemptFilePost brokenEnv ?tok wolfPost []) = Inl (HttpFailed ''first'')"
    by (simp add: post_defs)
  then have c: "attemptFilePost brokenEnv ?tok wolfPost [] = (Inl (HttpFailed ''first''), ?v1)"
    by (simp add: prod_eq_iff)
  have "fst (attemptFilePost brokenEnv ?tok wolfPost ?v1') = Inl (HttpFailed ''second'')"
    by (simp add: post_defs)
  then have d: "attemptFilePost brokenEnv ?tok wolfPost ?v1'
      = (Inl (HttpFailed ''second''), snd (attemptFilePost brokenEnv ?tok wolfPost ?v1'))"
    by (simp add: prod_eq_iff)
  from postFileSubmission_retries_once [of flakyEnv ?tok wolfPost "[]"] a b
  have p1: "postFileSubmission flakyEnv ?tok wolfPost []
      = (Inr \<lparr>responseWebsite = ''Furbooru'', responseSource = None\<rparr>,
         snd (attemptFilePost flakyEnv ?tok wolfPost ?w1'))
      \<and> attempts (snd (attemptFilePost flakyEnv ?tok wolfPost ?w1')) = attempts [] + 2
      \<and> retries (snd (attemptFilePost flakyEnv ?tok wolfPost ?w1')) = retries [] + 1"
    by blast
  from postFileSubmission_retries_once [of brokenEnv ?tok wolfPost "[]"] c d
  have p2: "postFileSubmission brokenEnv ?tok wolfPost []
      = (Inl (HttpFailed ''second''), snd (attemptFilePost brokenEnv ?tok wolfPost ?v1'))"
    by blast
  show ?thesis using a0 p1 p2 by (simp add: attempts_def retries_def)
qed

text \<open>
  C2 as stated does not hold: with the token set before the post, the first attempt ends
  in \<open>Cancelled\<close>, and \<^verbatim>\<open>postFileSubmission\<close> retries it like any other failure.
\<close>

theorem cancelled_post_is_retried:
  "fst (postFileSubmission flakyEnv \<lparr>isCancelled = True\<rparr> wolfPost []) = Inl Cancelled
   \<and> snd (postFileSubmission flakyEnv \<lparr>isCancelled = True\<rparr> wolfPost [])
       = [GetFormData ''acc1'' ''https://furbooru.org/images/new'',
          LogWarn Cancelled ''Furbooru Post Retry'',
          GetFormData ''acc1'' ''https://furbooru.org/images/new'']
   \<and> retries (snd (postFileSubmission flakyEnv \<lparr>isCancelled = True\<rparr> wolfPost [])) = 1
   \<and> attempts (snd (postFileSubmission flakyEnv \<lparr>isCancelled = True\<rparr> wolfPost [])) = 2"
  by (simp add: post_defs)

text \<open>
  C2, amended: with the token set, no attempt gets past \<^verbatim>\<open>checkCancelled\<close>, so no HTTP
  post is dispatched and the post ends in an error; the one retry is still made (two
  form captures, one retry warning), and when the second form capture succeeds the
  error that surfaces is \<open>Cancelled\<close>.
\<close>

theorem cancelled_post_never_dispatches:
  assumes "isCancelled tok"
  shows "\<exists>err w'. postFileSubmission env tok d w = (Inl err, w')
     \<and> dispatches w' = dispatches w
     \<and> attempts w' = attempts w + 2 \<and> retries w' = retries w + 1
     \<and> (\<forall>captured. getFormDataReply env (attempts w + 1) (postAccountId d)
            (BASE_URL @ ''/images/new'') = Inr captured \<longrightarrow> err = Cancelled)"
proof -
  obtain r1 w1 where a: "attemptFilePost env tok d w = (r1, w1)" by (cases "attemptFilePost env tok d w")
  from attemptFilePost_cancelled [OF assms, of env d w] a obtain e1 where r1: "r1 = Inl e1" by auto
  let ?w1 = "w1 @ [LogWarn e1 ''Furbooru Post Retry'']"
  obtain r2 w2 where b: "attemptFilePost env tok d ?w1 = (r2, w2)"
    by (cases "attemptFilePost env tok d ?w1")
  from attemptFilePost_cancelled [OF assms, of env d ?w1] b obtain e2 where r2: "r2 = Inl e2" by auto
  have p: "postFileSubmission env tok d w = (Inl e2, w2)"
    using a b r1 r2 by (simp add: postFileSubmission_def)
  have d1: "dispatches w1 = dispatches w" using attemptFilePost_counts(4) [OF a assms] .
  have d2: "dispatches w2 = dispatches ?w1" using attemptFilePost_counts(4) [OF b assms] .
  have a1: "attempts w1 = attempts w + 1" using attemptFilePost_counts(1) [OF a] .
  have a2: "attempts w2 = attempts ?w1 + 1" using attemptFilePost_counts(1) [OF b] .
  have t1: "retries w1 = retries w" using attemptFilePost_counts(2) [OF a] .
  have t2: "retries w2 = retries ?w1" using attemptFilePost_counts(2) [OF b] .
  have c: "\<forall>captured. getFormDataReply env (attempts w + 1) (postAccountId d)
            (BASE_URL @ ''/images/new'') = Inr captured \<longrightarrow> e2 = Cancelled"
    using b r2 assms a1
    by (auto simp: attemptFilePost_def getFormData_def checkCancelled_def Let_def attempts_def
        split: sum.splits prod.splits)
  show ?thesis using p d1 d2 a1 a2 t1 t2 c
    by (simp add: dispatches_def attempts_def retries_def)
qed

text \<open>The cancelled post of the example.\<close>

theorem cancelled_post_never_dispatches_witness:
  "isCancelled \<lparr>isCancelled = True\<rparr>
   \<and> (\<exists>w'. postFileSubmission flakyEnv \<lparr>isCancelled = True\<rparr> wolfPost [] = (Inl Cancelled, w')
        \<and> dispatches w' = 0 \<and> attempts w' = 2 \<and> retries w' = 1)"
  using cancelled_post_never_dispatches [of "\<lparr>isCancelled = True\<rparr>" flakyEnv wolfPost "[]"]
  by (auto simp: flakyEnv_def dispatches_def attempts_def retries_def)

subsection \<open>Validation\<close>

lemma showNat_100: "showNat 100 = ''100''"
  by (simp add: showNat.simps digitChar_def)

lemma showNat_10: "showNat 10 = ''10''"
  by (simp add: showNat.simps digitChar_def)

lemma Furbooru_validate_shape:
  "\<exists>ps ws. Furbooru_validateFileSubmission u s p dp = \<lparr>problems = ps, warnings = ws\<rparr>
       \<and> (ws = [] \<or> ws = [fileName (primary s) @ '' will be scaled down to 100MB''])
       \<and> (ws \<noteq> [] \<longrightarrow> MBtoBytes u 100 < fileSize (primary s) \<and> autoScale (partData p))"
  unfolding Furbooru_validateFileSubmission_def Let_def showNat_100
  by (cases "MBtoBytes u 100 < fileSize (primary s)";
      cases "autoScale (partData p) \<and> fileType (primary s) = IMAGE
                   \<and> isMimeType u (mimetype (primary s))") simp_all

text \<open>
  C7, amended: the Furbooru adapter returns a result with an ordered list of problems and
  an ordered list of warnings, where the only warning is the one for an oversized file
  that autoscaling will shrink; the Weasyl adapter returns the ordered list of problems
  alone. In both cases a part is dispatched exactly when it is unposted and the list of
  problems is empty, whatever the warnings are.
\<close>

theorem validate_results_by_adapter:
  "(\<exists>ps ws. validateFileSubmission u Furbooru s p dp = PartsObject \<lparr>problems = ps, warnings = ws\<rparr>
       \<and> (ws = [] \<or> ws = [fileName (primary s) @ '' will be scaled down to 100MB''])
       \<and> (ws \<noteq> [] \<longrightarrow> MBtoBytes u 100 < fileSize (primary s) \<and> autoScale (partData p))
       \<and> (\<forall>st. dispatchable st (PartsObject \<lparr>problems = ps, warnings = ws\<rparr>)
              = (st = UNPOSTED \<and> ps = []))
       \<and> (\<forall>st ws'. dispatchable st (PartsObject \<lparr>problems = ps, warnings = ws'\<rparr>)
              = dispatchable st (PartsObject \<lparr>problems = ps, warnings = ws\<rparr>)))
   \<and> (\<exists>ps. validateFileSubmission u Weasyl s p dp = ProblemsArray ps
       \<and> (\<forall>st. dispatchable st (ProblemsArray ps) = (st = UNPOSTED \<and> ps = [])))"
proof -
  from Furbooru_validate_shape [of u s p dp] obtain ps ws where
    a: "Furbooru_validateFileSubmission u s p dp = \<lparr>problems = ps, warnings = ws\<rparr>"
    and b: "ws = [] \<or> ws = [fileName (primary s) @ '' will be scaled down to 100MB'']"
    and c: "ws \<noteq> [] \<longrightarrow> MBtoBytes u 100 < fileSize (primary s) \<and> autoScale (partData p)"
    by blast
  have d: "\<forall>st ws'. dispatchable st (PartsObject \<lparr>problems = ps, warnings = ws'\<rparr>)
              = (st = UNPOSTED \<and> ps = [])"
    by (simp add: dispatchable_def)
  have e: "\<forall>ps' st. dispatchable st (ProblemsArray ps') = (st = UNPOSTED \<and> ps' = [])"
    by (simp add: dispatchable_def)
  have f: "validateFileSubmission u Furbooru s p dp = PartsObject \<lparr>problems = ps, warnings = ws\<rparr>"
    by (simp add: a)
  show ?thesis
    apply (rule conjI)
     apply (rule exI [of _ ps], rule exI [of _ ws])
    using f b c d apply simp
    using e apply simp
    done
qed

lemma examplePart_data [simp]:
  "partData (examplePart site) = fiveTags"
  by (simp add: examplePart_def)

lemma plainUtils_simps [simp]:
  "getTags plainUtils d p = (if extendDefault p then tagValues d @ tagValues p else tagValues p)"
  "supportsFileType plainUtils f accepted = True"
  "MBtoBytes plainUtils mb = mb * 1048576"
  "isMimeType plainUtils m = (m = ''image/png'')"
  "typeString plainUtils t = ''IMAGE''"
  by (simp_all add: plainUtils_def)

lemma bigImage_primary [simp]:
  "fileSize (primary bigImage) = 209715200"
  "fileType (primary bigImage) = IMAGE"
  "mimetype (primary bigImage) = ''image/png''"
  "fileName (primary bigImage) = ''wolf.png''"
  by (simp_all add: bigImage_def)

lemma fiveTags_simps [simp]:
  "autoScale fiveTags = True"
  "dataTags fiveTags = \<lparr> extendDefault = False, tagValues = [''a'', ''b'', ''c'', ''d'', ''e''] \<rparr>"
  by (simp_all add: fiveTags_def)

lemma Furbooru_bigImage:
  "Furbooru_validateFileSubmission plainUtils bigImage (examplePart ''Furbooru'')
       (examplePart ''default'')
     = \<lparr>problems = [], warnings = [''wolf.png will be scaled down to 100MB'']\<rparr>"
  unfolding Furbooru_validateFileSubmission_def Let_def showNat_100
  by simp

lemma Weasyl_bigImage:
  "Weasyl_validateFileSubmission plainUtils bigImage (examplePart site)
       (examplePart ''default'') = [''Weasyl limits IMAGE to 10MB'']"
  unfolding Weasyl_validateFileSubmission_def Let_def Weasyl_maxMB_def
  by (simp add: showNat_10)

text \<open>
  C7 as stated does not hold for every adapter: the validate operation of the Weasyl
  adapter returns a bare list of problems, not an object with problems and warnings.
\<close>

theorem weasyl_validate_has_no_warnings:
  "\<not> (\<exists>vp. validateFileSubmission plainUtils Weasyl bigImage (examplePart ''Weasyl'')
            (examplePart ''default'') = PartsObject vp)
   \<and> validateFileSubmission plainUtils Weasyl bigImage (examplePart ''Weasyl'')
        (examplePart ''default'') = ProblemsArray [''Weasyl limits IMAGE to 10MB'']"
  by (simp add: Weasyl_bigImage)

text \<open>
  An oversized image with autoscaling: Furbooru warns and the part can be posted;
  Weasyl reports a problem and the part is held back.
\<close>

theorem validate_results_by_adapter_witness:
  "validateFileSubmission plainUtils Furbooru bigImage (examplePart ''Furbooru'')
       (examplePart ''default'')
     = PartsObject \<lparr>problems = [], warnings = [''wolf.png will be scaled down to 100MB'']\<rparr>
   \<and> dispatchable UNPOSTED (validateFileSubmission plainUtils Furbooru bigImage
       (examplePart ''Furbooru'') (examplePart ''default''))
   \<and> \<not> dispatchable UNPOSTED (validateFileSubmission plainUtils Weasyl bigImage
       (examplePart ''Furbooru'') (examplePart ''default''))"
  using validate_results_by_adapter [of plainUtils bigImage "examplePart ''Furbooru''"
      "examplePart ''default''"]
  by (simp add: Furbooru_bigImage Weasyl_bigImage dispatchable_def)

subsection \<open>The submission service: basic facts\<close>

lemma insort_key_map: "insort_key f (g x) (map g xs) = map g (insort_key (\<lambda>a. f (g a)) x xs)"
  by (induction xs) auto

lemma sort_key_map: "sort_key f (map g xs) = map g (sort_key (\<lambda>a. f (g a)) xs)"
  by (induction xs) (auto simp: insort_key_map)

lemma toDoc_toEntity [simp]: "toDoc (toEntity d p q) = d"
  by (simp add: toDoc_def toEntity_def)

lemma toEntity_fields [simp]:
  "sid (toEntity d p q) = sid d"
  "schedule (toEntity d p q) = schedule d"
  "submissionType (toEntity d p q) = submissionType d"
  "files (toEntity d p q) = files d"
  "isPosting (toEntity d p q) = p"
  "isQueued (toEntity d p q) = q"
  by (simp_all add: toEntity_def)

lemma toDoc_fields [simp]:
  "sid (toDoc s) = sid s"
  "schedule (toDoc s) = schedule s"
  "submissionType (toDoc s) = submissionType s"
  "files (toDoc s) = files s"
  by (simp_all add: toDoc_def)

lemma toDoc_schedule_update [simp]:
  "toDoc (schedule_update f s) = schedule_update f (toDoc s)"
  by (simp add: toDoc_def)

lemma findOne_Some: "findOne w i = Some d \<Longrightarrow> d \<in> set (repository w) \<and> sid d = i"
  unfolding findOne_def by (auto simp: find_Some_iff)

lemma findOne_None: "findOne w i = None \<longleftrightarrow> i \<notin> sid ` set (repository w)"
  unfolding findOne_def by (auto simp: find_None_iff)

lemma find_distinct_key:
  "distinct (map f xs) \<Longrightarrow> d \<in> set xs \<Longrightarrow> find (\<lambda>x. f x = f d) xs = Some d"
  by (induction xs) (auto simp: image_iff)

lemma findOne_distinct:
  "distinct (map sid (repository w)) \<Longrightarrow> d \<in> set (repository w) \<Longrightarrow> findOne w (sid d) = Some d"
  unfolding findOne_def by (rule find_distinct_key)

text \<open>The package that \<^verbatim>\<open>validate\<close> builds for an entity.\<close>

lemma validate_entity:
  "validate env (ByEntity s) w =
     (Inr \<lparr> pkgSubmission = s,
            pkgParts = foldl (\<lambda>m part. AList.update (accountId part) part m) []
                         (getPartsForSubmission w (sid s) True),
            pkgProblems = validateParts env s (getPartsForSubmission w (sid s) True) \<rparr>,
      w \<lparr> calls := calls w @ [ValidateParts (sid s)] \<rparr>)"
  by (simp add: validate_def andThen_def get_def Let_def)

lemma emitValidated_entity:
  "emitValidated env ev s w =
     (Inr (fst (projr (fst (validate env (ByEntity s) w)), ())),
      w \<lparr> calls := calls w @ [ValidateParts (sid s), Emit ev [sid s]] \<rparr>)"
  by (simp add: emitValidated_def andThen_def validate_entity logCall_def succeed_def)

lemma promiseAll_validate:
  "\<exists>ps. promiseAll (\<lambda>s. validate env (ByEntity s)) ss w =
          (Inr ps, w \<lparr> calls := calls w @ map (\<lambda>s. ValidateParts (sid s)) ss \<rparr>)
        \<and> map pkgSubmission ps = ss"
proof -
  define f where "f = (\<lambda>s. validate env (ByEntity s))"
  have step: "\<And>s w. \<exists>p. f s w = (Inr p, w \<lparr> calls := calls w @ [ValidateParts (sid s)] \<rparr>)
                 \<and> pkgSubmission p = s"
    by (simp add: f_def validate_entity)
  have "\<exists>ps. promiseAll f ss w =
          (Inr ps, w \<lparr> calls := calls w @ map (\<lambda>s. ValidateParts (sid s)) ss \<rparr>)
        \<and> map pkgSubmission ps = ss"
  proof (induction ss arbitrary: w)
    case Nil
    show ?case by simp
  next
    case (Cons s ss)
    from step [of s w] obtain p where
      p: "f s w = (Inr p, w \<lparr> calls := calls w @ [ValidateParts (sid s)] \<rparr>)"
      and ps: "pkgSubmission p = s"
      by blast
    let ?w1 = "w \<lparr> calls := calls w @ [ValidateParts (sid s)] \<rparr>"
    from Cons.IH [of ?w1] obtain qs where
      qs: "promiseAll f ss ?w1 =
          (Inr qs, ?w1 \<lparr> calls := calls ?w1 @ map (\<lambda>s. ValidateParts (sid s)) ss \<rparr>)"
      and m: "map pkgSubmission qs = ss"
      by blast
    show ?case
      using p ps qs m by simp
  qed
  then show ?thesis by (simp add: f_def)
qed

lemma getAllAndValidate_result:
  "\<exists>ps. getAllAndValidate env None w =
          (Inr ps, w \<lparr> calls := calls w @ map (\<lambda>d. ValidateParts (sid d)) (repository w) \<rparr>)
        \<and> map pkgSubmission ps =
            map (\<lambda>d. toEntity d (isCurrentlyPosting w (sid d)) (isCurrentlyQueued w (sid d)))
              (repository w)"
proof -
  let ?ss = "map (\<lambda>d. toEntity d (isCurrentlyPosting w (sid d)) (isCurrentlyQueued w (sid d)))
              (repository w)"
  from promiseAll_validate [of env ?ss w] obtain ps where
    "promiseAll (\<lambda>s. validate env (ByEntity s)) ?ss w =
          (Inr ps, w \<lparr> calls := calls w @ map (\<lambda>s. ValidateParts (sid s)) ?ss \<rparr>)"
    and "map pkgSubmission ps = ?ss"
    by blast
  then show ?thesis
    by (simp add: getAllAndValidate_def getAll_def andThen_def comp_def)
qed

subsection \<open>The scheduler tick\<close>

lemma candidates_promoted:
  assumes "map pkgSubmission ps =
            map (\<lambda>d. toEntity d (isCurrentlyPosting w (sid d)) (isCurrentlyQueued w (sid d)))
              (repository w)"
    and "posting v = posting w" and "queued v = queued w"
  shows "map (\<lambda>p. sid (pkgSubmission p)) (candidates v now ps) = map sid (promoted w now)"
proof -
  let ?ent = "\<lambda>d. toEntity d (isCurrentlyPosting w (sid d)) (isCurrentlyQueued w (sid d))"
  let ?P = "\<lambda>s. isScheduled (schedule s) \<and> isDue now s
                     \<and> \<not> isCurrentlyPosting v (sid s) \<and> \<not> isCurrentlyQueued v (sid s)"
  have "map pkgSubmission (candidates v now ps)
      = sort_key postAtNumber (filter ?P (map pkgSubmission ps))"
    unfolding candidates_def
    by (simp add: sort_key_map filter_map comp_def conj_commute conj_left_commute)
  also have "\<dots> = sort_key postAtNumber (filter ?P (map ?ent (repository w)))"
    by (simp only: assms(1))
  also have "\<dots> = map ?ent (promoted w now)"
    unfolding promoted_def
    by (simp add: sort_key_map filter_map comp_def isDue_def docDue_def postAtNumber_def
        docPostAt_def [abs_def] isCurrentlyPosting_def isCurrentlyQueued_def assms(2,3))
  finally have "map pkgSubmission (candidates v now ps) = map ?ent (promoted w now)" .
  then have "map sid (map pkgSubmission (candidates v now ps)) = map sid (map ?ent (promoted w now))"
    by simp
  then show ?thesis by (simp add: comp_def)
qed

lemma queue_all:
  "distinct ids \<Longrightarrow> set ids \<inter> (set (queued w) \<union> set (posting w)) = {} \<Longrightarrow>
   foldl (\<lambda>v i. postServiceQueue i v) w ids =
     w \<lparr> queued := queued w @ ids, calls := calls w @ map QueueCall ids \<rparr>"
proof (induction ids arbitrary: w)
  case Nil
  show ?case by simp
next
  case (Cons i ids)
  let ?w1 = "w \<lparr> queued := queued w @ [i], calls := calls w @ [QueueCall i] \<rparr>"
  have s: "postServiceQueue i w = ?w1"
    using Cons.prems by (simp add: postServiceQueue_def)
  have "foldl (\<lambda>v i. postServiceQueue i v) ?w1 ids =
     ?w1 \<lparr> queued := queued ?w1 @ ids, calls := calls ?w1 @ map QueueCall ids \<rparr>"
    using Cons.prems by (intro Cons.IH) auto
  then show ?case by (simp add: s)
qed

lemma scheduleSubmission_off:
  assumes "distinct (map sid (repository v))"
  shows "\<exists>c. snd (scheduleSubmission env (ById i) False None v) =
           v \<lparr> repository := map (unschedule {i}) (repository v), calls := calls v @ c \<rparr>"
proof (cases "findOne v i")
  case None
  then have "i \<notin> sid ` set (repository v)" by (simp add: findOne_None)
  then have "map (unschedule {i}) (repository v) = repository v"
    by (intro map_idI) (auto simp: unschedule_def)
  then show ?thesis
    using None by (intro exI [of _ "[]"]) (simp add: scheduleSubmission_def andThen_def get_def)
next
  case (Some d)
  then have d: "d \<in> set (repository v)" "sid d = i" using findOne_Some by auto
  show ?thesis
  proof (cases "truthyNumber (postAt (schedule d))")
    case False
    have "map (unschedule {i}) (repository v) = repository v"
    proof (intro map_idI)
      fix x assume x: "x \<in> set (repository v)"
      show "unschedule {i} x = x"
      proof (cases "sid x = i")
        case True
        with assms x d have "x = d"
          by (metis findOne_distinct option.inject Some)
        with False show ?thesis by (simp add: unschedule_def)
      next
        case False
        then show ?thesis by (simp add: unschedule_def)
      qed
    qed
    then show ?thesis
      using Some False
      by (intro exI [of _ "[]"]) (simp add: scheduleSubmission_def andThen_def get_def throw_def)
  next
    case True
    have "map (\<lambda>x. if sid x = i then d \<lparr> schedule := (schedule d) \<lparr> isScheduled := False \<rparr> \<rparr> else x)
            (repository v) = map (unschedule {i}) (repository v)"
    proof (intro map_cong refl)
      fix x assume x: "x \<in> set (repository v)"
      show "(if sid x = i then d \<lparr> schedule := (schedule d) \<lparr> isScheduled := False \<rparr> \<rparr> else x)
             = unschedule {i} x"
      proof (cases "sid x = i")
        case True
        with assms x d have "x = d"
          by (metis findOne_distinct option.inject Some)
        with \<open>truthyNumber (postAt (schedule d))\<close> d show ?thesis by (simp add: unschedule_def)
      next
        case False
        then show ?thesis by (simp add: unschedule_def)
      qed
    qed
    then show ?thesis
      using Some True d
      by (intro exI [of _ "[ValidateParts i, Emit UPDATED [i]]"])
         (simp add: scheduleSubmission_def andThen_def get_def throw_def Let_def
           repositoryUpdate_def emitValidated_entity succeed_def cong: if_cong)
  qed
qed

lemma unschedule_sid [simp]: "sid (unschedule ids d) = sid d"
  by (simp add: unschedule_def)

lemma unschedule_insert: "unschedule ids (unschedule {i} d) = unschedule (insert i ids) d"
  by (auto simp: unschedule_def)

lemma unschedule_all:
  "distinct (map sid (repository v)) \<Longrightarrow>
   \<exists>c. foldl (\<lambda>u i. snd (scheduleSubmission env (ById i) False None u)) v ids =
         v \<lparr> repository := map (unschedule (set ids)) (repository v), calls := calls v @ c \<rparr>"
proof (induction ids arbitrary: v)
  case Nil
  have "map (unschedule {}) (repository v) = repository v"
    by (intro map_idI) (simp add: unschedule_def)
  then show ?case by (intro exI [of _ "[]"]) simp
next
  case (Cons i ids)
  from scheduleSubmission_off [OF Cons.prems, of env i] obtain c where
    c: "snd (scheduleSubmission env (ById i) False None v) =
           v \<lparr> repository := map (unschedule {i}) (repository v), calls := calls v @ c \<rparr>"
    by blast
  let ?v1 = "v \<lparr> repository := map (unschedule {i}) (repository v), calls := calls v @ c \<rparr>"
  have "distinct (map sid (repository ?v1))"
    using Cons.prems by (simp add: comp_def)
  from Cons.IH [OF this] obtain c' where
    c': "foldl (\<lambda>u i. snd (scheduleSubmission env (ById i) False None u)) ?v1 ids =
         ?v1 \<lparr> repository := map (unschedule (set ids)) (repository ?v1),
               calls := calls ?v1 @ c' \<rparr>"
    by blast
  show ?case
    by (intro exI [of _ "c @ c'"]) (simp add: c c' comp_def unschedule_insert)
qed

lemma discard_package:
  "andThen (emitValidated env ev s) (\<lambda>p. succeed ()) =
     (\<lambda>w. (Inr (), w \<lparr> calls := calls w @ [ValidateParts (sid s), Emit ev [sid s]] \<rparr>))"
  by (rule ext) (simp add: andThen_def emitValidated_entity succeed_def)

lemma scheduleSubmission_validator:
  "scheduleSubmission (env \<lparr> validateParts := v \<rparr>) ref b t = scheduleSubmission env ref b t"
  by (simp add: scheduleSubmission_def discard_package Let_def cong: if_cong)

lemma promoted_ids:
  assumes "distinct (map sid (repository w))"
  shows "distinct (map sid (promoted w now))"
    and "set (map sid (promoted w now)) \<inter> (set (queued w) \<union> set (posting w)) = {}"
proof -
  have "distinct (map sid (filter (\<lambda>d. isScheduled (schedule d) \<and> docDue now d
                     \<and> sid d \<notin> set (posting w) \<and> sid d \<notin> set (queued w)) (repository w)))"
    using assms by (rule distinct_map_filter)
  then have "distinct (filter (\<lambda>d. isScheduled (schedule d) \<and> docDue now d
                     \<and> sid d \<notin> set (posting w) \<and> sid d \<notin> set (queued w)) (repository w))"
    and "inj_on sid (set (filter (\<lambda>d. isScheduled (schedule d) \<and> docDue now d
                     \<and> sid d \<notin> set (posting w) \<and> sid d \<notin> set (queued w)) (repository w)))"
    by (simp_all add: distinct_map)
  then show "distinct (map sid (promoted w now))"
    by (simp add: promoted_def distinct_map)
  show "set (map sid (promoted w now)) \<inter> (set (queued w) \<union> set (posting w)) = {}"
    by (auto simp: promoted_def)
qed

lemma scan_unfold:
  assumes "distinct (map sid (repository w))"
  shows "queueScheduledSubmissions env now w =
     (Inr (),
      foldl (\<lambda>u i. snd (scheduleSubmission env (ById i) False None u))
        (w \<lparr> queued := queued w @ map sid (promoted w now),
             calls := calls w @ map (\<lambda>d. ValidateParts (sid d)) (repository w)
                        @ map QueueCall (map sid (promoted w now)) \<rparr>)
        (map sid (promoted w now)))"
proof -
  from getAllAndValidate_result [of env w] obtain ps where
    g: "getAllAndValidate env None w =
          (Inr ps, w \<lparr> calls := calls w @ map (\<lambda>d. ValidateParts (sid d)) (repository w) \<rparr>)"
    and m: "map pkgSubmission ps =
            map (\<lambda>d. toEntity d (isCurrentlyPosting w (sid d)) (isCurrentlyQueued w (sid d)))
              (repository w)"
    by blast
  let ?w0 = "w \<lparr> calls := calls w @ map (\<lambda>d. ValidateParts (sid d)) (repository w) \<rparr>"
  let ?ids = "map sid (promoted w now)"
  have ids: "map (\<lambda>p. sid (pkgSubmission p)) (candidates ?w0 now ps) = ?ids"
    using m by (intro candidates_promoted) simp_all
  have f1: "foldl (\<lambda>v p. postServiceQueue (sid (pkgSubmission p)) v) ?w0 (candidates ?w0 now ps)
      = foldl (\<lambda>v i. postServiceQueue i v) ?w0 ?ids"
    by (simp add: ids [symmetric] foldl_map)
  have f2: "\<And>v. foldl (\<lambda>v p. snd (scheduleSubmission env (ById (sid (pkgSubmission p))) False None v))
            v (candidates ?w0 now ps)
      = foldl (\<lambda>u i. snd (scheduleSubmission env (ById i) False None u)) v ?ids"
    by (simp add: ids [symmetric] foldl_map)
  have q: "foldl (\<lambda>v i. postServiceQueue i v) ?w0 ?ids =
     ?w0 \<lparr> queued := queued ?w0 @ ?ids, calls := calls ?w0 @ map QueueCall ?ids \<rparr>"
    using promoted_ids [OF assms, of now] by (intro queue_all) simp_all
  show ?thesis
    by (simp add: queueScheduledSubmissions_def andThen_def g Let_def f1 f2 q)
qed

lemma scan_world:
  assumes "distinct (map sid (repository w))"
  shows "\<exists>c. queueScheduledSubmissions env now w =
     (Inr (),
      w \<lparr> repository := map (unschedule (sid ` set (promoted w now))) (repository w),
          queued := queued w @ map sid (promoted w now),
          calls := calls w @ map (\<lambda>d. ValidateParts (sid d)) (repository w)
                     @ map QueueCall (map sid (promoted w now)) @ c \<rparr>)"
proof -
  let ?ids = "map sid (promoted w now)"
  let ?w1 = "w \<lparr> queued := queued w @ ?ids,
             calls := calls w @ map (\<lambda>d. ValidateParts (sid d)) (repository w)
                        @ map QueueCall ?ids \<rparr>"
  have "distinct (map sid (repository ?w1))" using assms by simp
  from unschedule_all [OF this, of env ?ids] obtain c where
    "foldl (\<lambda>u i. snd (scheduleSubmission env (ById i) False None u)) ?w1 ?ids =
         ?w1 \<lparr> repository := map (unschedule (set ?ids)) (repository ?w1),
               calls := calls ?w1 @ c \<rparr>"
    by blast
  then show ?thesis
    by (intro exI [of _ c]) (simp add: scan_unfold [OF assms])
qed

text \<open>
  What a tick does when ids are unique: the queue gains the promoted submissions, each
  once and in ascending order of \<^verbatim>\<open>postAt\<close>, and every promoted submission with a
  non-zero \<^verbatim>\<open>postAt\<close> is stored unscheduled.
\<close>

lemma promoted_sorted: "sorted (map docPostAt (promoted w now))"
  by (simp add: promoted_def sorted_sort_key)

lemma promoted_iff:
  "d \<in> set (promoted w now) \<longleftrightarrow>
     d \<in> set (repository w) \<and> isScheduled (schedule d) \<and> docDue now d
     \<and> sid d \<notin> set (posting w) \<and> sid d \<notin> set (queued w)"
  by (auto simp: promoted_def)

lemma scan_promotes:
  assumes "distinct (map sid (repository w))"
  shows "\<exists>w'. queueScheduledSubmissions env now w = (Inr (), w')
     \<and> queued w' = queued w @ map sid (promoted w now)
     \<and> distinct (map sid (promoted w now))
     \<and> sorted (map docPostAt (promoted w now))
     \<and> (\<forall>d\<in>set (repository w).
           d \<in> set (promoted w now) \<and> truthyNumber (postAt (schedule d)) \<longrightarrow>
             d \<lparr> schedule := (schedule d) \<lparr> isScheduled := False \<rparr> \<rparr> \<in> set (repository w'))"
proof -
  from scan_world [OF assms, of env now] obtain c where
    s: "queueScheduledSubmissions env now w =
     (Inr (),
      w \<lparr> repository := map (unschedule (sid ` set (promoted w now))) (repository w),
          queued := queued w @ map sid (promoted w now),
          calls := calls w @ map (\<lambda>d. ValidateParts (sid d)) (repository w)
                     @ map QueueCall (map sid (promoted w now)) @ c \<rparr>)"
    by blast
  have "\<forall>d\<in>set (repository w).
           d \<in> set (promoted w now) \<and> truthyNumber (postAt (schedule d)) \<longrightarrow>
             unschedule (sid ` set (promoted w now)) d
               = d \<lparr> schedule := (schedule d) \<lparr> isScheduled := False \<rparr> \<rparr>"
    by (auto simp: unschedule_def)
  then show ?thesis
    using s promoted_ids(1) [OF assms, of now] promoted_sorted [of w now]
    by (auto simp: image_iff intro!: bexI)
qed

text \<open>
  C3 fails on the code where a scheduled submission has \<^verbatim>\<open>postAt\<close> 0, a state that
  \<^verbatim>\<open>setPostAt\<close> produces. The tick promotes the submission (0 is not later than now) and
  hands it to the queue, but \<^verbatim>\<open>scheduleSubmission(id, false)\<close> rejects a falsy
  \<^verbatim>\<open>postAt\<close> before it clears the flag: the submission stays scheduled, and once its post
  has left the queue the next tick promotes it again.
\<close>

theorem scan_requeues_postAt_zero:
  "(let w1 = snd (scheduleSubmission quietEnv (ById 1) True (Some 500)
                    (exampleWorld [exampleDoc 1 False None]));
        w2 = snd (setPostAt quietEnv (ById 1) (Some 0) w1);
        w3 = snd (queueScheduledSubmissions quietEnv 1000 w2);
        w4 = snd (queueScheduledSubmissions quietEnv 61000 (w3 \<lparr> queued := [] \<rparr>))
    in repository w2 = [exampleDoc 1 True (Some 0)]
       \<and> queued w3 = [1] \<and> repository w3 = [exampleDoc 1 True (Some 0)]
       \<and> queued w4 = [1] \<and> repository w4 = [exampleDoc 1 True (Some 0)])"
  by code_simp

text \<open>
  C8 as stated does not hold: the scan loads the submissions through
  \<^verbatim>\<open>getAllAndValidate\<close>, which runs the validator on every submission, scheduled or not;
  here it finds problems on both parts of a submission that is not even scheduled.
\<close>

theorem scan_calls_validator:
  "calls (snd (queueScheduledSubmissions quietEnv 1000 (exampleWorld [exampleDoc 1 False None])))
     = [ValidateParts 1]
   \<and> pkgProblems (hd (projr (fst (getAllAndValidate quietEnv None
          (exampleWorld [exampleDoc 1 False None])))))
     = [(''acc1'', \<lparr> problems = [''invalid''], warnings = [] \<rparr>),
        (''default'', \<lparr> problems = [''invalid''], warnings = [] \<rparr>)]"
  by code_simp

text \<open>
  C8, amended: the scan validates every submission but never consults the result. With
  any other validator the tick returns the same result and the same world; the queue
  gains exactly the promoted submissions, which are chosen by schedule, due time and the
  two busy predicates alone, so invalid submissions are enqueued like valid ones; and the
  scan changes nothing in the repository but the \<^verbatim>\<open>isScheduled\<close> flag of promoted
  submissions, and nothing in the parts. Ids in the repository are unique.
\<close>

theorem scan_ignores_validation:
  assumes "distinct (map sid (repository w))"
  shows "queueScheduledSubmissions (env \<lparr> validateParts := v \<rparr>) now w
           = queueScheduledSubmissions env now w
    \<and> (\<exists>w'. queueScheduledSubmissions env now w = (Inr (), w')
         \<and> queued w' = queued w @ map sid (promoted w now)
         \<and> repository w' = map (unschedule (sid ` set (promoted w now))) (repository w)
         \<and> partStore w' = partStore w \<and> posting w' = posting w
         \<and> (\<forall>d\<in>set (repository w). ValidateParts (sid d) \<in> set (calls w')))"
proof
  show "queueScheduledSubmissions (env \<lparr> validateParts := v \<rparr>) now w
           = queueScheduledSubmissions env now w"
    by (simp add: scan_unfold [OF assms] scheduleSubmission_validator)
  from scan_world [OF assms, of env now] obtain c where
    "queueScheduledSubmissions env now w =
     (Inr (),
      w \<lparr> repository := map (unschedule (sid ` set (promoted w now))) (repository w),
          queued := queued w @ map sid (promoted w now),
          calls := calls w @ map (\<lambda>d. ValidateParts (sid d)) (repository w)
                     @ map QueueCall (map sid (promoted w now)) @ c \<rparr>)"
    by blast
  then show "\<exists>w'. queueScheduledSubmissions env now w = (Inr (), w')
         \<and> queued w' = queued w @ map sid (promoted w now)
         \<and> repository w' = map (unschedule (sid ` set (promoted w now))) (repository w)
         \<and> partStore w' = partStore w \<and> posting w' = posting w
         \<and> (\<forall>d\<in>set (repository w). ValidateParts (sid d) \<in> set (calls w'))"
    by auto
qed

text \<open>
  A tick over four submissions, with a validator that rejects everything: the two due
  ones are queued, earliest first, and unscheduled.
\<close>

theorem scan_ignores_validation_witness:
  "distinct (map sid (repository dueWorld))
   \<and> queueScheduledSubmissions (quietEnv \<lparr> validateParts := (\<lambda>s ps. []) \<rparr>) 1000 dueWorld
        = queueScheduledSubmissions quietEnv 1000 dueWorld
   \<and> (\<exists>w'. queueScheduledSubmissions quietEnv 1000 dueWorld = (Inr (), w')
        \<and> queued w' = [4, 1]
        \<and> repository w' = [exampleDoc 1 False (Some 500), exampleDoc 4 False (Some 400),
                            exampleDoc 6 True (Some 2000), exampleDoc 7 False (Some 100)]
        \<and> partStore w' = partStore dueWorld
        \<and> ValidateParts 7 \<in> set (calls w'))"
proof -
  have a: "distinct (map sid (repository dueWorld))"
    by code_simp
  have b: "map sid (promoted dueWorld 1000) = [4, 1]"
    by code_simp
  have c: "map (unschedule (sid ` set (promoted dueWorld 1000))) (repository dueWorld)
      = [exampleDoc 1 False (Some 500), exampleDoc 4 False (Some 400),
         exampleDoc 6 True (Some 2000), exampleDoc 7 False (Some 100)]"
    by code_simp
  have d: "exampleDoc 7 False (Some 100) \<in> set (repository dueWorld)"
    by code_simp
  have e: "queued dueWorld = []"
    by code_simp
  from scan_ignores_validation [OF a, where env = quietEnv and v = "\<lambda>s ps. []" and now = 1000]
  show ?thesis using a b c d e by (auto simp: exampleDoc_def)
qed

subsection \<open>Writing to a submission that is posting\<close>

lemma get_posting:
  assumes "findOne w i = Some d" and "i \<in> set (posting w)"
  shows "get (ById i) w = (Inr (toEntity d True (isCurrentlyQueued w i)), w)"
  using assms by (simp add: get_def isCurrentlyPosting_def)

lemma rejected_while_posting:
  assumes "findOne w i = Some d" and "i \<in> set (posting w)"
  shows "andThen (get (ById i))
           (\<lambda>s. if isPosting s then throw (BadRequestException postingMessage) else rest s) w
         = (Inl (BadRequestException postingMessage), w)"
  by (simp add: andThen_def get_posting [OF assms] throw_def)

lemma find_replaced:
  "x \<in> set xs \<Longrightarrow> f x = k \<Longrightarrow> f y = k \<Longrightarrow>
   find (\<lambda>z. f z = k) (map (\<lambda>z. if f z = k then y else z) xs) = Some y"
  by (induction xs) auto

lemma delete_posting:
  assumes "findOne w i = Some d"
  shows "\<exists>n w'. deleteSubmission env (ById i) False w = (Inr n, w')
            \<and> findOne w' i = None \<and> getPartsForSubmission w' i True = []
            \<and> CancelCall i \<in> set (calls w')"
  using assms findOne_Some [OF assms]
  by (cases "submissionType d")
     (auto simp: deleteSubmission_def andThen_def get_def postServiceCancel_def logCall_def
       succeed_def removeBySubmissionId_def repositoryRemove_def findOne_def
       getPartsForSubmission_def find_None_iff filter_empty_conv)

lemma schedule_both:
  "(sch :: SubmissionSchedule) \<lparr> postAt := t, isScheduled := b \<rparr> = \<lparr> isScheduled = b, postAt = t \<rparr>"
  by (cases sch) simp

lemma schedule_posting:
  assumes "findOne w i = Some d" and "truthyNumber t"
  shows "\<exists>w'. scheduleSubmission env (ById i) b t w = (Inr (), w')
            \<and> findOne w' i = Some (d \<lparr> schedule := \<lparr> isScheduled = b, postAt = t \<rparr> \<rparr>)"
proof -
  from assms(1) have d: "d \<in> set (repository w)" "sid d = i" using findOne_Some by auto
  have r: "find (\<lambda>z. sid z = i)
         (map (\<lambda>z. if sid z = i then d \<lparr> schedule := \<lparr> isScheduled = b, postAt = t \<rparr> \<rparr> else z)
            (repository w))
       = Some (d \<lparr> schedule := \<lparr> isScheduled = b, postAt = t \<rparr> \<rparr>)"
    using d by (intro find_replaced) simp_all
  show ?thesis
    using assms d r
    by (simp add: scheduleSubmission_def andThen_def get_def Let_def repositoryUpdate_def
        emitValidated_entity succeed_def findOne_def schedule_both cong: if_cong)
qed

text \<open>
  C4 as stated does not hold for deleting and for \<^verbatim>\<open>scheduleSubmission\<close>: on a
  submission that is posting, \<^verbatim>\<open>deleteSubmission\<close> cancels the post and removes the
  submission, and \<^verbatim>\<open>scheduleSubmission\<close> sets the schedule.
\<close>

theorem delete_and_schedule_not_gated:
  "deleteSubmission quietEnv (ById 1) False
       ((exampleWorld [exampleDoc 1 False (Some 500)]) \<lparr> posting := [1] \<rparr>)
     = (Inr 1, (exampleWorld []) \<lparr> partStore := [], posting := [1],
                  calls := [CancelCall 1, Emit REMOVED [1]] \<rparr>)
   \<and> scheduleSubmission quietEnv (ById 1) True None
       ((exampleWorld [exampleDoc 1 False (Some 500)]) \<lparr> posting := [1] \<rparr>)
     = (Inr (), (exampleWorld [exampleDoc 1 True (Some 500)])
                  \<lparr> posting := [1], calls := [ValidateParts 1, Emit UPDATED [1]] \<rparr>)"
  by code_simp

text \<open>
  C4, amended: while a submission is posting, \<^verbatim>\<open>updateSubmission\<close>,
  \<^verbatim>\<open>overwriteSubmissionParts\<close>, \<^verbatim>\<open>setPostAt\<close> and the seven file operations are rejected
  with a bad request and leave the world as it is. \<^verbatim>\<open>deleteSubmission\<close> has no such
  check: it asks the post service to cancel and removes the submission with its parts.
  \<^verbatim>\<open>scheduleSubmission\<close> has none either: given a \<^verbatim>\<open>postAt\<close> it stores the new schedule.
\<close>

theorem writes_while_posting:
  assumes "findOne w i = Some d" and "i \<in> set (posting w)"
  shows "(updateId u = i \<longrightarrow>
            updateSubmission env u w = (Inl (BadRequestException postingMessage), w))
    \<and> (overwriteId ov = i \<longrightarrow>
            overwriteSubmissionParts env ov w = (Inl (BadRequestException postingMessage), w))
    \<and> setPostAt env (ById i) t w = (Inl (BadRequestException postingMessage), w)
    \<and> setFallbackFile env up i w = (Inl (BadRequestException postingMessage), w)
    \<and> removeFileSubmissionThumbnail env i w = (Inl (BadRequestException postingMessage), w)
    \<and> removeFileSubmissionAdditionalFile env i loc w
         = (Inl (BadRequestException postingMessage), w)
    \<and> changeFileSubmissionThumbnailFile env up i path w
         = (Inl (BadRequestException postingMessage), w)
    \<and> changeFileSubmissionPrimaryFile env up i path w
         = (Inl (BadRequestException postingMessage), w)
    \<and> addFileSubmissionAdditionalFile env up i path w
         = (Inl (BadRequestException postingMessage), w)
    \<and> updateFileSubmissionAdditionalFile env i r w
         = (Inl (BadRequestException postingMessage), w)
    \<and> (\<exists>n w'. deleteSubmission env (ById i) False w = (Inr n, w')
            \<and> findOne w' i = None \<and> getPartsForSubmission w' i True = []
            \<and> CancelCall i \<in> set (calls w'))
    \<and> (truthyNumber t \<longrightarrow>
          (\<exists>w'. scheduleSubmission env (ById i) b t w = (Inr (), w')
            \<and> findOne w' i = Some (d \<lparr> schedule := \<lparr> isScheduled = b, postAt = t \<rparr> \<rparr>)))"
proof -
  note g = rejected_while_posting [OF assms]
  have 1: "updateId u = i \<Longrightarrow>
            updateSubmission env u w = (Inl (BadRequestException postingMessage), w)"
    unfolding updateSubmission_def by (simp add: g)
  have 2: "overwriteId ov = i \<Longrightarrow>
            overwriteSubmissionParts env ov w = (Inl (BadRequestException postingMessage), w)"
    unfolding overwriteSubmissionParts_def by (simp add: g)
  have 3: "setPostAt env (ById i) t w = (Inl (BadRequestException postingMessage), w)"
    unfolding setPostAt_def by (rule g)
  have 4: "setFallbackFile env up i w = (Inl (BadRequestException postingMessage), w)"
    unfolding setFallbackFile_def by (rule g)
  have 5: "removeFileSubmissionThumbnail env i w = (Inl (BadRequestException postingMessage), w)"
    unfolding removeFileSubmissionThumbnail_def by (rule g)
  have 6: "removeFileSubmissionAdditionalFile env i loc w
         = (Inl (BadRequestException postingMessage), w)"
    unfolding removeFileSubmissionAdditionalFile_def by (rule g)
  have 7: "changeFileSubmissionThumbnailFile env up i path w
         = (Inl (BadRequestException postingMessage), w)"
    unfolding changeFileSubmissionThumbnailFile_def by (rule g)
  have 8: "changeFileSubmissionPrimaryFile env up i path w
         = (Inl (BadRequestException postingMessage), w)"
    unfolding changeFileSubmissionPrimaryFile_def by (rule g)
  have 9: "addFileSubmissionAdditionalFile env up i path w
         = (Inl (BadRequestException postingMessage), w)"
    unfolding addFileSubmissionAdditionalFile_def by (rule g)
  have 10: "updateFileSubmissionAdditionalFile env i r w
         = (Inl (BadRequestException postingMessage), w)"
    unfolding updateFileSubmissionAdditionalFile_def by (rule g)
  note 11 = delete_posting [OF assms(1), of env]
  note 12 = schedule_posting [OF assms(1), of t env b]
  from 1 2 3 4 5 6 7 8 9 10 11 12 show ?thesis by blast
qed

text \<open>A submission that is posting: three rejected writes, a delete and a reschedule.\<close>

theorem writes_while_posting_witness:
  "findOne postingWorld 1 = Some (exampleDoc 1 False (Some 500))
   \<and> 1 \<in> set (posting postingWorld)
   \<and> updateSubmission quietEnv emptyUpdate postingWorld
        = (Inl (BadRequestException postingMessage), postingWorld)
   \<and> setPostAt quietEnv (ById 1) (Some 7) postingWorld
        = (Inl (BadRequestException postingMessage), postingWorld)
   \<and> changeFileSubmissionPrimaryFile quietEnv pngUpload 1 ''/tmp/fox.png'' postingWorld
        = (Inl (BadRequestException postingMessage), postingWorld)
   \<and> (\<exists>n w'. deleteSubmission quietEnv (ById 1) False postingWorld = (Inr n, w')
          \<and> findOne w' 1 = None)
   \<and> (\<exists>w'. scheduleSubmission quietEnv (ById 1) True (Some 7) postingWorld = (Inr (), w')
          \<and> findOne w' 1 = Some (exampleDoc 1 True (Some 7)))"
proof -
  have a: "findOne postingWorld 1 = Some (exampleDoc 1 False (Some 500))"
    by code_simp
  have b: "1 \<in> set (posting postingWorld)"
    by code_simp
  have c: "updateId emptyUpdate = 1"
    by (simp add: emptyUpdate_def)
  have d: "(exampleDoc 1 False (Some 500)) \<lparr> schedule := \<lparr> isScheduled = True, postAt = Some 7 \<rparr> \<rparr>
      = exampleDoc 1 True (Some 7)"
    by (simp add: exampleDoc_def)
  note h = writes_while_posting [OF a b, where u = emptyUpdate and env = quietEnv and t = "Some 7"
      and up = pngUpload and path = "''/tmp/fox.png''" and b = True
      and ov = "\<lparr> overwriteId = 1, overwriteParts = [] \<rparr>" and loc = "''/files/wolf.png''"
      and r = "primary imageFiles"]
  from h c have 1: "updateSubmission quietEnv emptyUpdate postingWorld
        = (Inl (BadRequestException postingMessage), postingWorld)"
    by blast
  from h have 2: "setPostAt quietEnv (ById 1) (Some 7) postingWorld
        = (Inl (BadRequestException postingMessage), postingWorld)"
    by blast
  from h have 3: "changeFileSubmissionPrimaryFile quietEnv pngUpload 1 ''/tmp/fox.png'' postingWorld
        = (Inl (BadRequestException postingMessage), postingWorld)"
    by blast
  from h have 4: "\<exists>n w'. deleteSubmission quietEnv (ById 1) False postingWorld = (Inr n, w')
          \<and> findOne w' 1 = None"
    by blast
  have "truthyNumber (Some 7)" by simp
  with h have 5: "\<exists>w'. scheduleSubmission quietEnv (ById 1) True (Some 7) postingWorld = (Inr (), w')
          \<and> findOne w' 1 = Some (exampleDoc 1 True (Some 7))"
    unfolding d by blast
  from a b 1 2 3 4 5 show ?thesis by blast
qed

subsection \<open>Copies of parts and failed creations\<close>


text \<open>
  What a failed creation leaves in the repository and the parts: after a failed
  \<^verbatim>\<open>create\<close> or \<^verbatim>\<open>duplicate\<close> both are as before, and after a failed split they are as
  the split of the additional files before the failing one leaves them.
\<close>

lemma deleteSubmission_entity:
  "deleteSubmission env (ByEntity s) False w =
     (Inr (length (filter (\<lambda>d. sid d = sid s) (repository w))),
      w \<lparr> queued := removeAll (sid s) (queued w),
          partStore := filter (\<lambda>p. submissionId p \<noteq> sid s) (partStore w),
          calls := calls w @ CancelCall (sid s)
                     # (case submissionType s of
                          FILE \<Rightarrow> [CleanupSubmission (sid s)] | NOTIFICATION \<Rightarrow> [])
                     @ [Emit REMOVED [sid s]],
          repository := filter (\<lambda>d. sid d \<noteq> sid s) (repository w) \<rparr>)"
  by (cases "submissionType s")
     (simp_all add: deleteSubmission_def andThen_def get_def postServiceCancel_def logCall_def
       succeed_def removeBySubmissionId_def repositoryRemove_def)

lemma filter_fresh:
  "\<forall>x\<in>set xs. f x < (k::nat) \<Longrightarrow> filter (\<lambda>x. f x \<noteq> k) xs = xs"
  by (induction xs) auto

lemma create_failure:
  assumes "fresh w" and "create env createDto w = (Inl e, w')"
  shows "repository w' = repository w \<and> partStore w' = partStore w"
proof (cases "lookupSubmissionType (createType createDto)")
  case NoProperty
  with assms(2) show ?thesis by (simp add: create_def throw_def)
next
  case InheritedProperty
  with assms(2) show ?thesis
    by (auto simp: create_def throw_def andThen_def tryCatch_def deleteSubmission_def get_def)
next
  case (EnumMember ty)
  let ?k = "nextId w"
  from assms(1) have fr: "filter (\<lambda>d. sid d \<noteq> ?k) (repository w) = repository w"
    and fp: "filter (\<lambda>p. submissionId p \<noteq> ?k) (partStore w) = partStore w"
    by (simp_all add: fresh_def filter_fresh)
  show ?thesis
    using assms(2) EnumMember fr fp
    by (auto simp: create_def andThen_def newSubmissionEntity_def tryCatch_def
        callFileService_def succeed_def throw_def repositorySave_def createDefaultPart_def
        emitValidated_entity deleteSubmission_entity Let_def
        split: SubmissionType.splits sum.splits prod.splits if_splits)
qed

lemma deleteSubmission_found:
  assumes "findOne w k = Some d"
  shows "deleteSubmission env (ById k) False w =
     deleteSubmission env (ByEntity (toEntity d (isCurrentlyPosting w k) (isCurrentlyQueued w k)))
       False w"
  using assms by (simp add: deleteSubmission_def andThen_def get_def)

lemma deleteSubmission_missing:
  assumes "findOne w k = None"
  shows "\<exists>m. deleteSubmission env (ById k) False w = (Inl (NotFoundException m), w)"
  using assms by (simp add: deleteSubmission_def andThen_def get_def)

lemma find_appended:
  "find P xs = None \<Longrightarrow> P y \<Longrightarrow> find P (xs @ [y]) = Some y"
  by (induction xs) (auto split: if_splits)

lemma filter_replaced:
  "f y = k \<Longrightarrow>
   filter (\<lambda>p. f p \<noteq> k) (map (\<lambda>p. if f p = k \<and> Q p then y else p) xs)
     = filter (\<lambda>p. f p \<noteq> k) xs"
  by (induction xs) auto

lemma part_write_frame:
  assumes "createOrUpdateSubmissionPart env part ty w = (r, w')"
  shows "repository w' = repository w
    \<and> filter (\<lambda>p. submissionId p \<noteq> submissionId part) (partStore w')
        = filter (\<lambda>p. submissionId p \<noteq> submissionId part) (partStore w)
    \<and> nextId w \<le> nextId w'
    \<and> (\<forall>p\<in>set (partStore w'). p \<in> set (partStore w) \<or> submissionId p = submissionId part)"
  using assms
  by (auto simp: createOrUpdateSubmissionPart_def Let_def filter_replaced
      split: if_splits option.splits)

lemma promiseAll_frame:
  assumes "\<And>x w r w'. f x w = (r, w') \<Longrightarrow>
             repository w' = repository w
             \<and> filter (\<lambda>p. submissionId p \<noteq> k) (partStore w')
                 = filter (\<lambda>p. submissionId p \<noteq> k) (partStore w)
             \<and> nextId w \<le> nextId w'"
    and "promiseAll f xs w = (r, w')"
  shows "repository w' = repository w
    \<and> filter (\<lambda>p. submissionId p \<noteq> k) (partStore w')
        = filter (\<lambda>p. submissionId p \<noteq> k) (partStore w)
    \<and> nextId w \<le> nextId w'"
  using assms(2)
proof (induction xs arbitrary: w r w')
  case Nil
  then show ?case by simp
next
  case (Cons x xs)
  obtain r1 w1 where s: "f x w = (r1, w1)" by (cases "f x w")
  obtain r2 w2 where t: "promiseAll f xs w1 = (r2, w2)" by (cases "promiseAll f xs w1")
  from Cons.prems s t have "w' = w2"
    by (auto split: sum.splits)
  with assms(1) [OF s] Cons.IH [OF t] show ?case by simp
qed

lemma duplicate_failure:
  assumes "fresh w" and "duplicate env i w = (Inl e, w')"
  shows "repository w' = repository w \<and> partStore w' = partStore w"
proof (cases "findOne w i")
  case None
  with assms(2) show ?thesis by (simp add: duplicate_def andThen_def get_def)
next
  case (Some d)
  let ?k = "nextId w"
  let ?w0 = "w \<lparr> nextId := Suc ?k \<rparr>"
  from assms(1) have fr: "filter (\<lambda>d. sid d \<noteq> ?k) (repository w) = repository w"
    and fp: "filter (\<lambda>p. submissionId p \<noteq> ?k) (partStore w) = partStore w"
    and nf: "findOne w ?k = None"
    by (auto simp: fresh_def filter_fresh findOne_None)
  let ?orig = "toEntity d (isCurrentlyPosting w i) (isCurrentlyQueued w i)"
  let ?copied = "?orig \<lparr> sid := ?k \<rparr>"
  let ?pre = "?copied \<lparr> order := order ?copied + 1 \<rparr>"
  define step where "step = (case submissionType ?copied of
                FILE \<Rightarrow> callFileService env DuplicateSubmission ?pre
              | NOTIFICATION \<Rightarrow> succeed ?pre)"
  obtain rA wA where A: "step ?w0 = (rA, wA)" by (cases "step ?w0")
  have wA: "repository wA = repository w" "partStore wA = partStore w" "nextId wA = Suc ?k"
    "posting wA = posting w" "queued wA = queued w"
    using A by (auto simp: step_def callFileService_def succeed_def
        split: SubmissionType.splits sum.splits)
  have rA: "\<And>dup. rA = Inr dup \<Longrightarrow> sid dup = ?k"
    using A by (auto simp: step_def callFileService_def succeed_def
        split: SubmissionType.splits sum.splits)
  have unfold: "duplicate env i w =
     (case rA of
        Inl err \<Rightarrow> (Inl err, wA)
      | Inr dup \<Rightarrow>
          tryCatch
            (andThen (repositorySave env dup) (\<lambda>createdSubmission w.
               (let parts = getPartsForSubmission w i True
                in andThen (promiseAll (\<lambda>p. createOrUpdateSubmissionPart env (copyPartTo (sid dup) p)
                                                (submissionType dup)) parts) (\<lambda>ps.
                   andThen (emitValidated env CREATED createdSubmission) (\<lambda>p.
                   succeed createdSubmission))) w))
            (\<lambda>err.
               andThen (deleteSubmission env (ById (sid dup)) False) (\<lambda>n.
               throw (InternalServerErrorException err))) wA)"
    using Some A
    by (simp add: duplicate_def andThen_def get_def copyEntity_def step_def split: sum.splits)
  show ?thesis
  proof (cases rA)
    case (Inl err)
    with assms(2) unfold wA show ?thesis by simp
  next
    case (Inr dup)
    then have k: "sid dup = ?k" by (rule rA)
    show ?thesis
    proof (cases "saveFails env dup")
      case True
      have "findOne wA ?k = None"
        using nf wA by (simp add: findOne_def)
      from deleteSubmission_missing [OF this, of env] obtain m where
        "deleteSubmission env (ById ?k) False wA = (Inl (NotFoundException m), wA)"
        by blast
      with assms(2) unfold Inr True k wA show ?thesis
        by (simp add: tryCatch_def andThen_def repositorySave_def)
    next
      case False
      let ?wB = "wA \<lparr> repository := repository wA @ [toDoc dup] \<rparr>"
      let ?f = "\<lambda>p. createOrUpdateSubmissionPart env (copyPartTo ?k p) (submissionType dup)"
      obtain rC wC where C: "promiseAll ?f (getPartsForSubmission ?wB i True) ?wB = (rC, wC)"
        by (cases "promiseAll ?f (getPartsForSubmission ?wB i True) ?wB")
      have frame: "repository wC = repository ?wB
          \<and> filter (\<lambda>p. submissionId p \<noteq> ?k) (partStore wC)
              = filter (\<lambda>p. submissionId p \<noteq> ?k) (partStore ?wB)
          \<and> nextId ?wB \<le> nextId wC"
      proof (rule promiseAll_frame [OF _ C])
        fix x v r v'
        assume "createOrUpdateSubmissionPart env (copyPartTo ?k x) (submissionType dup) v = (r, v')"
        from part_write_frame [OF this]
        show "repository v' = repository v
             \<and> filter (\<lambda>p. submissionId p \<noteq> ?k) (partStore v')
                 = filter (\<lambda>p. submissionId p \<noteq> ?k) (partStore v)
             \<and> nextId v \<le> nextId v'"
          by (simp add: copyPartTo_def)
      qed
      have body: "andThen (repositorySave env dup) (\<lambda>createdSubmission w.
               (let parts = getPartsForSubmission w i True
                in andThen (promiseAll (\<lambda>p. createOrUpdateSubmissionPart env (copyPartTo (sid dup) p)
                                                (submissionType dup)) parts) (\<lambda>ps.
                   andThen (emitValidated env CREATED createdSubmission) (\<lambda>p.
                   succeed createdSubmission))) w) wA
          = (case rC of Inl err \<Rightarrow> (Inl err, wC)
             | Inr ps \<Rightarrow> (Inr dup, wC \<lparr> calls := calls wC @ [ValidateParts ?k, Emit CREATED [?k]] \<rparr>))"
        using False C k
        by (simp add: andThen_def repositorySave_def Let_def emitValidated_entity succeed_def
            split: sum.splits)
      show ?thesis
      proof (cases rC)
        case (Inr ps)
        with assms(2) unfold \<open>rA = Inr dup\<close> body show ?thesis
          by (simp add: tryCatch_def)
      next
        case (Inl err)
        have "findOne wC ?k = Some (toDoc dup)"
        proof -
          have "find (\<lambda>d. sid d = ?k) (repository w @ [toDoc dup]) = Some (toDoc dup)"
            using nf k by (intro find_appended) (simp_all add: findOne_def)
          then show ?thesis using frame wA by (simp add: findOne_def)
        qed
        from deleteSubmission_found [OF this, of env]
        have del: "deleteSubmission env (ById ?k) False wC =
           deleteSubmission env
             (ByEntity (toEntity (toDoc dup) (isCurrentlyPosting wC ?k) (isCurrentlyQueued wC ?k)))
             False wC" .
        have "repository w' = filter (\<lambda>d. sid d \<noteq> ?k) (repository wC)
            \<and> partStore w' = filter (\<lambda>p. submissionId p \<noteq> ?k) (partStore wC)"
          using assms(2) unfold \<open>rA = Inr dup\<close> body Inl k
          by (auto simp: tryCatch_def andThen_def del deleteSubmission_entity throw_def)
        then show ?thesis
          using frame wA fr fp k by simp
      qed
    qed
  qed
qed

lemma touchesOnly_refl: "touchesOnly k w w"
  by (simp add: touchesOnly_def)

lemma touchesOnly_trans: "touchesOnly k a b \<Longrightarrow> touchesOnly k b c \<Longrightarrow> touchesOnly k a c"
  by (auto simp: touchesOnly_def)

lemma touchesOnly_calls [simp]: "touchesOnly k w (v \<lparr> calls := c \<rparr>) = touchesOnly k w v"
  by (simp add: touchesOnly_def)

lemma promiseAll_touchesOnly:
  assumes "\<And>x w r w'. f x w = (r, w') \<Longrightarrow> touchesOnly k w w'"
    and "promiseAll f xs w = (r, w')"
  shows "touchesOnly k w w'"
  using assms(2)
proof (induction xs arbitrary: w r w')
  case Nil
  then show ?case by (simp add: touchesOnly_refl)
next
  case (Cons x xs)
  obtain r1 w1 where s: "f x w = (r1, w1)" by (cases "f x w")
  obtain r2 w2 where t: "promiseAll f xs w1 = (r2, w2)" by (cases "promiseAll f xs w1")
  from Cons.prems s t have "w' = w2"
    by (auto split: sum.splits)
  with assms(1) [OF s] Cons.IH [OF t] show ?case
    by (auto intro: touchesOnly_trans)
qed

lemma copyOptionalPart_touchesOnly:
  assumes "copyOptionalPart env dup po w = (r, w')"
  shows "touchesOnly (sid dup) w w'"
proof (cases po)
  case None
  with assms show ?thesis by (simp add: copyOptionalPart_def throw_def touchesOnly_refl)
next
  case (Some p)
  with assms have "createOrUpdateSubmissionPart env (copyPartTo (sid dup) p) (submissionType dup) w
      = (r, w')"
    by (simp add: copyOptionalPart_def)
  from part_write_frame [OF this] show ?thesis
    by (simp add: touchesOnly_def copyPartTo_def)
qed

lemma splitOne_result:
  assumes "splitOne env partsToCopy s w = (r, w')"
  shows "touchesOnly (sid s) w w'
    \<and> (\<forall>e. r = Inl e \<longrightarrow> repository w' = filter (\<lambda>d. sid d \<noteq> sid s) (repository w)
                       \<and> partStore w' = filter (\<lambda>p. submissionId p \<noteq> sid s) (partStore w))"
proof -
  define body where "body =
       andThen (callFileService env DuplicateSubmission s) (\<lambda>dup.
        andThen (repositorySave env dup) (\<lambda>createdSubmission.
        andThen (promiseAll (copyOptionalPart env dup) partsToCopy) (\<lambda>ps.
        andThen (emitValidated env CREATED createdSubmission) (\<lambda>p.
        succeed ()))))"
  obtain rb wb where b: "body w = (rb, wb)" by (cases "body w")
  have tb: "touchesOnly (sid s) w wb"
  proof (cases "fileService env DuplicateSubmission s")
    case (Inl e)
    with b show ?thesis
      by (auto simp: body_def andThen_def callFileService_def touchesOnly_def)
  next
    case (Inr changed)
    let ?dup = "s \<lparr> files := changed \<rparr>"
    let ?w1 = "w \<lparr> calls := calls w @ [FileServiceCall DuplicateSubmission (sid s)] \<rparr>"
    show ?thesis
    proof (cases "saveFails env ?dup")
      case True
      with b Inr show ?thesis
        by (auto simp: body_def andThen_def callFileService_def repositorySave_def touchesOnly_def)
    next
      case False
      let ?w2 = "?w1 \<lparr> repository := repository ?w1 @ [toDoc ?dup] \<rparr>"
      obtain rc wc where c: "promiseAll (copyOptionalPart env ?dup) partsToCopy ?w2 = (rc, wc)"
        by (cases "promiseAll (copyOptionalPart env ?dup) partsToCopy ?w2")
      have "touchesOnly (sid ?dup) ?w2 wc"
        by (rule promiseAll_touchesOnly [OF copyOptionalPart_touchesOnly c])
      moreover have "touchesOnly (sid s) w ?w2"
        by (auto simp: touchesOnly_def)
      ultimately have "touchesOnly (sid s) w wc"
        by (auto intro: touchesOnly_trans)
      moreover have "wb = wc \<or> wb = wc \<lparr> calls := calls wc @ [ValidateParts (sid s), Emit CREATED [sid s]] \<rparr>"
        using b Inr False c
        by (auto simp: body_def andThen_def callFileService_def repositorySave_def
            emitValidated_entity succeed_def split: sum.splits)
      ultimately show ?thesis by auto
    qed
  qed
  show ?thesis
  proof (cases rb)
    case (Inr u)
    with assms b tb show ?thesis
      by (auto simp: splitOne_def tryCatch_def body_def [symmetric])
  next
    case (Inl err)
    with assms b have w': "snd (deleteSubmission env (ByEntity s) False wb) = w'"
      and r: "\<exists>e. r = Inl e"
      by (auto simp: splitOne_def tryCatch_def body_def [symmetric] andThen_def
          deleteSubmission_entity throw_def)
    have d: "repository w' = filter (\<lambda>d. sid d \<noteq> sid s) (repository wb)"
        "partStore w' = filter (\<lambda>p. submissionId p \<noteq> sid s) (partStore wb)"
        "nextId w' = nextId wb"
      using w' by (auto simp: deleteSubmission_entity)
    from tb d show ?thesis
      by (auto simp: touchesOnly_def)
  qed
qed

lemma splitEach_step:
  "splitEach env submission partsToCopy ord (extra # rest) w =
     (case splitOne env partsToCopy
             (submission \<lparr> sid := nextId w, order := ord + 1,
                           files := map_option (\<lambda>f. f \<lparr> additional := [], primary := extra \<rparr>)
                                      (files submission) \<rparr>)
             (w \<lparr> nextId := Suc (nextId w) \<rparr>) of
        (Inl e, w2) \<Rightarrow> (Inl e, w2)
      | (Inr u, w2) \<Rightarrow> splitEach env submission partsToCopy (ord + 1) rest w2)"
  by (simp add: copyEntity_def)

lemma fresh_after:
  assumes "fresh w" and "touchesOnly (nextId w) (w \<lparr> nextId := Suc (nextId w) \<rparr>) w'"
  shows "fresh w'"
  using assms by (fastforce simp: fresh_def touchesOnly_def)

lemma splitEach_failure:
  assumes "fresh w" and "splitEach env submission partsToCopy ord extras w = (Inl e, w')"
  shows "\<exists>n v. n < length extras
      \<and> splitEach env submission partsToCopy ord (take n extras) w = (Inr (), v)
      \<and> repository w' = repository v \<and> partStore w' = partStore v"
  using assms
proof (induction extras arbitrary: w ord)
  case Nil
  then show ?case by simp
next
  case (Cons extra rest)
  let ?s = "submission \<lparr> sid := nextId w, order := ord + 1,
                           files := map_option (\<lambda>f. f \<lparr> additional := [], primary := extra \<rparr>)
                                      (files submission) \<rparr>"
  let ?w1 = "w \<lparr> nextId := Suc (nextId w) \<rparr>"
  obtain r w2 where one: "splitOne env partsToCopy ?s ?w1 = (r, w2)"
    by (cases "splitOne env partsToCopy ?s ?w1")
  from splitOne_result [OF one]
  have t: "touchesOnly (nextId w) ?w1 w2"
    and f: "\<forall>e. r = Inl e \<longrightarrow> repository w2 = filter (\<lambda>d. sid d \<noteq> nextId w) (repository ?w1)
                       \<and> partStore w2 = filter (\<lambda>p. submissionId p \<noteq> nextId w) (partStore ?w1)"
    by simp_all
  show ?case
  proof (cases r)
    case (Inl err)
    with Cons.prems(2) one have "w' = w2"
      by (simp add: splitEach_step del: splitEach.simps)
    moreover from Cons.prems(1)
    have "filter (\<lambda>d. sid d \<noteq> nextId w) (repository w) = repository w"
      and "filter (\<lambda>p. submissionId p \<noteq> nextId w) (partStore w) = partStore w"
      by (simp_all add: fresh_def filter_fresh)
    ultimately have "repository w' = repository w \<and> partStore w' = partStore w"
      using f Inl by simp
    then show ?thesis
      by (intro exI [of _ 0] exI [of _ w]) simp
  next
    case (Inr u)
    with Cons.prems(2) one
    have rest: "splitEach env submission partsToCopy (ord + 1) rest w2 = (Inl e, w')"
      by (simp add: splitEach_step del: splitEach.simps)
    have "fresh w2"
      using Cons.prems(1) t by (rule fresh_after)
    from Cons.IH [OF this rest] obtain n v where
      n: "n < length rest"
      and v: "splitEach env submission partsToCopy (ord + 1) (take n rest) w2 = (Inr (), v)"
      and s: "repository w' = repository v \<and> partStore w' = partStore v"
      by blast
    have "splitEach env submission partsToCopy ord (take (Suc n) (extra # rest)) w = (Inr (), v)"
      using one Inr v by (simp add: splitEach_step del: splitEach.simps)
    with n s show ?thesis
      by (intro exI [of _ "Suc n"] exI [of _ v]) simp
  qed
qed

lemma split_failure:
  assumes "fresh w" and "splitAdditionalIntoSubmissions env i w = (Inl e, w')"
  shows "\<exists>n v submission partsToCopy.
      splitEach env submission partsToCopy (order submission)
        (take n (additionalFiles submission)) w = (Inr (), v)
      \<and> repository w' = repository v \<and> partStore w' = partStore v"
proof (cases "findOne w i")
  case None
  with assms(2) have "w' = w"
    by (simp add: splitAdditionalIntoSubmissions_def andThen_def get_def)
  then show ?thesis
    by (intro exI [of _ 0] exI [of _ w]) simp
next
  case (Some d)
  let ?s = "toEntity d (isCurrentlyPosting w i) (isCurrentlyQueued w i)"
  show ?thesis
  proof (cases "additionalFiles ?s = []")
    case True
    with assms(2) Some have "w' = w"
      by (simp add: splitAdditionalIntoSubmissions_def andThen_def get_def throw_def)
    then show ?thesis
      by (intro exI [of _ 0] exI [of _ w]) simp
  next
    case False
    let ?un = "map fst (filter (\<lambda>m. \<not> snd m) (websiteModules env))"
    let ?parts = "getPartsForSubmission w (sid ?s) True"
    let ?need = "filter (\<lambda>p. website p \<in> set ?un) (filter (\<lambda>p. \<not> isDefault p) ?parts)"
    from assms(2) Some False
    have "?need \<noteq> []"
      and "splitEach env ?s (map Some ?need @ [find isDefault ?parts]) (order ?s)
             (additionalFiles ?s) w = (Inl e, w')"
      by (auto simp: splitAdditionalIntoSubmissions_def andThen_def get_def Let_def
          split: if_splits)
    from splitEach_failure [OF assms(1) this(2)] show ?thesis
      by blast
  qed
qed

text \<open>
  A type that the enum object only inherits passes the guard of \<^verbatim>\<open>create\<close>: nothing is
  stored, and the error that surfaces is the NotFoundException of the handler; any other
  unknown type is a bad request.
\<close>

lemma create_inherited_type:
  "create env \<lparr> createType = ''constructor'', createTitle = t, createPath = None,
                 createFile = None \<rparr> w
     = (Inl (NotFoundException ''Submission null could not be found''),
        w \<lparr> nextId := Suc (nextId w) \<rparr>)
   \<and> create env \<lparr> createType = ''file'', createTitle = t, createPath = None,
                   createFile = None \<rparr> w
     = (Inl (BadRequestException ''Unknown submission type: file''), w)"
  by (simp add: create_def lookupSubmissionType_def objectPrototypeNames_def andThen_def
      tryCatch_def throw_def deleteSubmission_def get_def)

text \<open>
  C6 fails on the code for \<^verbatim>\<open>duplicate\<close> when the save of the duplicate fails: the
  handler calls \<^verbatim>\<open>deleteSubmission\<close> with the id of the duplicate, whose lookup throws
  NotFoundException, so the files that the file service duplicated are never cleaned up
  and the error of the save is not the one that surfaces. \<^verbatim>\<open>create\<close> passes the entity,
  cleans up and throws the wrapped error. (No record of the duplicate is left either
  way, as shown above.)
\<close>

theorem duplicate_save_failure_skips_cleanup:
  "duplicate (quietEnv \<lparr> saveFails := (\<lambda>s. True) \<rparr>) 1 (exampleWorld [fileDoc 1])
     = (Inl (NotFoundException ''Submission 10 could not be found''),
        (exampleWorld [fileDoc 1])
          \<lparr> nextId := 11, calls := [FileServiceCall DuplicateSubmission 10] \<rparr>)
   \<and> fst (create (quietEnv \<lparr> saveFails := (\<lambda>s. True) \<rparr>)
            \<lparr> createType = ''FILE'', createTitle = ''wolf'', createPath = None,
              createFile = None \<rparr> (exampleWorld [fileDoc 1]))
       = Inl (InternalServerErrorException (OtherError ''save''))
   \<and> CleanupSubmission 10 \<in> set (calls (snd (create (quietEnv \<lparr> saveFails := (\<lambda>s. True) \<rparr>)
            \<lparr> createType = ''FILE'', createTitle = ''wolf'', createPath = None,
              createFile = None \<rparr> (exampleWorld [fileDoc 1]))))"
  by code_simp

end
